(* ===== verification/Prelude.thy ===== *)
theory Prelude
  imports Main "HOL-Library.Multiset"
begin

text \<open>
  Shared vocabulary of the development: the names of the model's basic types, a
  model of the JSON values that the dashboard receives from its webhooks and
  reads with JavaScript's loose property access and truthiness, the results of
  remote storage calls, and the generic list lemmas the component theories use.
\<close>

named_theorems js_simps "evaluation rules of the JavaScript value helpers"

type_synonym user_id = string
type_synonym timestamp = int \<comment> \<open>milliseconds since the epoch, as \<open>Date.getTime()\<close>\<close>

subsection \<open>JSON values and JavaScript property access\<close>

text \<open>
  A parsed response body.  Numbers are integers (every amount, status and
  quota of the program is a whole number).  Objects are association lists in
  source order; \<open>JSON.parse\<close> keeps the last of duplicate keys, so a
  property read searches the reversed list.
\<close>

datatype json =
    JNull
  | JBool bool
  | JNum int
  | JStr string
  | JArr "json list"
  | JObj "(string \<times> json) list"

datatype js_error = TypeError string

text \<open>\<open>v.k\<close>: \<open>None\<close> is \<open>undefined\<close>; reading a property of \<open>null\<close> throws.\<close>

fun js_get :: "json \<Rightarrow> string \<Rightarrow> js_error + json option" where
  "js_get JNull k =
     Inl (TypeError (''Cannot read properties of null (reading '' @ [CHR 0x27] @ k @ [CHR 0x27] @ '')''))"
| "js_get (JObj kvs) k = Inr (map_of (rev kvs) k)"
| "js_get _ k = Inr None"

text \<open>Property read on a value that is known to be an object (or \<open>undefined\<close>).\<close>

fun js_field :: "json option \<Rightarrow> string \<Rightarrow> json option" where
  "js_field (Some (JObj kvs)) k = map_of (rev kvs) k"
| "js_field _ k = None"

fun js_truthy :: "json \<Rightarrow> bool" where
  "js_truthy JNull = False"
| "js_truthy (JBool b) = b"
| "js_truthy (JNum n) = (n \<noteq> 0)"
| "js_truthy (JStr s) = (s \<noteq> [])"
| "js_truthy (JArr _) = True"
| "js_truthy (JObj _) = True"

definition truthy :: "json option \<Rightarrow> bool" where
  "truthy v = (case v of None \<Rightarrow> False | Some x \<Rightarrow> js_truthy x)"

text \<open>Truthiness of a string that may be \<open>null\<close> or \<open>undefined\<close>
  (\<open>searchParams.get(...)\<close>, an optional column): only a non-empty string
  is truthy.\<close>

definition str_truthy :: "string option \<Rightarrow> bool" where
  "str_truthy s \<longleftrightarrow> (case s of None \<Rightarrow> False | Some x \<Rightarrow> x \<noteq> [])"

text \<open>The access token as the handlers test it, \<open>if (!session?.access_token)\<close>:
  a missing token and an empty one are both refused.\<close>

definition truthy_token :: "string option \<Rightarrow> string option" where
  "truthy_token t = (if str_truthy t then t else None)"

text \<open>\<open>a || b\<close>: the first operand when it is truthy, the second otherwise.\<close>

definition js_or :: "json option \<Rightarrow> json option \<Rightarrow> json option" where
  "js_or a b = (if truthy a then a else b)"

fun is_js_array :: "json \<Rightarrow> bool" where
  "is_js_array (JArr _) = True"
| "is_js_array _ = False"

text \<open>\<open>typeof v === "object"\<close> (which holds for \<open>null\<close> and arrays too).\<close>

fun js_typeof_object :: "json \<Rightarrow> bool" where
  "js_typeof_object JNull = True"
| "js_typeof_object (JArr _) = True"
| "js_typeof_object (JObj _) = True"
| "js_typeof_object _ = False"

subsection \<open>Decimal rendering of numbers\<close>

definition digit_char :: "nat \<Rightarrow> char" where
  "digit_char d = ''0123456789'' ! d"

fun nat_digits :: "nat \<Rightarrow> string" where
  "nat_digits n =
     (if n < 10 then [digit_char n] else nat_digits (n div 10) @ [digit_char (n mod 10)])"

declare nat_digits.simps [simp del]

definition int_to_string :: "int \<Rightarrow> string" where
  "int_to_string i = (if i < 0 then CHR ''-'' # nat_digits (nat (- i)) else nat_digits (nat i))"

text \<open>\<open>Array.prototype.join(",")\<close>.\<close>

fun join_commas :: "string list \<Rightarrow> string" where
  "join_commas [] = []"
| "join_commas [x] = x"
| "join_commas (x # xs) = x @ '','' @ join_commas xs"

text \<open>\<open>String(v)\<close>, as \<open>new Error(v)\<close> and template literals convert a value;
  an array joins its elements with commas, \<open>null\<close> elements as empty.\<close>

fun js_to_string :: "json \<Rightarrow> string" where
  "js_to_string JNull = ''null''"
| "js_to_string (JBool b) = (if b then ''true'' else ''false'')"
| "js_to_string (JNum n) = int_to_string n"
| "js_to_string (JStr s) = s"
| "js_to_string (JArr xs) =
     join_commas (map (\<lambda>x. if x = JNull then [] else js_to_string x) xs)"
| "js_to_string (JObj _) = ''[object Object]''"

definition js_opt_to_string :: "json option \<Rightarrow> string" where
  "js_opt_to_string v = (case v of None \<Rightarrow> ''undefined'' | Some x \<Rightarrow> js_to_string x)"

subsection \<open>String tests\<close>

text \<open>\<open>String.prototype.includes\<close>.\<close>

definition js_includes :: "string \<Rightarrow> string \<Rightarrow> bool" where
  "js_includes s sub = list_ex (\<lambda>i. take (length sub) (drop i s) = sub) [0..<Suc (length s)]"

text \<open>\<open>String.prototype.startsWith\<close>.\<close>

definition js_starts_with :: "string \<Rightarrow> string \<Rightarrow> bool" where
  "js_starts_with s pre \<longleftrightarrow> take (length pre) s = pre"

subsection \<open>Dates\<close>

text \<open>A string of decimal digits read as a number.\<close>

definition is_digit :: "char \<Rightarrow> bool" where
  "is_digit c \<longleftrightarrow> 48 \<le> (of_char c :: nat) \<and> (of_char c :: nat) \<le> 57"

definition decimal :: "string \<Rightarrow> int option" where
  "decimal s =
     (if s \<noteq> [] \<and> list_all is_digit s
      then Some (foldl (\<lambda>n c. 10 * n + (int (of_char c) - 48)) 0 s) else None)"

text \<open>Days from 1970-01-01 to a date of the proleptic Gregorian calendar
  (the civil-from-days algorithm run backwards).\<close>

definition days_from_civil :: "int \<Rightarrow> int \<Rightarrow> int \<Rightarrow> int" where
  "days_from_civil y m d =
     (let y1 = (if m \<le> 2 then y - 1 else y);
          era = y1 div 400; yoe = y1 - era * 400;
          doy = (153 * (if m > 2 then m - 3 else m + 9) + 2) div 5 + d - 1;
          doe = yoe * 365 + yoe div 4 - yoe div 100 + doy
      in era * 146097 + doe - 719468)"

text \<open>The time-zone suffix of an ISO string, as minutes east of UTC.\<close>

definition iso_offset :: "string \<Rightarrow> int option" where
  "iso_offset z =
     (if z = ''Z'' then Some 0
      else if length z = 6 \<and> z ! 3 = CHR '':'' \<and> (z ! 0 = CHR ''+'' \<or> z ! 0 = CHR ''-'') then
        (case (decimal (take 2 (drop 1 z)), decimal (drop 4 z)) of
           (Some h, Some m) \<Rightarrow> if h < 24 \<and> m < 60 then Some ((if z ! 0 = CHR ''-'' then -1 else 1) * (h * 60 + m)) else None
         | _ \<Rightarrow> None)
      else None)"

text \<open>\<open>new Date(s).getTime()\<close> for the date-time strings the store returns:
  \<open>YYYY-MM-DDTHH:MM:SS\<close> (or a space for \<open>T\<close>), optional fractional
  seconds of which milliseconds are kept, and \<open>Z\<close> or \<open>+HH:MM\<close>.  Other
  forms (dates alone, local times without an offset, malformed strings) are
  \<open>None\<close>.\<close>

definition iso_instant :: "string \<Rightarrow> int option" where
  "iso_instant s =
     (let f = (\<lambda>i n. decimal (take n (drop i s)));
          at = (\<lambda>i c. i < length s \<and> s ! i = c);
          rest = drop 19 s;
          frac = (if rest \<noteq> [] \<and> hd rest = CHR ''.'' then takeWhile is_digit (tl rest) else []);
          zone = (if rest \<noteq> [] \<and> hd rest = CHR ''.'' then dropWhile is_digit (tl rest) else rest);
          dot_ok = (rest = [] \<or> hd rest \<noteq> CHR ''.'' \<or> frac \<noteq> [])
      in case (f 0 4, f 5 2, f 8 2, f 11 2, f 14 2, f 17 2, iso_offset zone) of
           (Some y, Some mo, Some d, Some h, Some mi, Some se, Some off) \<Rightarrow>
             if at 4 CHR ''-'' \<and> at 7 CHR ''-'' \<and> (at 10 CHR ''T'' \<or> at 10 CHR '' '') \<and> at 13 CHR '':'' \<and> at 16 CHR '':''
                \<and> 1 \<le> mo \<and> mo \<le> 12 \<and> 1 \<le> d \<and> d \<le> 31 \<and> h < 24 \<and> mi < 60 \<and> se < 60 \<and> dot_ok
             then Some (days_from_civil y mo d * 86400000 + h * 3600000 + mi * 60000 + se * 1000
                        + (case decimal (take 3 (frac @ ''000'')) of Some ms \<Rightarrow> ms | None \<Rightarrow> 0) - off * 60000)
             else None
         | _ \<Rightarrow> None)"

subsection \<open>Remote storage results\<close>

text \<open>
  Every storage call of the client resolves to \<open>{data, error}\<close>: either an
  error object or the data.  A read with \<open>maybeSingle()\<close> yields \<open>None\<close>
  when no row matches.
\<close>

datatype 'a db_result = DbOk 'a | DbErr string

subsection \<open>Generic lemmas\<close>

text \<open>Handlers match a successful answer as \<open>Inr ()\<close>; the case on the unit
  value that splitting the sum leaves behind is dropped by the simplifier.\<close>

declare case_unit_Unity [simp]

lemma str_truthy_simps [simp, js_simps]:
  "\<not> str_truthy None" "str_truthy (Some x) \<longleftrightarrow> x \<noteq> []"
  by (simp_all add: str_truthy_def)

lemma truthy_token_simps [simp, js_simps]:
  "truthy_token None = None" "truthy_token (Some t) = (if t = [] then None else Some t)"
  by (simp_all add: truthy_token_def)

lemma case_truthy_token [simp]:
  "str_truthy t \<Longrightarrow> (case truthy_token t of None \<Rightarrow> a | Some x \<Rightarrow> f x) = f (the t)"
  "\<not> str_truthy t \<Longrightarrow> truthy_token t = None"
  by (cases t; simp)+

lemma truthy_simps [simp, js_simps]:
  "truthy None = False"
  "truthy (Some x) = js_truthy x"
  by (simp_all add: truthy_def)

lemma js_or_simps [simp, js_simps]:
  "truthy a \<Longrightarrow> js_or a b = a"
  "\<not> truthy a \<Longrightarrow> js_or a b = b"
  by (simp_all add: js_or_def)

lemma foldl_add_shift:
  "foldl (\<lambda>acc x. acc + f x) (a :: int) xs = a + sum_list (map f xs)"
  by (induction xs arbitrary: a) (simp_all add: algebra_simps)

lemma sum_list_map_mset_eq:
  fixes f :: "'a \<Rightarrow> 'b::comm_monoid_add"
  assumes "mset xs = mset ys"
  shows "sum_list (map f xs) = sum_list (map f ys)"
proof -
  have "sum_list (map f xs) = sum_mset (mset (map f xs))"
    by (simp only: sum_mset_sum_list)
  also have "\<dots> = sum_mset (mset (map f ys))"
    by (simp only: mset_map assms)
  also have "\<dots> = sum_list (map f ys)"
    by (simp only: sum_mset_sum_list)
  finally show ?thesis .
qed

lemma js_get_Inl_iff [simp]: "js_get x k = Inl e \<longleftrightarrow> x = JNull \<and> e = TypeError (''Cannot read properties of null (reading '' @ [CHR 0x27] @ k @ [CHR 0x27] @ '')'')"
  by (cases x) auto

end
