(* ===== verification/Ledger.thy ===== *)
theory Ledger
  imports Prelude
begin

text \<open>
  The ledger: transaction rows of the \<open>transactions\<close> table
  (\<open>src/lib/supabase.ts\<close>) and the fold that derives a balance from them,
  written twice in the code with the same callback: in \<open>fetchUserData\<close> of
  \<open>src/app/dashboard/balance/page.tsx\<close> and in the post-create reconciliation of
  \<open>handleCreateBot\<close> in \<open>src/app/dashboard/page.tsx\<close>.  The reference
  specification is the signed sum of the log; the fold is proved equal to it,
  hence independent of the order in which the rows are fetched.
\<close>

datatype transaction_type = Topup | Usage

text \<open>
  A row.  The amount is the value the client passes to \<open>Number(...)\<close>:
  \<open>Some n\<close> for a numeric value, \<open>None\<close> for one that \<open>Number\<close> maps to
  \<open>NaN\<close> (a malformed field).
\<close>

record transaction =
  t_id :: string
  t_user_id :: user_id
  t_type :: transaction_type
  t_amount :: "int option"
  t_description :: "string option"
  t_created_at :: string

text \<open>\<open>Number(t.amount) || 0\<close>: \<open>NaN\<close> and \<open>0\<close> both become \<open>0\<close>.\<close>

definition coerce_amount :: "int option \<Rightarrow> int" where
  "coerce_amount a = (case a of None \<Rightarrow> 0 | Some n \<Rightarrow> (if n \<noteq> 0 then n else 0))"

text \<open>The callback of \<open>reduce\<close>: \<open>acc + (t.type === "topup" ? amt : -amt)\<close>.\<close>

definition reconcile_step :: "int \<Rightarrow> transaction \<Rightarrow> int" where
  "reconcile_step acc t =
     (let amt = coerce_amount (t_amount t)
      in acc + (if t_type t = Topup then amt else - amt))"

text \<open>\<open>transactionsData.reduce(callback, 0)\<close>.\<close>

definition reconcile :: "transaction list \<Rightarrow> int" where
  "reconcile ts = foldl reconcile_step 0 ts"

subsection \<open>Reference specification\<close>

text \<open>Spec, section 4.2: \<open>balance = \<Sigma>(type = topup ? +amount : -amount)\<close>.\<close>

definition signed_amount :: "transaction \<Rightarrow> int" where
  "signed_amount t = (if t_type t = Topup then coerce_amount (t_amount t) else - coerce_amount (t_amount t))"

definition ledger_sum :: "transaction list \<Rightarrow> int" where
  "ledger_sum ts = sum_list (map signed_amount ts)"

text \<open>The rows of one user, as \<open>.eq("user_id", user.id)\<close> selects them.\<close>

definition user_txs :: "user_id \<Rightarrow> transaction list \<Rightarrow> transaction list" where
  "user_txs u ts = filter (\<lambda>t. t_user_id t = u) ts"

text \<open>Two rows of one user, the specification's example (section 8).\<close>

abbreviation example_topup :: transaction where
  "example_topup \<equiv> \<lparr>t_id = ''t1'', t_user_id = ''u1'', t_type = Topup, t_amount = Some 50000,
                     t_description = None, t_created_at = ''2025-01-01''\<rparr>"

abbreviation example_usage :: transaction where
  "example_usage \<equiv> \<lparr>t_id = ''t2'', t_user_id = ''u1'', t_type = Usage, t_amount = Some 20000,
                     t_description = None, t_created_at = ''2025-01-02''\<rparr>"

subsection \<open>Basic facts\<close>

lemma coerce_amount_simps [simp]:
  "coerce_amount None = 0"
  "coerce_amount (Some n) = n"
  by (simp_all add: coerce_amount_def)

lemma reconcile_step_signed: "reconcile_step acc t = acc + signed_amount t"
  by (simp add: reconcile_step_def signed_amount_def Let_def)

lemma reconcile_foldl: "foldl reconcile_step a ts = a + ledger_sum ts"
proof -
  have "foldl reconcile_step a ts = foldl (\<lambda>acc t. acc + signed_amount t) a ts"
    by (simp add: reconcile_step_signed [abs_def])
  then show ?thesis by (simp add: foldl_add_shift ledger_sum_def)
qed

lemma ledger_sum_simps [simp]:
  "ledger_sum [] = 0"
  "ledger_sum (t # ts) = signed_amount t + ledger_sum ts"
  "ledger_sum (xs @ ys) = ledger_sum xs + ledger_sum ys"
  by (simp_all add: ledger_sum_def)

lemmas ledger_facts = reconcile_foldl reconcile_step_signed signed_amount_def

subsection \<open>Helper lemmas on the fold\<close>

lemma reconcile_eq_ledger_sum: "reconcile ts = ledger_sum ts"
  by (simp add: reconcile_def reconcile_foldl)

lemma reconcile_append: "reconcile (xs @ ys) = reconcile xs + reconcile ys"
  by (simp add: reconcile_eq_ledger_sum)

lemma reconcile_snoc_usage:
  "t_type t = Usage \<Longrightarrow> t_amount t = Some p \<Longrightarrow> reconcile (ts @ [t]) = reconcile ts - p"
  by (simp add: reconcile_append reconcile_eq_ledger_sum signed_amount_def)

lemma reconcile_snoc_topup:
  "t_type t = Topup \<Longrightarrow> t_amount t = Some p \<Longrightarrow> reconcile (ts @ [t]) = reconcile ts + p"
  by (simp add: reconcile_append reconcile_eq_ledger_sum signed_amount_def)

lemma reconcile_cons:
  "reconcile (t # ts) = signed_amount t + reconcile ts"
  by (simp add: reconcile_eq_ledger_sum)


subsection \<open>Properties of the reconciliation fold\<close>

text \<open>C1: The reconciliation fold computes the signed sum of the transaction
  log: each top-up adds its amount, every other row subtracts it, and a
  malformed amount counts as 0.\<close>

theorem reconcile_spec:
  "reconcile ts =
     (\<Sum>t\<leftarrow>ts. if t_type t = Topup then coerce_amount (t_amount t) else - coerce_amount (t_amount t))"
  by (simp add: reconcile_eq_ledger_sum ledger_sum_def signed_amount_def [abs_def])

text \<open>The reconciled balance does not depend on the order in which the
  rows are fetched.\<close>

theorem reconcile_order_independent:
  "mset xs = mset ys \<Longrightarrow> reconcile xs = reconcile ys"
  unfolding reconcile_eq_ledger_sum ledger_sum_def by (rule sum_list_map_mset_eq)

theorem reconcile_order_independent_witness:
  "mset [example_topup, example_usage] = mset [example_usage, example_topup]
   \<and> reconcile [example_topup, example_usage] = reconcile [example_usage, example_topup]"
proof -
  have h: "mset [example_topup, example_usage] = mset [example_usage, example_topup]"
    by (simp add: add_mset_commute)
  show ?thesis by (rule conjI [OF h reconcile_order_independent [OF h]])
qed

text \<open>Rows whose amount is malformed contribute nothing: reconciling the
  log equals reconciling only its well-formed rows.\<close>

theorem reconcile_ignores_malformed:
  "reconcile ts = reconcile (filter (\<lambda>t. t_amount t \<noteq> None) ts)"
  by (induction ts) (auto simp: reconcile_eq_ledger_sum signed_amount_def)

text \<open>The specification's two examples: the empty log reconciles to 0,
  and a top-up of 50000 followed by a usage of 20000 to 30000.\<close>

theorem reconcile_examples:
  "reconcile [] = 0 \<and> reconcile [example_topup, example_usage] = 30000"
  by (simp add: reconcile_def reconcile_step_def)

end
