(* ===== verification/Tables.thy ===== *)
theory Tables
  imports Ledger
begin

text \<open>
  The remote tables the dashboard reads and writes, from the \<open>Database\<close>
  type of \<open>src/lib/supabase.ts\<close>, and the semantics of the storage calls the
  client makes on them (insert, upsert keyed on \<open>user_id\<close>, update filtered
  by \<open>id\<close> and \<open>user_id\<close>, append to a log).  The storage service itself is
  outside the repository; its operations follow the specification's
  description of it (section 4.2: upsert is insert-or-replace, one row per
  user).
\<close>

subsection \<open>Rows\<close>

datatype payment_status = Pending | Paid | Expired

record payment =
  p_id :: string
  p_user_id :: user_id
  p_external_id :: "string option"
  p_invoice_url :: "string option"
  p_amount :: int
  p_status :: payment_status
  p_created_at :: string

text \<open>A chatbot row.  \<open>status\<close> is free text in the schema; the code knows
  \<open>PROVISIONING\<close>, \<open>NEED_SCAN_QR\<close> and \<open>WORKING\<close>.  \<open>expired_at\<close> is
  the instant its ISO string denotes.\<close>

record chatbot =
  c_id :: string
  c_user_id :: "user_id option"
  c_name :: "string option"
  c_is_active :: bool
  c_status :: "string option"
  c_plan_id :: string
  c_is_auto_renewal :: "bool option"
  c_ai_usages :: "int option"
  c_ai_quota :: "int option"
  c_prompt :: "string option"
  c_created_at :: string
  c_updated_at :: "string option"
  c_expired_at :: "timestamp option"

record plan =
  pl_id :: string
  pl_name :: string
  pl_price_per_month :: int
  pl_description :: "string option"
  pl_ai_quota :: int

text \<open>The \<open>balances\<close> table has one row per user; \<open>transactions\<close> and
  \<open>payments\<close> are append-only logs; chatbots are rows keyed by id.\<close>

record store =
  balances :: "user_id \<rightharpoonup> int"
  transactions :: "transaction list"
  payments :: "payment list"
  chatbots :: "chatbot list"

subsection \<open>Storage operations\<close>

text \<open>An \<open>insert\<close> of a second row for a user violates the unique key that
  \<open>onConflict: "user_id"\<close> presupposes and leaves the table unchanged.\<close>

definition insert_balance :: "user_id \<Rightarrow> int \<Rightarrow> store \<Rightarrow> unit db_result \<times> store" where
  "insert_balance u v st =
     (if balances st u = None then (DbOk (), st\<lparr>balances := (balances st)(u \<mapsto> v)\<rparr>)
      else (DbErr ''duplicate key value violates unique constraint'', st))"

definition upsert_balance :: "user_id \<Rightarrow> int \<Rightarrow> store \<Rightarrow> store" where
  "upsert_balance u v st = st\<lparr>balances := (balances st)(u \<mapsto> v)\<rparr>"

definition insert_transaction :: "transaction \<Rightarrow> store \<Rightarrow> store" where
  "insert_transaction t st = st\<lparr>transactions := transactions st @ [t]\<rparr>"

definition user_payments :: "user_id \<Rightarrow> payment list \<Rightarrow> payment list" where
  "user_payments u ps = filter (\<lambda>p. p_user_id p = u) ps"

text \<open>\<open>.update(f).eq("id", i).eq("user_id", u)\<close>: every matching row.\<close>

definition update_chatbot ::
  "string \<Rightarrow> user_id \<Rightarrow> (chatbot \<Rightarrow> chatbot) \<Rightarrow> store \<Rightarrow> store" where
  "update_chatbot i u f st =
     st\<lparr>chatbots := map (\<lambda>c. if c_id c = i \<and> c_user_id c = Some u then f c else c) (chatbots st)\<rparr>"

text \<open>An example row: a working bot of user \<open>u1\<close> whose plan expires at
  instant 1000 with an AI quota of 100.\<close>

abbreviation example_bot :: chatbot where
  "example_bot \<equiv>
     \<lparr>c_id = ''b1'', c_user_id = Some ''u1'', c_name = Some ''Toko'', c_is_active = True,
      c_status = Some ''WORKING'', c_plan_id = ''p1'', c_is_auto_renewal = None,
      c_ai_usages = Some 3, c_ai_quota = Some 100, c_prompt = None,
      c_created_at = ''2025-01-01'', c_updated_at = None, c_expired_at = Some 1000\<rparr>"

text \<open>A plan \<open>Basic\<close> of 50000 a month.\<close>

abbreviation example_plan :: plan where
  "example_plan \<equiv> \<lparr>pl_id = ''p1'', pl_name = ''Basic'', pl_price_per_month = 50000,
                    pl_description = None, pl_ai_quota = 1000\<rparr>"

subsection \<open>Basic facts\<close>

lemma insert_balance_simps [simp]:
  "balances st u = None \<Longrightarrow> snd (insert_balance u b st) = upsert_balance u b st"
  "balances st u = Some c \<Longrightarrow> snd (insert_balance u b st) = st"
  by (simp_all add: insert_balance_def upsert_balance_def)

lemma upsert_balance_fields [simp]:
  "balances (upsert_balance u b st) = (balances st)(u \<mapsto> b)"
  "transactions (upsert_balance u b st) = transactions st"
  "payments (upsert_balance u b st) = payments st"
  "chatbots (upsert_balance u b st) = chatbots st"
  by (simp_all add: upsert_balance_def)

lemma upsert_balance_same [simp]: "balances st u = Some b \<Longrightarrow> upsert_balance u b st = st"
  by (simp add: upsert_balance_def map_upd_triv)

lemma insert_transaction_fields [simp]:
  "balances (insert_transaction t st) = balances st"
  "transactions (insert_transaction t st) = transactions st @ [t]"
  "chatbots (insert_transaction t st) = chatbots st"
  by (simp_all add: insert_transaction_def)

end
