(* ===== verification/Balance_Page.thy ===== *)
theory Balance_Page
  imports Tables
begin

text \<open>
  The balance page's refresh cycle, \<open>fetchUserData\<close> in
  \<open>src/app/dashboard/balance/page.tsx\<close>, over a model of the remote tables it
  touches.  The cycle is a straight-line sequence of awaited storage calls;
  it is modelled as the list of effects it issues (storage writes and view
  state updates) as a function of the responses of its three reads.  Running
  the effects against a store and the page's view state gives the cycle's
  result.  The lemmas show what the cycle reads and writes on every branch,
  that the balance is applied to the view exactly once and last, and which
  branches overwrite a stored balance.
\<close>

subsection \<open>View state and effects\<close>

text \<open>The page's \<open>useState\<close> cells that the cycle writes; the balance starts
  at the literal \<open>181000\<close>.\<close>

record balance_view =
  bv_balance :: int
  bv_transactions :: "transaction list"
  bv_payments :: "payment list"
  bv_loading :: bool

definition balance_view_init :: balance_view where
  "balance_view_init =
     \<lparr>bv_balance = 181000, bv_transactions = [], bv_payments = [], bv_loading = True\<rparr>"

datatype effect =
    InsertBalance user_id int
  | UpsertBalance user_id int
  | SetTransactions "transaction list"
  | SetPayments "payment list"
  | SetBalance int
  | SetLoading bool

subsection \<open>The cycle, block by block\<close>

text \<open>Fetch balance: returns \<open>nextBalance\<close>, \<open>hadBalanceRecord\<close> and the
  writes.  A read error and a missing row both give \<open>0\<close>; only a missing
  row inserts one.\<close>

definition read_balance_block :: "user_id \<Rightarrow> int option db_result \<Rightarrow> int option \<times> bool \<times> effect list" where
  "read_balance_block u rb =
     (case rb of
        DbErr _ \<Rightarrow> (Some 0, False, [])
      | DbOk (Some b) \<Rightarrow> (Some b, True, [])
      | DbOk None \<Rightarrow> (Some 0, False, [InsertBalance u 0]))"

text \<open>Fetch transactions: without a balance row the balance is recomputed
  from the fetched rows (\<open>computed\<close> is an integer, never \<open>NaN\<close>).\<close>

definition read_transactions_block ::
  "int option \<Rightarrow> bool \<Rightarrow> transaction list option db_result \<Rightarrow> int option \<times> effect list" where
  "read_transactions_block nb had rt =
     (case rt of
        DbErr _ \<Rightarrow> (nb, [SetTransactions []])
      | DbOk (Some ts) \<Rightarrow> ((if \<not> had then Some (reconcile ts) else nb), [SetTransactions ts])
      | DbOk None \<Rightarrow> (nb, [SetTransactions []]))"

definition read_payments_block :: "payment list option db_result \<Rightarrow> effect list" where
  "read_payments_block rp =
     (case rp of
        DbErr _ \<Rightarrow> [SetPayments []]
      | DbOk (Some ps) \<Rightarrow> [SetPayments ps]
      | DbOk None \<Rightarrow> [SetPayments []])"

text \<open>Apply the balance once: persist it with an upsert, then set it.\<close>

definition apply_balance_block :: "user_id \<Rightarrow> int option \<Rightarrow> effect list" where
  "apply_balance_block u nb =
     (case nb of None \<Rightarrow> [] | Some b \<Rightarrow> [UpsertBalance u b, SetBalance b])"

text \<open>The whole cycle; \<open>if (!user) return\<close> issues nothing, and
  \<open>finally\<close> clears the loading flag.\<close>

definition fetch_user_data ::
  "user_id option \<Rightarrow> int option db_result \<Rightarrow> transaction list option db_result
   \<Rightarrow> payment list option db_result \<Rightarrow> effect list" where
  "fetch_user_data user rb rt rp =
     (case user of
        None \<Rightarrow> []
      | Some u \<Rightarrow>
          (let (nb0, had, e0) = read_balance_block u rb;
               (nb1, e1) = read_transactions_block nb0 had rt;
               e2 = read_payments_block rp
           in e0 @ e1 @ e2 @ apply_balance_block u nb1 @ [SetLoading False]))"

subsection \<open>Running effects\<close>

fun run_effect :: "store \<times> balance_view \<Rightarrow> effect \<Rightarrow> store \<times> balance_view" where
  "run_effect (st, v) (InsertBalance u b) = (snd (insert_balance u b st), v)"
| "run_effect (st, v) (UpsertBalance u b) = (upsert_balance u b st, v)"
| "run_effect (st, v) (SetTransactions ts) = (st, v\<lparr>bv_transactions := ts\<rparr>)"
| "run_effect (st, v) (SetPayments ps) = (st, v\<lparr>bv_payments := ps\<rparr>)"
| "run_effect (st, v) (SetBalance b) = (st, v\<lparr>bv_balance := b\<rparr>)"
| "run_effect (st, v) (SetLoading l) = (st, v\<lparr>bv_loading := l\<rparr>)"

definition run_effects :: "store \<times> balance_view \<Rightarrow> effect list \<Rightarrow> store \<times> balance_view" where
  "run_effects sv es = foldl run_effect sv es"

text \<open>One cycle whose three reads all succeed against the store \<open>st\<close>.\<close>

definition fetch_cycle :: "store \<Rightarrow> balance_view \<Rightarrow> user_id \<Rightarrow> store \<times> balance_view" where
  "fetch_cycle st v u =
     run_effects (st, v)
       (fetch_user_data (Some u) (DbOk (balances st u))
          (DbOk (Some (user_txs u (transactions st))))
          (DbOk (Some (user_payments u (payments st)))))"

text \<open>Spec, section 3: at a settled point the stored balance is the signed
  sum of the user's transactions.\<close>

definition balance_consistent :: "store \<Rightarrow> user_id \<Rightarrow> bool" where
  "balance_consistent st u \<longleftrightarrow> balances st u = Some (reconcile (user_txs u (transactions st)))"

fun is_set_balance :: "effect \<Rightarrow> bool" where
  "is_set_balance (SetBalance _) = True"
| "is_set_balance _ = False"

fun is_balance_write :: "effect \<Rightarrow> bool" where
  "is_balance_write (InsertBalance _ _) = True"
| "is_balance_write (UpsertBalance _ _) = True"
| "is_balance_write _ = False"

text \<open>The effect writes no balance row but \<open>u\<close>'s.\<close>

fun writes_only :: "user_id \<Rightarrow> effect \<Rightarrow> bool" where
  "writes_only u (InsertBalance w _) = (w = u)"
| "writes_only u (UpsertBalance w _) = (w = u)"
| "writes_only u _ = True"

text \<open>Example stores: user \<open>u1\<close> with and without a balance row, and the
  two example transactions of \<open>Ledger\<close>.\<close>

abbreviation example_store_row :: store where
  "example_store_row \<equiv> \<lparr>balances = [''u1'' \<mapsto> 30000], transactions = [example_topup, example_usage],
                        payments = [], chatbots = []\<rparr>"

abbreviation example_store_norow :: store where
  "example_store_norow \<equiv> \<lparr>balances = Map.empty, transactions = [example_topup, example_usage],
                          payments = [], chatbots = []\<rparr>"

subsection \<open>Evaluation lemmas\<close>

lemma run_effects_simps [simp]:
  "run_effects sv [] = sv"
  "run_effects sv (e # es) = run_effects (run_effect sv e) es"
  "run_effects sv (xs @ ys) = run_effects (run_effects sv xs) ys"
  by (simp_all add: run_effects_def)

lemmas fetch_blocks = fetch_user_data_def read_balance_block_def read_transactions_block_def
  read_payments_block_def apply_balance_block_def

lemma fetch_user_data_ends_with_balance:
  "\<exists>pre b. fetch_user_data (Some u) rb rt rp = pre @ [SetBalance b, SetLoading False]
     \<and> \<not> list_ex is_set_balance pre
     \<and> (\<exists>ts. SetTransactions ts \<in> set pre) \<and> (\<exists>ps. SetPayments ps \<in> set pre)"
  by (auto simp: fetch_blocks split: db_result.splits option.splits)

lemma bv_balance_run_effects:
  "\<not> list_ex is_set_balance es \<Longrightarrow> bv_balance (snd (run_effects (st, v) es)) = bv_balance v"
proof (induction es arbitrary: st v)
  case Nil
  then show ?case by simp
next
  case (Cons e es)
  then show ?case by (cases e) auto
qed

lemma run_effects_other_user:
  "list_all (writes_only u) es \<Longrightarrow> w \<noteq> u \<Longrightarrow>
     balances (fst (run_effects (st, v) es)) w = balances st w"
proof (induction es arbitrary: st v)
  case Nil
  then show ?case by simp
next
  case (Cons e es)
  then show ?case
    by (cases e) (auto simp: insert_balance_def upsert_balance_def)
qed

subsection \<open>Properties of the refresh cycle\<close>

text \<open>C3: With a balance row, the cycle shows the stored balance, the user's
  transactions and payments, clears the loading flag, and leaves the store as
  it was (the upsert writes back the value it read).\<close>

theorem fetch_cycle_with_record:
  assumes "balances st u = Some b"
  shows "fetch_cycle st v u =
    (st, v\<lparr>bv_transactions := user_txs u (transactions st),
           bv_payments := user_payments u (payments st),
           bv_balance := b, bv_loading := False\<rparr>)"
  using assms by (simp add: fetch_cycle_def fetch_blocks)

theorem fetch_cycle_with_record_witness:
  "balances example_store_row ''u1'' = Some 30000
   \<and> fetch_cycle example_store_row balance_view_init ''u1'' =
       (example_store_row, balance_view_init\<lparr>bv_transactions := [example_topup, example_usage],
          bv_payments := [], bv_balance := 30000, bv_loading := False\<rparr>)"
proof -
  have h: "balances example_store_row ''u1'' = Some 30000" by simp
  from fetch_cycle_with_record [OF h, of balance_view_init] h show ?thesis
    by (simp add: user_txs_def user_payments_def)
qed

text \<open>C2: Without a balance row, the cycle derives the balance from the
  user's transactions, persists it and shows it.\<close>

theorem fetch_cycle_without_record:
  assumes "balances st u = None"
  shows "fetch_cycle st v u =
    (upsert_balance u (reconcile (user_txs u (transactions st))) st,
     v\<lparr>bv_transactions := user_txs u (transactions st),
       bv_payments := user_payments u (payments st),
       bv_balance := reconcile (user_txs u (transactions st)), bv_loading := False\<rparr>)"
  using assms by (simp add: fetch_cycle_def fetch_blocks upsert_balance_def)

theorem fetch_cycle_without_record_witness:
  "balances example_store_norow ''u1'' = None
   \<and> bv_balance (snd (fetch_cycle example_store_norow balance_view_init ''u1'')) = 30000
   \<and> balances (fst (fetch_cycle example_store_norow balance_view_init ''u1'')) ''u1'' = Some 30000"
proof -
  have h: "balances example_store_norow ''u1'' = None" by simp
  from fetch_cycle_without_record [OF h, of balance_view_init] h show ?thesis
    by (simp add: user_txs_def reconcile_def reconcile_step_def)
qed

text \<open>C21: After a cycle the stored balance agrees with the ledger exactly when
  there was no row before or the row already agreed: a stale row is trusted
  and never repaired.\<close>

theorem fetch_cycle_consistency:
  "balance_consistent (fst (fetch_cycle st v u)) u \<longleftrightarrow>
     balances st u = None \<or> balance_consistent st u"
proof (cases "balances st u")
  case None
  then show ?thesis
    by (simp add: fetch_cycle_def fetch_blocks balance_consistent_def)
next
  case (Some b)
  then show ?thesis
    by (simp add: fetch_cycle_def fetch_blocks balance_consistent_def)
qed

text \<open>C22: A second cycle on the state the first one left changes nothing.\<close>

theorem fetch_cycle_idempotent:
  "fetch_cycle (fst (fetch_cycle st v u)) (snd (fetch_cycle st v u)) u = fetch_cycle st v u"
  by (cases "balances st u") (simp_all add: fetch_cycle_def fetch_blocks user_txs_def)

text \<open>C6: The balance is applied to the view once, after all reads: every
  proper prefix of the cycle's effects, up to the last state update, leaves
  the visible balance as it was.\<close>

theorem fetch_balance_applied_last:
  assumes "k < length (fetch_user_data (Some u) rb rt rp) - 1"
  shows "bv_balance (snd (run_effects (st, v) (take k (fetch_user_data (Some u) rb rt rp)))) = bv_balance v"
proof -
  obtain pre b where eq: "fetch_user_data (Some u) rb rt rp = pre @ [SetBalance b, SetLoading False]"
    and pre: "\<not> list_ex is_set_balance pre"
    using fetch_user_data_ends_with_balance by blast
  from assms eq have "take k (fetch_user_data (Some u) rb rt rp) = take k pre"
    by simp
  moreover from pre have "\<not> list_ex is_set_balance (take k pre)"
    by (auto simp: list_ex_iff dest: in_set_takeD)
  ultimately show ?thesis by (simp add: bv_balance_run_effects)
qed

theorem fetch_balance_applied_last_witness:
  "4 < length (fetch_user_data (Some ''u1'') (DbOk None) (DbOk (Some [example_topup])) (DbOk (Some []))) - 1
   \<and> bv_balance (snd (run_effects (example_store_norow, balance_view_init)
        (take 4 (fetch_user_data (Some ''u1'') (DbOk None) (DbOk (Some [example_topup])) (DbOk (Some []))))))
     = 181000"
proof -
  have h: "4 < length (fetch_user_data (Some ''u1'') (DbOk None) (DbOk (Some [example_topup])) (DbOk (Some []))) - 1"
    by (simp add: fetch_blocks)
  have "bv_balance balance_view_init = 181000" by (simp add: balance_view_init_def)
  with fetch_balance_applied_last [OF h, of example_store_norow balance_view_init] h show ?thesis
    by simp
qed

text \<open>C17: When both the balance read and the transactions read fail, the
  cycle upserts 0 over whatever balance the user had.\<close>

theorem fetch_reads_fail_zeroes_balance:
  "fst (run_effects (st, v) (fetch_user_data (Some u) (DbErr e1) (DbErr e2) rp)) = upsert_balance u 0 st"
  by (simp add: fetch_blocks split: db_result.splits option.splits)

text \<open>C23: Without a balance row the cycle writes the balance twice: an insert
  of 0, then the upsert of the reconciled value.\<close>

theorem fetch_no_record_writes:
  "filter is_balance_write (fetch_user_data (Some u) (DbOk None) (DbOk (Some ts)) rp)
     = [InsertBalance u 0, UpsertBalance u (reconcile ts)]"
  by (simp add: fetch_blocks split: db_result.splits option.splits)

text \<open>A cycle for one user never changes another user's balance row.\<close>

theorem fetch_other_users_untouched:
  assumes "w \<noteq> u"
  shows "balances (fst (run_effects (st, v) (fetch_user_data (Some u) rb rt rp))) w = balances st w"
proof -
  have "list_all (writes_only u) (fetch_user_data (Some u) rb rt rp)"
    by (simp add: fetch_blocks split: db_result.splits option.splits)
  then show ?thesis using assms by (rule run_effects_other_user)
qed

theorem fetch_other_users_untouched_witness:
  "''u2'' \<noteq> ''u1''
   \<and> balances (fst (run_effects (example_store_row, balance_view_init)
        (fetch_user_data (Some ''u1'') (DbErr ''timeout'') (DbErr ''timeout'') (DbOk None)))) ''u2''
     = balances example_store_row ''u2''"
proof -
  have h: "''u2'' \<noteq> ''u1''" by simp
  show ?thesis
    by (rule conjI [OF h fetch_other_users_untouched [OF h]])
qed

end
