(* ===== verification/Gateway.thy ===== *)
theory Gateway
  imports Prelude
begin

text \<open>
  The action gateway client for top-ups: \<open>handleTopup\<close> in
  \<open>src/app/dashboard/balance/page.tsx\<close>.  It posts the amount to the
  \<open>topup-balance\<close> webhook and sniffs the answer for one of four shapes
  (an object with \<open>success\<close>, an array of payments, an object with
  \<open>invoice_url\<close> or \<open>id\<close>, or a failure object).  The model keeps
  JavaScript's loose property reads: a read on \<open>null\<close> throws, a missing
  key is \<open>undefined\<close>, and every test is a truthiness test.  The
  specification's normalised result (section 4.3) is the abstract contract;
  \<open>topup_normalize\<close> maps each outcome of the handler onto it.
\<close>

subsection \<open>The request\<close>

text \<open>White space as \<open>trim\<close> and \<open>parseInt\<close> skip it (ECMAScript's
  WhiteSpace and LineTerminator): tab, line feed, vertical tab, form feed,
  carriage return, space and no-break space.  A \<open>char\<close> here is a
  JavaScript code unit below 256; the other Unicode spaces (U+1680,
  U+2000 to U+200A, U+2028, U+2029, U+202F, U+205F, U+3000, U+FEFF) lie
  outside the strings the model represents.\<close>

definition is_js_space :: "char \<Rightarrow> bool" where
  "is_js_space c \<longleftrightarrow> (of_char c :: nat) \<in> {9, 10, 11, 12, 13, 32, 160}"

definition digit_value :: "nat \<Rightarrow> char \<Rightarrow> nat option" where
  "digit_value base c =
     (let n = of_char c :: nat;
          d = (if 48 \<le> n \<and> n \<le> 57 then Some (n - 48)
               else if 97 \<le> n \<and> n \<le> 122 then Some (n - 87)
               else if 65 \<le> n \<and> n \<le> 90 then Some (n - 55)
               else None)
      in case d of Some v \<Rightarrow> (if v < base then Some v else None) | None \<Rightarrow> None)"

definition is_base_digit :: "nat \<Rightarrow> char \<Rightarrow> bool" where
  "is_base_digit base c \<longleftrightarrow> digit_value base c \<noteq> None"

definition digits_value :: "nat \<Rightarrow> string \<Rightarrow> nat" where
  "digits_value base ds = foldl (\<lambda>acc c. acc * base + the (digit_value base c)) 0 ds"

text \<open>\<open>parseInt(s)\<close>: leading white space, an optional sign, a \<open>0x\<close> prefix
  for hexadecimal, then the longest run of digits; \<open>None\<close> is \<open>NaN\<close>.\<close>

definition js_parse_int :: "string \<Rightarrow> int option" where
  "js_parse_int s =
     (let s1 = dropWhile is_js_space s;
          (sign, s2) = (case s1 of
                          c # r \<Rightarrow> (if c = CHR ''-'' then (-1 :: int, r)
                                   else if c = CHR ''+'' then (1, r) else (1, s1))
                        | [] \<Rightarrow> (1, []));
          (base, s3) = (if take 2 s2 = ''0x'' \<or> take 2 s2 = ''0X'' then (16, drop 2 s2) else (10, s2));
          ds = takeWhile (is_base_digit base) s3
      in if ds = [] then None else Some (sign * int (digits_value base ds)))"

text \<open>The JSON body sent: \<open>{user_id, email, amount: parseInt(topupAmount)}\<close>.\<close>

record topup_request =
  tq_user_id :: user_id
  tq_email :: "string option"
  tq_amount :: "int option"

definition topup_payload :: "user_id \<Rightarrow> string option \<Rightarrow> string \<Rightarrow> topup_request" where
  "topup_payload u email amount =
     \<lparr>tq_user_id = u, tq_email = email, tq_amount = js_parse_int amount\<rparr>"

subsection \<open>The answer\<close>

text \<open>A network failure of \<open>fetch\<close>, or an answer: status, status text, the
  body text, and \<open>JSON.parse\<close> of it (\<open>None\<close> when parsing throws).\<close>

datatype http_response =
    NetworkError string
  | Http nat string string "json option"

definition http_ok :: "nat \<Rightarrow> bool" where
  "http_ok status \<longleftrightarrow> 200 \<le> status \<and> status < 300"

datatype topup_outcome =
    TopupSkipped
  | TopupRedirect json
  | TopupProcessedLater "json option"
  | TopupProcessedRefresh
  | TopupError string

text \<open>The four-way shape test on the parsed body (lines 234 to 337).  A
  redirect carries the URL value assigned to \<open>window.location.href\<close>;
  \<open>TopupProcessedLater\<close> the \<open>invoice_url\<close> opened after the delayed
  refresh.  A thrown error carries its message.\<close>

definition topup_default_error :: string where
  "topup_default_error = ''Topup gagal diproses. Silakan periksa koneksi internet dan coba lagi.''"

definition classify_topup :: "json \<Rightarrow> js_error + topup_outcome" where
  "classify_topup r =
     (case js_get r ''success'' of
        Inl e \<Rightarrow> Inl e
      | Inr success \<Rightarrow>
          (if truthy success then
             (let pu = js_field (Some r) ''payment_url''
              in if truthy pu then Inr (TopupRedirect (the pu))
                 else Inr (TopupProcessedLater (js_field (Some r) ''invoice_url'')))
           else
             (case r of
                JArr (p # _) \<Rightarrow>
                  (case js_get p ''invoice_url'' of
                     Inl e \<Rightarrow> Inl e
                   | Inr iu \<Rightarrow> (if truthy iu then Inr (TopupRedirect (the iu)) else Inr TopupProcessedRefresh))
              | _ \<Rightarrow>
                  (if js_typeof_object r \<and>
                      (truthy (js_field (Some r) ''invoice_url'') \<or> truthy (js_field (Some r) ''id''))
                   then (let pu = js_or (js_field (Some r) ''invoice_url'') (js_field (Some r) ''payment_url'')
                         in if truthy pu then Inr (TopupRedirect (the pu)) else Inr TopupProcessedRefresh)
                   else Inl (TypeError (js_opt_to_string
                          (js_or (js_field (Some r) ''message'')
                             (js_or (js_field (Some r) ''error'') (Some (JStr topup_default_error))))))))))"

text \<open>The page state the handler writes.\<close>

record topup_view =
  tv_open :: bool
  tv_amount :: string
  tv_error :: string
  tv_loading :: bool

record topup_result =
  tr_outcome :: topup_outcome
  tr_request :: "topup_request option"
  tr_view :: topup_view

definition topup_catch_default :: string where
  "topup_catch_default = ''Terjadi kesalahan saat memproses topup. Silakan coba lagi.''"

text \<open>\<open>catch\<close>: \<open>setError(error.message || default)\<close> and a destructive toast.\<close>

definition topup_fail :: "topup_view \<Rightarrow> topup_request option \<Rightarrow> string \<Rightarrow> topup_result" where
  "topup_fail v rq m =
     (let msg = (if m = [] then topup_catch_default else m)
      in \<lparr>tr_outcome = TopupError msg, tr_request = rq,
          tr_view = v\<lparr>tv_error := msg, tv_loading := False\<rparr>\<rparr>)"

text \<open>A recognised answer closes the dialog and clears the amount.\<close>

definition topup_done :: "topup_view \<Rightarrow> topup_request option \<Rightarrow> topup_outcome \<Rightarrow> topup_result" where
  "topup_done v rq out =
     \<lparr>tr_outcome = out, tr_request = rq,
      tr_view = v\<lparr>tv_open := False, tv_amount := [], tv_error := [], tv_loading := False\<rparr>\<rparr>"

definition handle_topup ::
  "topup_view \<Rightarrow> user_id option \<Rightarrow> string option \<Rightarrow> string option \<Rightarrow> http_response \<Rightarrow> topup_result" where
  "handle_topup v user email token resp =
     (if tv_amount v = [] \<or> user = None then
        \<lparr>tr_outcome = TopupSkipped, tr_request = None, tr_view = v\<rparr>
      else
        (let v1 = v\<lparr>tv_loading := True, tv_error := []\<rparr> in
         case truthy_token token of
           None \<Rightarrow> topup_fail v1 None ''No authentication token found''
         | Some _ \<Rightarrow>
             (let rq = Some (topup_payload (the user) email (tv_amount v)) in
              case resp of
                NetworkError m \<Rightarrow> topup_fail v1 rq m
              | Http status status_text text parsed \<Rightarrow>
                  (if \<not> http_ok status then
                     topup_fail v1 rq (''HTTP '' @ int_to_string (int status) @ '': '' @ status_text @ '' - '' @ text)
                   else
                     (case parsed of
                        None \<Rightarrow> topup_fail v1 rq (''Invalid JSON response: '' @ text)
                      | Some r \<Rightarrow>
                          (case classify_topup r of
                             Inl (TypeError m) \<Rightarrow> topup_fail v1 rq m
                           | Inr out \<Rightarrow> topup_done v1 rq out))))))"

subsection \<open>The specification's normalised result\<close>

datatype gateway_result =
    GwSuccess "json option"
  | GwFailure string
  | GwNone

fun topup_normalize :: "topup_outcome \<Rightarrow> gateway_result" where
  "topup_normalize (TopupRedirect u) = GwSuccess (Some u)"
| "topup_normalize (TopupProcessedLater _) = GwSuccess None"
| "topup_normalize TopupProcessedRefresh = GwSuccess None"
| "topup_normalize (TopupError m) = GwFailure m"
| "topup_normalize TopupSkipped = GwNone"

text \<open>The shapes section 4.3 of the specification accepts, in the priority
  order of the code; \<open>ShapeNone\<close> is the failure object or anything else.\<close>

datatype topup_shape = ShapeSuccess | ShapePaymentArray | ShapePaymentObject | ShapeNone

definition topup_shape_of :: "json \<Rightarrow> topup_shape" where
  "topup_shape_of r =
     (if r = JNull then ShapeNone
      else if truthy (js_field (Some r) ''success'') then ShapeSuccess
      else (case r of
              JArr (p # _) \<Rightarrow> (if p = JNull then ShapeNone else ShapePaymentArray)
            | JArr [] \<Rightarrow> ShapeNone
            | JObj _ \<Rightarrow> (if truthy (js_field (Some r) ''invoice_url'') \<or> truthy (js_field (Some r) ''id'')
                         then ShapePaymentObject else ShapeNone)
            | _ \<Rightarrow> ShapeNone))"

definition is_gw_success :: "gateway_result \<Rightarrow> bool" where
  "is_gw_success g = (case g of GwSuccess _ \<Rightarrow> True | _ \<Rightarrow> False)"


text \<open>The dialog with 50000 entered, and the outcome for a 2xx answer with a
  parsed body.\<close>

abbreviation example_topup_view :: topup_view where
  "example_topup_view \<equiv> \<lparr>tv_open = True, tv_amount = ''50000'', tv_error = [], tv_loading = False\<rparr>"

abbreviation topup_ok :: "json \<Rightarrow> topup_outcome" where
  "topup_ok r \<equiv> tr_outcome (handle_topup example_topup_view (Some ''u1'') (Some ''a@b.c'') (Some ''tok'')
                    (Http 200 ''OK'' [] (Some r)))"

subsection \<open>Decimal strings and \<open>parseInt\<close>\<close>

lemma digit_chars_table:
  "list_all (\<lambda>d. digit_value 10 (digit_char d) = Some d \<and> is_base_digit 10 (digit_char d) \<and> \<not> is_js_space (digit_char d)
     \<and> digit_char d \<noteq> CHR ''-'' \<and> digit_char d \<noteq> CHR ''+'' \<and> digit_char d \<noteq> CHR ''x''
     \<and> digit_char d \<noteq> CHR ''X'') [0..<10]"
  by (simp add: digit_value_def digit_char_def is_js_space_def is_base_digit_def upt_rec)

lemma digit_char_props:
  assumes "d < 10"
  shows "digit_value 10 (digit_char d) = Some d" and "is_base_digit 10 (digit_char d)" and "\<not> is_js_space (digit_char d)"
    and "digit_char d \<noteq> CHR ''-''" and "digit_char d \<noteq> CHR ''+''"
    and "digit_char d \<noteq> CHR ''x''" and "digit_char d \<noteq> CHR ''X''"
  using digit_chars_table assms by (auto simp: list_all_iff)

lemma nat_digits_chars: "c \<in> set (nat_digits n) \<Longrightarrow> \<exists>d<10. c = digit_char d"
proof (induction n rule: nat_digits.induct)
  case (1 n)
  show ?case
  proof (cases "n < 10")
    case True
    with "1.prems" show ?thesis by (auto simp: nat_digits.simps [of n])
  next
    case False
    with "1.prems" have "c \<in> set (nat_digits (n div 10)) \<or> c = digit_char (n mod 10)"
      by (auto simp: nat_digits.simps [of n])
    moreover have "n mod 10 < 10" by simp
    ultimately show ?thesis using False "1.IH" by blast
  qed
qed

lemma nat_digits_hd: "\<exists>c cs. nat_digits n = c # cs"
proof (induction n rule: nat_digits.induct)
  case (1 n)
  then show ?case by (cases "n < 10") (auto simp: nat_digits.simps [of n])
qed

lemma digits_value_append:
  "digits_value b (xs @ ys) = foldl (\<lambda>acc c. acc * b + the (digit_value b c)) (digits_value b xs) ys"
  by (simp add: digits_value_def)

lemma digits_value_nat_digits: "digits_value 10 (nat_digits n) = n"
proof (induction n rule: nat_digits.induct)
  case (1 n)
  show ?case
  proof (cases "n < 10")
    case True
    then show ?thesis by (simp add: nat_digits.simps [of n] digits_value_def digit_char_props)
  next
    case False
    then have "digits_value 10 (nat_digits n) = digits_value 10 (nat_digits (n div 10)) * 10 + n mod 10"
      by (simp add: nat_digits.simps [of n] digits_value_append digit_char_props)
    with False "1.IH" show ?thesis by simp
  qed
qed

lemma take2_second:
  assumes "take 2 (cs @ r) = [a, b]" "cs \<noteq> []"
  shows "b \<in> set cs \<or> (r \<noteq> [] \<and> hd r = b)"
proof (cases "2 \<le> length cs")
  case True
  then have "take 2 cs = [a, b]" using assms(1) by simp
  then show ?thesis by (metis in_set_takeD list.set_intros(1) list.set_intros(2))
next
  case False
  with assms(2) have "length cs = 1" by (cases cs) (auto simp: Suc_le_eq)
  then obtain c where "cs = [c]" by (auto simp: length_Suc_conv)
  with assms(1) show ?thesis by (cases r) auto
qed

text \<open>\<open>parseInt\<close> of a run of decimal digits followed by a tail that does
  not continue the number reads the digits and drops the tail.\<close>

lemma parse_digit_prefix:
  assumes "cs \<noteq> []" and all: "\<forall>c\<in>set cs. \<exists>d<10. c = digit_char d"
    and tail: "r = [] \<or> \<not> is_base_digit 10 (hd r) \<and> hd r \<noteq> CHR ''x'' \<and> hd r \<noteq> CHR ''X''"
  shows "js_parse_int (cs @ r) = Some (int (digits_value 10 cs))"
    and "js_parse_int (CHR ''-'' # cs @ r) = Some (- int (digits_value 10 cs))"
proof -
  obtain c cs' where cr: "cs = c # cs'" using assms(1) by (cases cs) auto
  from all cr obtain d where d: "d < 10" "c = digit_char d" by auto
  have sp: "\<not> is_js_space c" and mi: "c \<noteq> CHR ''-''" and pl: "c \<noteq> CHR ''+''"
    using d by (simp_all add: digit_char_props)
  have tw: "takeWhile (is_base_digit 10) (cs @ r) = cs"
  proof -
    have "\<forall>x\<in>set cs. is_base_digit 10 x" using all by (auto simp: digit_char_props)
    moreover have "takeWhile (is_base_digit 10) r = []" using tail by (cases r) auto
    ultimately show ?thesis by simp
  qed
  have nx: "take 2 (cs @ r) \<noteq> [a, b]" if "b = CHR ''x'' \<or> b = CHR ''X''" for a b
  proof
    assume "take 2 (cs @ r) = [a, b]"
    then have "b \<in> set cs \<or> (r \<noteq> [] \<and> hd r = b)" using assms(1) by (rule take2_second)
    moreover have "b \<notin> set cs"
    proof
      assume "b \<in> set cs"
      with all obtain d where "d < 10" "b = digit_char d" by blast
      with that digit_char_props(6,7) [of d] show False by auto
    qed
    ultimately show False using tail that by auto
  qed
  have x: "take 2 (cs @ r) \<noteq> ''0x''" and xx: "take 2 (cs @ r) \<noteq> ''0X''"
    using nx [of "CHR ''x''" "CHR ''0''"] nx [of "CHR ''X''" "CHR ''0''"] by simp_all
  have dw: "dropWhile is_js_space (cs @ r) = cs @ r" using cr sp by simp
  have sg: "(case cs @ r of c # r' \<Rightarrow> (if c = CHR ''-'' then (-1 :: int, r')
                   else if c = CHR ''+'' then (1, r') else (1, cs @ r)) | [] \<Rightarrow> (1, [])) = (1, cs @ r)"
    using cr mi pl by simp
  show "js_parse_int (cs @ r) = Some (int (digits_value 10 cs))"
    using dw sg x xx assms(1) by (simp add: js_parse_int_def Let_def tw del: takeWhile_eq_all_conv)
  have dwm: "dropWhile is_js_space (CHR ''-'' # cs @ r) = CHR ''-'' # cs @ r" by (simp add: is_js_space_def)
  show "js_parse_int (CHR ''-'' # cs @ r) = Some (- int (digits_value 10 cs))"
    using dwm x xx assms(1) by (simp add: js_parse_int_def Let_def tw del: takeWhile_eq_all_conv)
qed

text \<open>\<open>parseInt\<close> reads an integer back from its decimal rendering and
  whatever follows it, when the tail does not continue the number.\<close>

lemma js_parse_int_prefix:
  assumes "r = [] \<or> \<not> is_base_digit 10 (hd r) \<and> hd r \<noteq> CHR ''x'' \<and> hd r \<noteq> CHR ''X''"
  shows "js_parse_int (int_to_string n @ r) = Some n"
proof -
  have ne: "\<And>k. nat_digits k \<noteq> []" using nat_digits_hd by (metis list.distinct(1))
  have all: "\<And>k. \<forall>c\<in>set (nat_digits k). \<exists>d<10. c = digit_char d" using nat_digits_chars by blast
  show ?thesis
  proof (cases "n < 0")
    case True
    with parse_digit_prefix(2) [OF ne all assms, of "nat (- n)"] show ?thesis
      by (simp add: int_to_string_def digits_value_nat_digits)
  next
    case False
    with parse_digit_prefix(1) [OF ne all assms, of "nat n"] show ?thesis
      by (simp add: int_to_string_def digits_value_nat_digits)
  qed
qed

lemma js_parse_int_roundtrip: "js_parse_int (int_to_string n) = Some n"
  using js_parse_int_prefix [of "[]" n] by simp

lemma int_to_string_nonempty: "int_to_string n \<noteq> []"
  unfolding int_to_string_def using nat_digits_hd [of "nat n"] by auto

subsection \<open>The handler\<close>

lemma topup_fail_msg_nonempty: "tr_outcome (topup_fail v rq m) = TopupError msg \<Longrightarrow> msg \<noteq> []"
  by (auto simp: topup_fail_def Let_def topup_catch_default_def split: if_splits)

lemma classify_topup_not_skipped: "classify_topup r \<noteq> Inr TopupSkipped"
  by (auto simp: classify_topup_def Let_def split: sum.splits json.splits list.splits)

lemma classify_topup_not_error: "classify_topup r \<noteq> Inr (TopupError m)"
  by (auto simp: classify_topup_def Let_def split: sum.splits json.splits list.splits)

lemma handle_topup_sent:
  assumes "tv_amount v \<noteq> []" "user = Some u" "str_truthy token"
  shows "handle_topup v user email token resp =
    (let v1 = v\<lparr>tv_loading := True, tv_error := []\<rparr>; rq = Some (topup_payload u email (tv_amount v)) in
     case resp of
       NetworkError m \<Rightarrow> topup_fail v1 rq m
     | Http status status_text text parsed \<Rightarrow>
         (if \<not> http_ok status then
            topup_fail v1 rq (''HTTP '' @ int_to_string (int status) @ '': '' @ status_text @ '' - '' @ text)
          else
            (case parsed of
               None \<Rightarrow> topup_fail v1 rq (''Invalid JSON response: '' @ text)
             | Some r \<Rightarrow>
                 (case classify_topup r of
                    Inl (TypeError m) \<Rightarrow> topup_fail v1 rq m
                  | Inr out \<Rightarrow> topup_done v1 rq out))))"
  using assms by (simp add: handle_topup_def Let_def)

text \<open>A request is sent only when an amount was entered and a user is signed in; otherwise the handler returns at once and leaves the page as it was.\<close>

theorem topup_skipped_iff:
  "tr_outcome (handle_topup v user email token resp) = TopupSkipped \<longleftrightarrow> tv_amount v = [] \<or> user = None"
  by (auto simp: handle_topup_def Let_def topup_fail_def topup_done_def classify_topup_not_skipped
           split: option.splits http_response.splits sum.splits js_error.splits)

text \<open>C26: An amount typed as an integer followed by anything that does not
  continue the number (\<open>2.5\<close>, \<open>1e3\<close>, \<open>100 ribu\<close>) is sent as that
  integer: \<open>parseInt\<close> silently drops the rest, so \<open>1e3\<close>, which the
  number field accepts as 1000, tops up 1.\<close>

theorem topup_sends_typed_integer:
  assumes "tv_amount v = int_to_string n @ r"
    and "r = [] \<or> \<not> is_base_digit 10 (hd r) \<and> hd r \<noteq> CHR ''x'' \<and> hd r \<noteq> CHR ''X''"
    and "str_truthy token"
  shows "tr_request (handle_topup v (Some u) email token resp) =
           Some \<lparr>tq_user_id = u, tq_email = email, tq_amount = Some n\<rparr>"
proof -
  have ne: "tv_amount v \<noteq> []" using assms(1) int_to_string_nonempty by simp
  have n: "js_parse_int (tv_amount v) = Some n" using assms(1) js_parse_int_prefix [OF assms(2)] by simp
  have "tr_request (handle_topup v (Some u) email token resp) = Some (topup_payload u email (tv_amount v))"
    unfolding handle_topup_sent [OF ne refl assms(3)] Let_def
    by (cases resp) (simp_all add: topup_fail_def topup_done_def Let_def split: option.split sum.split js_error.split)
  then show ?thesis using n by (simp add: topup_payload_def)
qed

text \<open>C25: A non-2xx answer is a failure whose message carries the status, its text and the body; the dialog stays open with its amount and the spinner stops.\<close>

theorem topup_non_ok_fails:
  assumes "tv_amount v \<noteq> []" "user = Some u" "str_truthy token" "\<not> http_ok status"
  shows "tr_outcome (handle_topup v user email token (Http status st body parsed)) =
           TopupError (''HTTP '' @ int_to_string (int status) @ '': '' @ st @ '' - '' @ body)
       \<and> tv_open (tr_view (handle_topup v user email token (Http status st body parsed))) = tv_open v
       \<and> tv_amount (tr_view (handle_topup v user email token (Http status st body parsed))) = tv_amount v
       \<and> \<not> tv_loading (tr_view (handle_topup v user email token (Http status st body parsed)))"
  using assms by (simp add: handle_topup_sent topup_fail_def Let_def)

text \<open>Every failure the handler reports carries a non-empty message.\<close>

theorem topup_failure_message_nonempty:
  "tr_outcome (handle_topup v user email token resp) = TopupError m \<Longrightarrow> m \<noteq> []"
  by (auto simp: handle_topup_def Let_def topup_done_def classify_topup_not_error
           dest: topup_fail_msg_nonempty
           split: if_splits option.splits http_response.splits sum.splits js_error.splits)


lemma classify_topup_success_iff:
  "(\<exists>out. classify_topup r = Inr out) \<longleftrightarrow> topup_shape_of r \<noteq> ShapeNone"
  by (cases r rule: js_typeof_object.cases)
     (auto simp: classify_topup_def topup_shape_of_def Let_def split: list.splits sum.splits if_splits)

lemma classify_topup_outcome_success:
  "classify_topup r = Inr out \<Longrightarrow> is_gw_success (topup_normalize out)"
  by (auto simp: classify_topup_def Let_def is_gw_success_def
           split: sum.splits json.splits list.splits if_splits)

text \<open>C7: Against the contract of the specification: once a request is sent, the normalised result is a success exactly when the status is 2xx, the body parses, and it has one of the recognised shapes.\<close>

theorem topup_refines_contract:
  assumes "tv_amount v \<noteq> []" "user = Some u" "str_truthy token"
  shows "is_gw_success (topup_normalize (tr_outcome (handle_topup v user email token resp))) \<longleftrightarrow>
         (\<exists>s st b r. resp = Http s st b (Some r) \<and> http_ok s \<and> topup_shape_of r \<noteq> ShapeNone)"
proof (cases resp)
  case (NetworkError m)
  with assms show ?thesis by (simp add: handle_topup_sent topup_fail_def Let_def is_gw_success_def)
next
  case (Http s st b p)
  show ?thesis
  proof (cases "http_ok s \<and> p \<noteq> None")
    case False
    with assms Http show ?thesis
      by (auto simp: handle_topup_sent topup_fail_def Let_def is_gw_success_def)
  next
    case True
    then obtain r where r: "p = Some r" "http_ok s" by auto
    show ?thesis
    proof (cases "classify_topup r")
      case (Inl e)
      then have "topup_shape_of r = ShapeNone" using classify_topup_success_iff [of r] by auto
      with assms Http r Inl show ?thesis
        by (cases e) (simp add: handle_topup_sent topup_fail_def Let_def is_gw_success_def)
    next
      case (Inr out)
      then have "topup_shape_of r \<noteq> ShapeNone" using classify_topup_success_iff [of r] by auto
      with assms Http r Inr classify_topup_outcome_success [OF Inr] show ?thesis
        by (simp add: handle_topup_sent topup_done_def)
    qed
  qed
qed


text \<open>The examples of the specification (section 8.5): \<open>{success: true, payment_url}\<close> and \<open>[{invoice_url}]\<close> normalise to a success redirecting to that URL, \<open>{error: "bad"}\<close> to a failure with message \<open>bad\<close>, and status 500 to a failure whatever the body.\<close>

theorem topup_spec_examples:
  "topup_normalize (topup_ok (JObj [(''success'', JBool True), (''payment_url'', JStr ''https://x'')]))
     = GwSuccess (Some (JStr ''https://x''))
   \<and> topup_normalize (topup_ok (JArr [JObj [(''invoice_url'', JStr ''https://y'')]]))
     = GwSuccess (Some (JStr ''https://y''))
   \<and> topup_normalize (topup_ok (JObj [(''error'', JStr ''bad'')])) = GwFailure ''bad''
   \<and> topup_normalize (tr_outcome (handle_topup example_topup_view (Some ''u1'') (Some ''a@b.c'') (Some ''tok'')
       (Http 500 st body parsed))) = GwFailure (''HTTP 500: '' @ st @ '' - '' @ body)"
  by (simp add: handle_topup_def classify_topup_def topup_fail_def topup_done_def Let_def
        http_ok_def truthy_def js_or_def topup_default_error_def js_opt_to_string_def
        int_to_string_def nat_digits.simps digit_char_def)

text \<open>A success answer without a payment URL is accepted as processed with no invoice URL, so the delayed \<open>window.open(result.invoice_url)\<close> opens \<open>undefined\<close>; a body \<open>null\<close> fails with the engine's TypeError text instead of a message for the user.\<close>

theorem topup_unusual_bodies:
  "topup_ok (JObj [(''success'', JBool True)]) = TopupProcessedLater None
   \<and> topup_ok JNull = TopupError ''Cannot read properties of null (reading 'success')''"
  by (simp add: handle_topup_def classify_topup_def topup_fail_def topup_done_def Let_def
        http_ok_def truthy_def)

text \<open>The amount sent is \<open>parseInt\<close> of the input field: a number input that holds \<open>1e3\<close> or \<open>2.5\<close> sends 1 or 2, a negative amount is sent as it is, and text that is no number sends \<open>NaN\<close> (\<open>null\<close> in the JSON body).\<close>

theorem topup_payload_amounts:
  "tq_amount (topup_payload u e ''1e3'') = Some 1
   \<and> tq_amount (topup_payload u e ''2.5'') = Some 2
   \<and> tq_amount (topup_payload u e ''-500'') = Some (-500)
   \<and> tq_amount (topup_payload u e ''abc'') = None"
  by (simp add: topup_payload_def js_parse_int_def is_js_space_def is_base_digit_def
        digit_value_def digits_value_def)

theorem topup_non_ok_fails_witness:
  "tr_outcome (handle_topup example_topup_view (Some ''u1'') None (Some ''tok'') (Http 404 ''Not Found'' ''x'' None))
     = TopupError ''HTTP 404: Not Found - x''
   \<and> tv_open (tr_view (handle_topup example_topup_view (Some ''u1'') None (Some ''tok'') (Http 404 ''Not Found'' ''x'' None)))"
proof -
  have h: "tv_amount example_topup_view \<noteq> []" "Some ''u1'' = Some ''u1''" "str_truthy (Some ''tok'')"
    "\<not> http_ok 404" by (simp_all add: http_ok_def)
  from topup_non_ok_fails [OF h] show ?thesis
    by (simp add: int_to_string_def nat_digits.simps digit_char_def)
qed

theorem topup_failure_message_nonempty_witness:
  "tr_outcome (handle_topup example_topup_view (Some ''u1'') None (Some ''tok'') (NetworkError [])) =
     TopupError ''Terjadi kesalahan saat memproses topup. Silakan coba lagi.''
   \<and> ''Terjadi kesalahan saat memproses topup. Silakan coba lagi.'' \<noteq> []"
proof -
  have h: "tr_outcome (handle_topup example_topup_view (Some ''u1'') None (Some ''tok'') (NetworkError [])) =
     TopupError ''Terjadi kesalahan saat memproses topup. Silakan coba lagi.''"
    by (simp add: handle_topup_def topup_fail_def topup_catch_default_def Let_def)
  from h topup_failure_message_nonempty [OF h] show ?thesis by (rule conjI)
qed

theorem topup_refines_contract_witness:
  "is_gw_success (topup_normalize (topup_ok (JArr [JNum 7]))) \<and> http_ok 200
   \<and> topup_shape_of (JArr [JNum 7]) = ShapePaymentArray"
proof -
  have h: "tv_amount example_topup_view \<noteq> []" "Some ''u1'' = Some ''u1''" "str_truthy (Some ''tok'')"
    by simp_all
  have s: "topup_shape_of (JArr [JNum 7]) = ShapePaymentArray" by (simp add: topup_shape_of_def truthy_def)
  have o: "http_ok 200" by (simp add: http_ok_def)
  from topup_refines_contract [OF h, of "Some ''a@b.c''" "Http 200 ''OK'' [] (Some (JArr [JNum 7]))"] s o
  show ?thesis by simp
qed

theorem topup_sends_typed_integer_witness:
  "tr_request (handle_topup (example_topup_view\<lparr>tv_amount := ''1e3''\<rparr>) (Some ''u1'') None (Some ''tok'')
      (Http 200 ''OK'' [] None)) = Some \<lparr>tq_user_id = ''u1'', tq_email = None, tq_amount = Some 1\<rparr>"
proof -
  have h: "tv_amount (example_topup_view\<lparr>tv_amount := ''1e3''\<rparr>) = int_to_string 1 @ ''e3''"
    "''e3'' = [] \<or> \<not> is_base_digit 10 (hd ''e3'') \<and> hd ''e3'' \<noteq> CHR ''x'' \<and> hd ''e3'' \<noteq> CHR ''X''"
    "str_truthy (Some ''tok'')"
    by (simp_all add: int_to_string_def nat_digits.simps digit_char_def is_base_digit_def digit_value_def)
  from topup_sends_typed_integer [OF h] show ?thesis .
qed

end
