(* ===== verification/Dashboard.thy ===== *)
theory Dashboard
  imports Balance_Page Gateway "HOL-Library.List_Lexorder" "HOL-Library.Char_ord"
begin

text \<open>
  The chatbot dashboard, \<open>src/app/dashboard/page.tsx\<close>: its page state, the
  three reads it refreshes (\<open>fetchChatbots\<close>, \<open>fetchPlans\<close>,
  \<open>fetchBalance\<close>), the guard of the create button
  (\<open>isBalanceSufficient\<close>), \<open>handleCreateBot\<close> with its post-create
  compensation (a usage row and a balance upsert written by the client when
  the balance grew by the plan's price), \<open>handleDeleteBot\<close> and
  \<open>resetForm\<close>.  Storage calls read and write a \<open>store\<close> of
  \<open>Tables\<close>; which of them fail is an input of the handler.  The
  duplicate check of the compensation is a Postgres \<open>ILIKE\<close> query whose
  pattern is built from the bot name, so the pattern language (wildcards
  \<open>%\<close> and \<open>_\<close>, escape character backslash) is modelled too.
\<close>

subsection \<open>Page state\<close>

record dash_view =
  dv_chatbots :: "chatbot list"
  dv_plans :: "plan list"
  dv_balance :: "int option"
  dv_loading :: bool
  dv_search :: string
  dv_new_bot_open :: bool
  dv_bot_name :: string
  dv_selected_plan :: string
  dv_creating :: bool
  dv_balance_loading :: bool
  dv_deleting :: "string option"

text \<open>The initial \<open>useState\<close> values.  \<open>dv_balance = None\<close> is the value
  \<open>undefined\<close> that \<open>setBalance(balanceData?.balance)\<close> can store.\<close>

definition dash_view_init :: dash_view where
  "dash_view_init =
     \<lparr>dv_chatbots = [], dv_plans = [], dv_balance = Some 0, dv_loading = True, dv_search = [],
      dv_new_bot_open = False, dv_bot_name = [], dv_selected_plan = [], dv_creating = False,
      dv_balance_loading = False, dv_deleting = None\<rparr>"

subsection \<open>Reads\<close>

text \<open>\<open>from("chatbot").select("*, plans (*)").eq("user_id", u)
  .order("created_at", {ascending: false})\<close>; the joined plan is not kept.\<close>

definition chatbots_query :: "user_id \<Rightarrow> store \<Rightarrow> chatbot list" where
  "chatbots_query u st = rev (sort_key c_created_at (filter (\<lambda>c. c_user_id c = Some u) (chatbots st)))"

definition fetch_chatbots :: "user_id option \<Rightarrow> chatbot list db_result \<Rightarrow> dash_view \<Rightarrow> dash_view" where
  "fetch_chatbots user r v =
     (case user of
        None \<Rightarrow> v
      | Some _ \<Rightarrow> (case r of
                    DbErr _ \<Rightarrow> v\<lparr>dv_loading := False\<rparr>
                  | DbOk cs \<Rightarrow> v\<lparr>dv_chatbots := cs, dv_loading := False\<rparr>))"

text \<open>\<open>from("plans").select("*").order("price_per_month", {ascending: true})\<close>;
  the first plan becomes the selected one.\<close>

definition plans_query :: "plan list \<Rightarrow> plan list" where
  "plans_query ps = sort_key pl_price_per_month ps"

definition fetch_plans :: "plan list db_result \<Rightarrow> dash_view \<Rightarrow> dash_view" where
  "fetch_plans r v =
     (case r of
        DbErr _ \<Rightarrow> v
      | DbOk ps \<Rightarrow> (case ps of
                     [] \<Rightarrow> v\<lparr>dv_plans := ps\<rparr>
                   | p # _ \<Rightarrow> v\<lparr>dv_plans := ps, dv_selected_plan := pl_id p\<rparr>))"

text \<open>\<open>fetchBalance\<close>: the reconciliation that followed the read is commented
  out in the source; what is left shows \<open>balanceData?.balance\<close>, which is
  \<open>undefined\<close> when the row is missing or the read fails.\<close>

definition fetch_balance :: "user_id option \<Rightarrow> int option db_result \<Rightarrow> dash_view \<Rightarrow> dash_view" where
  "fetch_balance user r v =
     (case user of
        None \<Rightarrow> v
      | Some _ \<Rightarrow> v\<lparr>dv_balance := (case r of DbOk b \<Rightarrow> b | DbErr _ \<Rightarrow> None),
                   dv_balance_loading := False\<rparr>)"

subsection \<open>The create dialog\<close>

definition selected_plan :: "dash_view \<Rightarrow> plan option" where
  "selected_plan v = find (\<lambda>p. pl_id p = dv_selected_plan v) (dv_plans v)"

text \<open>\<open>balance >= plan.price_per_month\<close>; \<open>undefined >= n\<close> is false.\<close>

definition is_balance_sufficient :: "dash_view \<Rightarrow> bool" where
  "is_balance_sufficient v =
     (case selected_plan v of
        None \<Rightarrow> False
      | Some p \<Rightarrow> (case dv_balance v of None \<Rightarrow> False | Some b \<Rightarrow> pl_price_per_month p \<le> b))"

text \<open>\<open>String.prototype.trim\<close>: white space (\<open>is_js_space\<close>) removed at both ends.\<close>

definition js_trim :: "string \<Rightarrow> string" where
  "js_trim s = rev (dropWhile is_js_space (rev (dropWhile is_js_space s)))"

text \<open>The \<open>disabled\<close> condition of the \<open>Buat Bot\<close> button, negated.\<close>

definition create_enabled :: "dash_view \<Rightarrow> bool" where
  "create_enabled v \<longleftrightarrow>
     js_trim (dv_bot_name v) \<noteq> [] \<and> dv_selected_plan v \<noteq> [] \<and> is_balance_sufficient v \<and> \<not> dv_creating v"

definition reset_form :: "dash_view \<Rightarrow> dash_view" where
  "reset_form v =
     (case dv_plans v of
        [] \<Rightarrow> v\<lparr>dv_bot_name := []\<rparr>
      | p # _ \<Rightarrow> v\<lparr>dv_bot_name := [], dv_selected_plan := pl_id p\<rparr>)"

subsection \<open>Postgres \<open>ILIKE\<close>\<close>

text \<open>A pattern is read into tokens: \<open>%\<close> any string, \<open>_\<close> any character,
  backslash escapes the next character; a pattern that ends in the escape
  character is an error of the query.\<close>

datatype like_tok = LikeAny | LikeOne | LikeChar char

definition like_tok_of :: "char \<Rightarrow> like_tok" where
  "like_tok_of c = (if c = CHR ''%'' then LikeAny else if c = CHR ''_'' then LikeOne else LikeChar c)"

fun like_tokens :: "string \<Rightarrow> like_tok list option" where
  "like_tokens [] = Some []"
| "like_tokens [c] = (if c = CHR 0x5C then None else Some [like_tok_of c])"
| "like_tokens (c # d # cs) =
     (if c = CHR 0x5C then map_option (Cons (LikeChar d)) (like_tokens cs)
      else map_option (Cons (like_tok_of c)) (like_tokens (d # cs)))"

text \<open>Case folding of \<open>ILIKE\<close> on the ASCII letters.\<close>

definition lower_char :: "char \<Rightarrow> char" where
  "lower_char c = (let n = of_char c :: nat in if 65 \<le> n \<and> n \<le> 90 then char_of (n + 32) else c)"

fun like_match :: "like_tok list \<Rightarrow> string \<Rightarrow> bool" where
  "like_match [] s = (s = [])"
| "like_match (LikeAny # p) [] = like_match p []"
| "like_match (LikeAny # p) (x # s) = (like_match p (x # s) \<or> like_match (LikeAny # p) s)"
| "like_match (LikeOne # p) [] = False"
| "like_match (LikeOne # p) (x # s) = like_match p s"
| "like_match (LikeChar c # p) [] = False"
| "like_match (LikeChar c # p) (x # s) = (lower_char c = lower_char x \<and> like_match p s)"


text \<open>PostgREST, which serves the client's queries, accepts \<open>*\<close> as an alias
  of \<open>%\<close> in \<open>like\<close> and \<open>ilike\<close> patterns and replaces every \<open>*\<close>
  before the pattern reaches Postgres.\<close>

definition postgrest_pattern :: "string \<Rightarrow> string" where
  "postgrest_pattern p = map (\<lambda>c. if c = CHR ''*'' then CHR ''%'' else c) p"

definition ilike :: "string \<Rightarrow> string \<Rightarrow> bool option" where
  "ilike s pat = map_option (\<lambda>ts. like_match ts s) (like_tokens pat)"

subsection \<open>Creating a bot\<close>

text \<open>The storage calls of \<open>handleCreateBot\<close> and of the reads it starts;
  the input \<open>create_call \<Rightarrow> bool\<close> says which of them return an error.\<close>

datatype create_call = DupCheck | ChatbotsRead | TxRead | TxCheck | TxInsert | BalUpsert | BalanceRead

text \<open>What the handler is given: the session token, the answer of the
  \<open>chatbot/create\<close> webhook, what the remote action does to the store when
  the request reaches it, the failing calls, and the id and time stamp the
  store gives a new transaction row.\<close>

record create_input =
  ci_token :: "string option"
  ci_response :: http_response
  ci_remote :: "store \<Rightarrow> store"
  ci_fails :: "create_call \<Rightarrow> bool"
  ci_tx_id :: string
  ci_now :: string

datatype create_outcome = CreateSkipped | CreateOk | CreateError string

record create_result =
  cr_outcome :: create_outcome
  cr_store :: store
  cr_view :: dash_view
  cr_request :: "(string \<times> string) option"

text \<open>\<open>from("chatbot").select("id").eq("user_id", u).eq("name", name).limit(1)\<close>.\<close>

definition dup_bots :: "user_id \<Rightarrow> string \<Rightarrow> store \<Rightarrow> chatbot list" where
  "dup_bots u name st = take 1 (filter (\<lambda>c. c_user_id c = Some u \<and> c_name c = Some name) (chatbots st))"

definition dup_message :: "string \<Rightarrow> string" where
  "dup_message name = ''Bot dengan nama '' @ [CHR 0x22] @ name @ [CHR 0x22] @ '' sudah ada. Gunakan nama lain.''"

text \<open>\<open>Create Bot ${botName} - Plan ${planData?.name || "Unknown"}\<close>.\<close>

definition bot_creation_desc :: "string \<Rightarrow> plan \<Rightarrow> string" where
  "bot_creation_desc name p =
     ''Create Bot '' @ name @ '' - Plan '' @ (if pl_name p = [] then ''Unknown'' else pl_name p)"

text \<open>A usage row of the user for \<open>price\<close> whose description matches the
  pattern.  A null description matches no pattern.\<close>

definition usage_matches :: "user_id \<Rightarrow> int \<Rightarrow> like_tok list \<Rightarrow> transaction \<Rightarrow> bool" where
  "usage_matches u price pat t \<longleftrightarrow>
     t_user_id t = u \<and> t_type t = Usage \<and> t_amount t = Some price
     \<and> (case t_description t of None \<Rightarrow> False | Some d \<Rightarrow> like_match pat d)"

text \<open>\<open>from("transactions").select("id").eq("user_id", u).eq("type", "usage")
  .eq("amount", price).ilike("description", "%" + botName + "%").limit(1)\<close>.
  An invalid pattern is an error of the query; only whether the result is
  empty matters to the caller, so the ordering is left out.\<close>

definition existing_usage ::
  "(create_call \<Rightarrow> bool) \<Rightarrow> user_id \<Rightarrow> int \<Rightarrow> string \<Rightarrow> store \<Rightarrow> transaction list db_result" where
  "existing_usage fails u price name st =
     (case like_tokens (postgrest_pattern (''%'' @ name @ ''%'')) of
        None \<Rightarrow> DbErr ''invalid LIKE pattern''
      | Some pat \<Rightarrow>
          (if fails TxCheck then DbErr ''query failed''
           else DbOk (take 1 (filter (usage_matches u price pat) (transactions st)))))"

definition usage_row :: "string \<Rightarrow> string \<Rightarrow> user_id \<Rightarrow> int \<Rightarrow> string \<Rightarrow> transaction" where
  "usage_row tx_id now u price desc =
     \<lparr>t_id = tx_id, t_user_id = u, t_type = Usage, t_amount = Some price,
      t_description = Some desc, t_created_at = now\<rparr>"

text \<open>The post-create reconciliation (lines 492 to 570).  \<open>prev\<close> is the
  balance the page showed when the handler started; \<open>computedBalance\<close> is
  the fold of the user's transactions, or \<open>prev\<close> when that read fails;
  \<open>delta\<close> is \<open>NaN\<close> (\<open>None\<close>) when either is \<open>undefined\<close>.  A usage
  row is inserted and the balance upserted only when the balance grew by
  exactly the price and no matching usage row is found; an error of the
  duplicate check counts as \<open>not found\<close>.\<close>

definition post_create_reconcile ::
  "(create_call \<Rightarrow> bool) \<Rightarrow> string \<Rightarrow> string \<Rightarrow> user_id \<Rightarrow> plan option \<Rightarrow> string \<Rightarrow> int option \<Rightarrow> store \<Rightarrow> store" where
  "post_create_reconcile fails tx_id now u plan name prev st =
     (case plan of
        None \<Rightarrow> st
      | Some p \<Rightarrow>
          (let price = coerce_amount (Some (pl_price_per_month p));
               computed = (if fails TxRead then prev else Some (reconcile (user_txs u (transactions st))));
               delta = (case (computed, prev) of (Some c, Some b) \<Rightarrow> Some (c - b) | _ \<Rightarrow> None)
           in if 0 < price \<and> delta = Some price then
                (case existing_usage fails u price name st of
                   DbOk (_ # _) \<Rightarrow> st
                 | _ \<Rightarrow>
                     (if fails TxInsert then st
                      else (let st1 = insert_transaction (usage_row tx_id now u price (bot_creation_desc name p)) st
                            in if fails BalUpsert then st1 else upsert_balance u (the computed - price) st1)))
              else st))"

text \<open>The end of every run that got past the guard: \<open>finally\<close> clears
  \<open>creating\<close> and \<open>fetchBalance\<close> shows the stored balance.\<close>

definition create_finish ::
  "(create_call \<Rightarrow> bool) \<Rightarrow> user_id \<Rightarrow> create_outcome \<Rightarrow> store \<Rightarrow> dash_view \<Rightarrow> (string \<times> string) option \<Rightarrow> create_result" where
  "create_finish fails u out st v rq =
     \<lparr>cr_outcome = out, cr_store = st,
      cr_view = fetch_balance (Some u) (if fails BalanceRead then DbErr ''read failed'' else DbOk (balances st u))
                  (v\<lparr>dv_creating := False\<rparr>),
      cr_request = rq\<rparr>"

text \<open>\<open>catch\<close>: the toast \<open>Gagal membuat bot: message\<close>.\<close>

definition create_fail ::
  "(create_call \<Rightarrow> bool) \<Rightarrow> user_id \<Rightarrow> string \<Rightarrow> store \<Rightarrow> dash_view \<Rightarrow> (string \<times> string) option \<Rightarrow> create_result" where
  "create_fail fails u m st v rq = create_finish fails u (CreateError (''Gagal membuat bot: '' @ m)) st v rq"

text \<open>\<open>handleCreateBot\<close>.  A network failure is taken to leave the store
  as it was; an answer means the request reached the remote action.\<close>

definition handle_create_bot :: "dash_view \<Rightarrow> user_id option \<Rightarrow> create_input \<Rightarrow> store \<Rightarrow> create_result" where
  "handle_create_bot v user ci st =
     (let name = dv_bot_name v; fails = ci_fails ci in
      if js_trim name = [] \<or> dv_selected_plan v = [] \<or> user = None then
        \<lparr>cr_outcome = CreateSkipped, cr_store = st, cr_view = v, cr_request = None\<rparr>
      else
        (let u = the user; prev = dv_balance v; v1 = v\<lparr>dv_creating := True\<rparr> in
         if \<not> fails DupCheck \<and> dup_bots u (js_trim name) st \<noteq> [] then
           create_fail fails u (dup_message name) st v1 None
         else
           (case truthy_token (ci_token ci) of
              None \<Rightarrow> create_fail fails u ''No authentication token found'' st v1 None
            | Some _ \<Rightarrow>
                (let rq = Some (name, dv_selected_plan v) in
                 case ci_response ci of
                   NetworkError m \<Rightarrow> create_fail fails u m st v1 rq
                 | Http status _ body _ \<Rightarrow>
                     (let st1 = ci_remote ci st in
                      if status = 200 then
                        (let v2 = fetch_chatbots (Some u)
                                    (if fails ChatbotsRead then DbErr ''read failed'' else DbOk (chatbots_query u st1))
                                    (v1\<lparr>dv_new_bot_open := False, dv_bot_name := []\<rparr>);
                             st2 = post_create_reconcile fails (ci_tx_id ci) (ci_now ci) u (selected_plan v) name prev st1
                         in create_finish fails u CreateOk st2 v2 rq)
                      else create_fail fails u (''Failed to create bot: '' @ int_to_string (int status) @ '' '' @ body) st1 v1 rq)))))"

subsection \<open>Deleting a bot\<close>

text \<open>\<open>from("chatbot").delete().eq("id", i).eq("user_id", u)\<close>.\<close>

definition delete_chatbot :: "string \<Rightarrow> user_id \<Rightarrow> store \<Rightarrow> store" where
  "delete_chatbot i u st = st\<lparr>chatbots := filter (\<lambda>c. \<not> (c_id c = i \<and> c_user_id c = Some u)) (chatbots st)\<rparr>"

text \<open>\<open>handleDeleteBot(id)\<close>: on success the row leaves the list shown; on an
  error its message, or a default, is reported.  \<open>deletingId\<close> is set for
  the duration and cleared by \<open>finally\<close>.\<close>

definition handle_delete_bot ::
  "user_id option \<Rightarrow> string \<Rightarrow> string option \<Rightarrow> dash_view \<Rightarrow> store \<Rightarrow> (string + unit) \<times> dash_view \<times> store" where
  "handle_delete_bot user i err v st =
     (case user of
        None \<Rightarrow> (Inr (), v, st)
      | Some u \<Rightarrow>
          (case err of
             Some m \<Rightarrow> (Inl (if m = [] then ''Terjadi kesalahan saat menghapus chatbot.'' else m),
                        v\<lparr>dv_deleting := None\<rparr>, st)
           | None \<Rightarrow> (Inr (), v\<lparr>dv_chatbots := filter (\<lambda>b. c_id b \<noteq> i) (dv_chatbots v), dv_deleting := None\<rparr>,
                      delete_chatbot i u st)))"

subsection \<open>Search and refresh timers\<close>

text \<open>\<open>toLowerCase\<close>, on ASCII letters.\<close>

definition js_lower :: "string \<Rightarrow> string" where
  "js_lower s = map lower_char s"

text \<open>\<open>filteredChatbots\<close>: the name (when there is one) or the id contains
  the search text, ignoring case.\<close>

definition filtered_chatbots :: "string \<Rightarrow> chatbot list \<Rightarrow> chatbot list" where
  "filtered_chatbots q cs =
     filter (\<lambda>c. (case c_name c of Some n \<Rightarrow> js_includes (js_lower n) (js_lower q) | None \<Rightarrow> False)
                 \<or> js_includes (js_lower (c_id c)) (js_lower q)) cs"

datatype dash_read = ReadChatbots | ReadPlans | ReadBalance

text \<open>The reads the page starts at instant \<open>t\<close> ms after the user is known:
  all three at mount, then chatbots and balance every 5 s and chatbots every
  2 s (two independent intervals).\<close>

definition dashboard_reads_at :: "nat \<Rightarrow> dash_read list" where
  "dashboard_reads_at t =
     (if t = 0 then [ReadChatbots, ReadPlans, ReadBalance]
      else (if t mod 5000 = 0 then [ReadChatbots, ReadBalance] else [])
           @ (if t mod 2000 = 0 then [ReadChatbots] else []))"

subsection \<open>Example data\<close>

text \<open>A user whose log holds one top-up of 50000, and the
  create dialog for a bot \<open>bot\<close> on the plan \<open>Basic\<close>.\<close>

abbreviation example_dash_store :: store where
  "example_dash_store \<equiv> \<lparr>balances = [''u1'' \<mapsto> 50000], transactions = [example_topup], payments = [], chatbots = []\<rparr>"

abbreviation example_dash_view :: dash_view where
  "example_dash_view \<equiv> dash_view_init\<lparr>dv_plans := [example_plan], dv_selected_plan := ''p1'',
                         dv_bot_name := ''bot'', dv_new_bot_open := True\<rparr>"

abbreviation example_create_input :: "http_response \<Rightarrow> create_input" where
  "example_create_input r \<equiv> \<lparr>ci_token = Some ''tok'', ci_response = r, ci_remote = id,
                               ci_fails = \<lambda>_. False, ci_tx_id = ''t9'', ci_now = ''2025-02-01''\<rparr>"

subsection \<open>The \<open>ILIKE\<close> duplicate check\<close>

lemma like_tokens_plain: "CHR 0x5C \<notin> set s \<Longrightarrow> like_tokens s = Some (map like_tok_of s)"
  by (induction s rule: like_tokens.induct) auto

lemma like_match_any_empty: "like_match p s \<Longrightarrow> like_match (LikeAny # p) s"
  by (cases s) auto

lemma like_match_any_prefix: "like_match p s \<Longrightarrow> like_match (LikeAny # p) (a @ s)"
  by (induction a) (auto intro: like_match_any_empty)

lemma like_match_any_all: "like_match [LikeAny] s"
  by (induction s) auto

text \<open>Every character of a name matches itself in the pattern made from
  it: a literal matches itself, and \<open>%\<close>, \<open>*\<close> and \<open>_\<close> match it too.\<close>

lemma like_match_self: "like_match (map like_tok_of (postgrest_pattern s) @ [LikeAny]) (s @ b)"
proof (induction s)
  case Nil
  then show ?case using like_match_any_all by (simp add: postgrest_pattern_def)
next
  case (Cons x s)
  show ?case
  proof (cases "x = CHR ''%'' \<or> x = CHR ''*''")
    case True
    then show ?thesis using Cons.IH like_match_any_prefix [of _ _ "[x]"]
      by (auto simp: like_tok_of_def postgrest_pattern_def)
  next
    case False
    with Cons.IH show ?thesis by (simp add: like_tok_of_def postgrest_pattern_def)
  qed
qed

lemma ilike_contains:
  assumes "CHR 0x5C \<notin> set name"
  shows "like_tokens (postgrest_pattern (''%'' @ name @ ''%'')) =
           Some (LikeAny # map like_tok_of (postgrest_pattern name) @ [LikeAny])"
    and "like_match (LikeAny # map like_tok_of (postgrest_pattern name) @ [LikeAny]) (a @ name @ b)"
proof -
  have "CHR 0x5C \<notin> set (postgrest_pattern name)" using assms by (auto simp: postgrest_pattern_def)
  then show "like_tokens (postgrest_pattern (''%'' @ name @ ''%'')) =
           Some (LikeAny # map like_tok_of (postgrest_pattern name) @ [LikeAny])"
    by (simp add: like_tokens_plain like_tok_of_def postgrest_pattern_def)
  show "like_match (LikeAny # map like_tok_of (postgrest_pattern name) @ [LikeAny]) (a @ name @ b)"
    by (rule like_match_any_prefix) (rule like_match_self)
qed


subsection \<open>The compensation\<close>

lemma user_txs_snoc [simp]: "user_txs u (ts @ [t]) = user_txs u ts @ (if t_user_id t = u then [t] else [])"
  by (simp add: user_txs_def)

lemma usage_row_fields [simp]:
  "t_user_id (usage_row i n u p d) = u" "t_type (usage_row i n u p d) = Usage"
  "t_amount (usage_row i n u p d) = Some p" "t_description (usage_row i n u p d) = Some d"
  by (simp_all add: usage_row_def)

text \<open>The two outcomes of the compensation: nothing is written, or one usage
  row for the plan's price is appended and, unless the upsert fails, the
  balance is set to the fold minus the price.\<close>

lemma post_create_reconcile_cases:
  "post_create_reconcile fails i n u plan name prev st = st
   \<or> (\<exists>p. plan = Some p \<and> 0 < pl_price_per_month p \<and> \<not> fails TxRead \<and> \<not> fails TxInsert
        \<and> prev = Some (reconcile (user_txs u (transactions st)) - pl_price_per_month p)
        \<and> (\<forall>x xs. existing_usage fails u (pl_price_per_month p) name st \<noteq> DbOk (x # xs))
        \<and> post_create_reconcile fails i n u plan name prev st =
            (let st1 = insert_transaction (usage_row i n u (pl_price_per_month p) (bot_creation_desc name p)) st
             in if fails BalUpsert then st1
                else upsert_balance u (reconcile (user_txs u (transactions st)) - pl_price_per_month p) st1))"
  by (auto simp: post_create_reconcile_def Let_def split: option.splits db_result.splits list.splits if_splits)


lemma post_create_reconcile_balance:
  assumes "post_create_reconcile fails i n u plan name prev st \<noteq> st" "\<not> fails BalUpsert"
  shows "balances (post_create_reconcile fails i n u plan name prev st) u =
           Some (reconcile (user_txs u (transactions (post_create_reconcile fails i n u plan name prev st))))"
proof -
  from post_create_reconcile_cases [of fails i n u plan name prev st] assms(1)
  obtain p where p: "0 < pl_price_per_month p"
    and eq: "post_create_reconcile fails i n u plan name prev st =
      upsert_balance u (reconcile (user_txs u (transactions st)) - pl_price_per_month p)
        (insert_transaction (usage_row i n u (pl_price_per_month p) (bot_creation_desc name p)) st)"
    using assms(2) by (auto simp: Let_def)
  show ?thesis
    unfolding eq by (simp add: reconcile_snoc_usage [where p = "pl_price_per_month p"])
qed

text \<open>C9: When the post-create compensation writes anything and its balance
  upsert succeeds, the stored balance afterwards is the fold of the user's
  transaction log, the new usage row included.\<close>

theorem post_create_reconcile_consistent:
  assumes "post_create_reconcile fails i n u plan name prev st \<noteq> st" "\<not> fails BalUpsert"
  shows "balance_consistent (post_create_reconcile fails i n u plan name prev st) u"
  using post_create_reconcile_balance [OF assms] by (simp add: balance_consistent_def)

lemma existing_usage_finds_row:
  assumes "CHR 0x5C \<notin> set name" "\<not> fails TxCheck"
    and "usage_row i n u price (bot_creation_desc name p) \<in> set (transactions st)"
  shows "\<exists>x xs. existing_usage fails u price name st = DbOk (x # xs)"
proof -
  let ?pat = "LikeAny # map like_tok_of (postgrest_pattern name) @ [LikeAny]"
  have "usage_matches u price ?pat (usage_row i n u price (bot_creation_desc name p))"
    using ilike_contains(2) [OF assms(1), of "''Create Bot ''"]
    by (simp add: usage_matches_def bot_creation_desc_def)
  then have "filter (usage_matches u price ?pat) (transactions st) \<noteq> []"
    using assms(3) by (auto simp: filter_empty_conv)
  then show ?thesis
    unfolding existing_usage_def ilike_contains(1) [OF assms(1)] using assms(2) by (auto simp: neq_Nil_conv)
qed

lemma post_create_reconcile_found:
  "existing_usage fails u (pl_price_per_month p) name st = DbOk (x # xs) \<Longrightarrow>
   post_create_reconcile fails i n u (Some p) name prev st = st"
  using post_create_reconcile_cases [of fails i n u "Some p" name prev st] by auto

text \<open>C10: The duplicate check makes the compensation at most once: two
  runs for the same bot name and plan append at most one usage row, when the
  name holds no backslash and the second run's check does not fail.\<close>

theorem post_create_reconcile_at_most_once:
  assumes "CHR 0x5C \<notin> set name" "\<not> fails2 TxCheck"
  shows "length (transactions (post_create_reconcile fails2 i2 n2 u plan name prev2
            (post_create_reconcile fails1 i1 n1 u plan name prev1 st))) \<le> length (transactions st) + 1"
proof -
  let ?st1 = "post_create_reconcile fails1 i1 n1 u plan name prev1 st"
  have one: "\<And>f i n pv s. length (transactions (post_create_reconcile f i n u plan name pv s)) \<le> length (transactions s) + 1"
  proof -
    fix f i n pv s
    show "length (transactions (post_create_reconcile f i n u plan name pv s)) \<le> length (transactions s) + 1"
      using post_create_reconcile_cases [of f i n u plan name pv s] by (auto simp: Let_def)
  qed
  show ?thesis
  proof (cases "?st1 = st")
    case True
    with one show ?thesis by simp
  next
    case False
    then obtain p where p: "plan = Some p"
      and st1: "transactions ?st1 = transactions st @ [usage_row i1 n1 u (pl_price_per_month p) (bot_creation_desc name p)]"
      using post_create_reconcile_cases [of fails1 i1 n1 u plan name prev1 st] by (auto simp: Let_def)
    then obtain x xs where "existing_usage fails2 u (pl_price_per_month p) name ?st1 = DbOk (x # xs)"
      using existing_usage_finds_row [where fails = fails2 and i = i1 and n = n1 and u = u and price = "pl_price_per_month p"
            and p = p and st = ?st1, OF assms] by auto
    then have "post_create_reconcile fails2 i2 n2 u plan name prev2 ?st1 = ?st1"
      using p post_create_reconcile_found by blast
    with st1 show ?thesis by simp
  qed
qed


subsection \<open>The handlers\<close>

lemmas create_defs = handle_create_bot_def create_fail_def create_finish_def fetch_balance_def

text \<open>C27: A bot whose trimmed name the user already has is refused before any
  request: the toast names the duplicate, nothing is sent and the store is
  unchanged.\<close>

theorem create_duplicate_name_rejected:
  assumes "js_trim (dv_bot_name v) \<noteq> []" "dv_selected_plan v \<noteq> []"
    and "\<not> ci_fails ci DupCheck" "dup_bots u (js_trim (dv_bot_name v)) st \<noteq> []"
  shows "cr_outcome (handle_create_bot v (Some u) ci st) =
           CreateError (''Gagal membuat bot: '' @ dup_message (dv_bot_name v))
       \<and> cr_request (handle_create_bot v (Some u) ci st) = None
       \<and> cr_store (handle_create_bot v (Some u) ci st) = st"
  using assms by (simp add: create_defs Let_def)

text \<open>C28: Any answer of the create webhook other than 200 is a failure
  \<open>Failed to create bot: status body\<close>; no compensation is written and the
  dialog stays open.\<close>

theorem create_non200_fails:
  assumes "js_trim (dv_bot_name v) \<noteq> []" "dv_selected_plan v \<noteq> []"
    and "ci_fails ci DupCheck \<or> dup_bots u (js_trim (dv_bot_name v)) st = []"
    and "str_truthy (ci_token ci)" "ci_response ci = Http status stext body parsed" "status \<noteq> 200"
  shows "cr_outcome (handle_create_bot v (Some u) ci st) =
           CreateError (''Gagal membuat bot: Failed to create bot: '' @ int_to_string (int status) @ '' '' @ body)
       \<and> cr_store (handle_create_bot v (Some u) ci st) = ci_remote ci st
       \<and> dv_new_bot_open (cr_view (handle_create_bot v (Some u) ci st)) = dv_new_bot_open v
       \<and> \<not> dv_creating (cr_view (handle_create_bot v (Some u) ci st))"
  using assms by (auto simp: create_defs Let_def)

text \<open>C11: A 200 answer closes the dialog, clears the name, runs the
  compensation on the store the remote action left, and shows the stored
  balance; \<open>creating\<close> is cleared.\<close>

theorem create_success:
  assumes "js_trim (dv_bot_name v) \<noteq> []" "dv_selected_plan v \<noteq> []"
    and "ci_fails ci DupCheck \<or> dup_bots u (js_trim (dv_bot_name v)) st = []"
    and "str_truthy (ci_token ci)" "ci_response ci = Http 200 stext body parsed" "\<not> ci_fails ci BalanceRead"
  shows "cr_outcome (handle_create_bot v (Some u) ci st) = CreateOk
       \<and> cr_request (handle_create_bot v (Some u) ci st) = Some (dv_bot_name v, dv_selected_plan v)
       \<and> cr_store (handle_create_bot v (Some u) ci st) =
           post_create_reconcile (ci_fails ci) (ci_tx_id ci) (ci_now ci) u (selected_plan v) (dv_bot_name v)
             (dv_balance v) (ci_remote ci st)
       \<and> \<not> dv_new_bot_open (cr_view (handle_create_bot v (Some u) ci st))
       \<and> dv_bot_name (cr_view (handle_create_bot v (Some u) ci st)) = []
       \<and> dv_balance (cr_view (handle_create_bot v (Some u) ci st)) =
           balances (cr_store (handle_create_bot v (Some u) ci st)) u
       \<and> \<not> dv_creating (cr_view (handle_create_bot v (Some u) ci st))"
  using assms by (auto simp: create_defs fetch_chatbots_def Let_def)

text \<open>C30: When the user has no balance row the dashboard shows
  \<open>undefined\<close>, and the create button stays disabled whatever the plan's
  price, a free plan included.\<close>

theorem no_balance_row_blocks_create:
  "\<not> create_enabled (fetch_balance (Some u) (DbOk None) v)
   \<and> \<not> is_balance_sufficient (fetch_balance (Some u) (DbOk None) v)"
  by (simp add: create_enabled_def is_balance_sufficient_def fetch_balance_def selected_plan_def
           split: option.splits)

text \<open>Deleting a bot removes only rows of the signed-in user: every row
  of another user is kept, in order.\<close>

theorem delete_other_users_untouched:
  "filter (\<lambda>c. c_user_id c \<noteq> Some u) (chatbots (snd (snd (handle_delete_bot (Some u) i err v st))))
   = filter (\<lambda>c. c_user_id c \<noteq> Some u) (chatbots st)"
  by (cases err) (auto simp: handle_delete_bot_def delete_chatbot_def intro: filter_cong)


subsection \<open>Search and timers\<close>

lemma js_includes_Nil [simp]: "js_includes s []"
  by (simp add: js_includes_def)

text \<open>An empty search shows every bot.\<close>

lemma filtered_chatbots_empty: "filtered_chatbots [] cs = cs"
  by (simp add: filtered_chatbots_def js_lower_def)

text \<open>The chatbot list is reread at least every two seconds and the
  balance every five.\<close>

lemma dashboard_reads_periodic:
  "ReadChatbots \<in> set (dashboard_reads_at (2000 * Suc k)) \<and> ReadBalance \<in> set (dashboard_reads_at (5000 * Suc k))"
  by (simp add: dashboard_reads_at_def)

subsection \<open>Examples and witnesses\<close>

text \<open>What evaluating a compensation run on concrete data unfolds.\<close>

lemmas compensation_eval = post_create_reconcile_def existing_usage_def postgrest_pattern_def Let_def user_txs_def reconcile_def reconcile_step_def usage_matches_def like_tok_of_def upsert_balance_def insert_transaction_def

text \<open>A backslash in a bot name can defeat the duplicate check (not every
  one does: \<open>\\\<close> and \<open>\%\<close> are still found).  For the name \<open>x\y\<close> the
  pattern \<open>%x\y%\<close> reads \<open>\y\<close> as an escaped \<open>y\<close>, so the check does not
  find the usage row the compensation has just written for bot \<open>x\y\<close>.\<close>

theorem backslash_name_escapes_dedup:
  "existing_usage (\<lambda>_. False) ''u1'' 50000 (''x'' @ [CHR 0x5C] @ ''y'')
     (post_create_reconcile (\<lambda>_. False) ''t1'' ''n'' ''u1'' (Some example_plan) (''x'' @ [CHR 0x5C] @ ''y'')
        (Some 0) example_dash_store) = DbOk []
   \<and> length (transactions (post_create_reconcile (\<lambda>_. False) ''t1'' ''n'' ''u1'' (Some example_plan)
        (''x'' @ [CHR 0x5C] @ ''y'') (Some 0) example_dash_store)) = 2"
  by (simp add: compensation_eval bot_creation_desc_def lower_char_def)

theorem post_create_reconcile_consistent_witness:
  "post_create_reconcile (\<lambda>_. False) ''t1'' ''n'' ''u1'' (Some example_plan) ''bot'' (Some 0) example_dash_store
     \<noteq> example_dash_store
   \<and> balance_consistent
       (post_create_reconcile (\<lambda>_. False) ''t1'' ''n'' ''u1'' (Some example_plan) ''bot'' (Some 0) example_dash_store) ''u1''"
proof -
  have h: "post_create_reconcile (\<lambda>_. False) ''t1'' ''n'' ''u1'' (Some example_plan) ''bot'' (Some 0) example_dash_store
     \<noteq> example_dash_store"
    by (simp add: compensation_eval)
  from h post_create_reconcile_consistent [OF h] show ?thesis by simp
qed

theorem post_create_reconcile_at_most_once_witness:
  "CHR 0x5C \<notin> set ''bot'' \<and>
   length (transactions (post_create_reconcile (\<lambda>_. False) ''t2'' ''n'' ''u1'' (Some example_plan) ''bot'' (Some (-50000))
     (post_create_reconcile (\<lambda>_. False) ''t1'' ''n'' ''u1'' (Some example_plan) ''bot'' (Some 0) example_dash_store)))
   \<le> length (transactions example_dash_store) + 1"
proof -
  have h: "CHR 0x5C \<notin> set ''bot''" "\<not> (\<lambda>_. False) TxCheck" by simp_all
  from h(1) post_create_reconcile_at_most_once [OF h, of "''t2''" "''n''" "''u1''" "Some example_plan" "Some (-50000)"
      "\<lambda>_. False" "''t1''" "''n''" "Some 0" example_dash_store]
  show ?thesis by simp
qed

theorem create_duplicate_name_rejected_witness:
  "cr_outcome (handle_create_bot example_dash_view (Some ''u1'') (example_create_input (NetworkError [])) 
      (example_dash_store\<lparr>chatbots := [example_bot\<lparr>c_name := Some ''bot''\<rparr>]\<rparr>)) =
     CreateError (''Gagal membuat bot: '' @ dup_message ''bot'')"
proof -
  have h: "js_trim (dv_bot_name example_dash_view) \<noteq> []" "dv_selected_plan example_dash_view \<noteq> []"
    "\<not> ci_fails (example_create_input (NetworkError [])) DupCheck"
    "dup_bots ''u1'' (js_trim (dv_bot_name example_dash_view)) (example_dash_store\<lparr>chatbots := [example_bot\<lparr>c_name := Some ''bot''\<rparr>]\<rparr>) \<noteq> []"
    by (simp_all add: js_trim_def is_js_space_def dash_view_init_def dup_bots_def)
  from create_duplicate_name_rejected [OF h] show ?thesis by (simp add: dash_view_init_def)
qed

theorem create_non200_fails_witness:
  "cr_outcome (handle_create_bot example_dash_view (Some ''u1'') (example_create_input (Http 201 ''Created'' ''ok'' None))
      example_dash_store) = CreateError ''Gagal membuat bot: Failed to create bot: 201 ok''"
proof -
  have h: "js_trim (dv_bot_name example_dash_view) \<noteq> []" "dv_selected_plan example_dash_view \<noteq> []"
    "ci_fails (example_create_input (Http 201 ''Created'' ''ok'' None)) DupCheck
     \<or> dup_bots ''u1'' (js_trim (dv_bot_name example_dash_view)) example_dash_store = []"
    "str_truthy (ci_token (example_create_input (Http 201 ''Created'' ''ok'' None)))"
    "ci_response (example_create_input (Http 201 ''Created'' ''ok'' None)) = Http 201 ''Created'' ''ok'' None"
    "(201::nat) \<noteq> 200"
    by (simp_all add: js_trim_def is_js_space_def dash_view_init_def dup_bots_def)
  from create_non200_fails [OF h] show ?thesis
    by (simp add: int_to_string_def nat_digits.simps digit_char_def dash_view_init_def)
qed

theorem create_success_witness:
  "cr_outcome (handle_create_bot example_dash_view (Some ''u1'') (example_create_input (Http 200 ''OK'' [] None))
      example_dash_store) = CreateOk
   \<and> balances (cr_store (handle_create_bot example_dash_view (Some ''u1'') (example_create_input (Http 200 ''OK'' [] None))
      example_dash_store)) ''u1'' = Some 0"
proof -
  have h: "js_trim (dv_bot_name example_dash_view) \<noteq> []" "dv_selected_plan example_dash_view \<noteq> []"
    "ci_fails (example_create_input (Http 200 ''OK'' [] None)) DupCheck
     \<or> dup_bots ''u1'' (js_trim (dv_bot_name example_dash_view)) example_dash_store = []"
    "str_truthy (ci_token (example_create_input (Http 200 ''OK'' [] None)))"
    "ci_response (example_create_input (Http 200 ''OK'' [] None)) = Http 200 ''OK'' [] None"
    "\<not> ci_fails (example_create_input (Http 200 ''OK'' [] None)) BalanceRead"
    by (simp_all add: js_trim_def is_js_space_def dash_view_init_def dup_bots_def)
  from create_success [OF h] show ?thesis
    by (simp add: dash_view_init_def selected_plan_def compensation_eval)
qed

end
