(* ===== verification/Dashboard_QR.thy ===== *)
theory Dashboard_QR
  imports Dashboard
begin

text \<open>
  The QR pairing flow of the dashboard (\<open>src/app/dashboard/page.tsx\<close>):
  \<open>fetchQRCode\<close>, which asks the \<open>/api/qr\<close> proxy for the WhatsApp pairing
  code of a bot with a ten-second abort timer and classifies every failure
  into a message; the one-second countdown that refetches the code every ten
  seconds while the dialog is open; the watcher that closes the dialog when
  the bot reaches \<open>WORKING\<close>; and the status badge whose click opens the
  dialog.  The timer is modelled by the latency of the answer: an answer
  later than the timeout is the abort.
\<close>

subsection \<open>State\<close>

record qr_view =
  qv_open :: bool
  qv_bot :: "chatbot option"
  qv_code :: json
  qv_loading :: bool
  qv_countdown :: int

definition qr_view_init :: qr_view where
  "qr_view_init = \<lparr>qv_open = False, qv_bot = None, qv_code = JStr [], qv_loading = False, qv_countdown = 10\<rparr>"

subsection \<open>Fetching the code\<close>

definition qr_timeout_ms :: nat where
  "qr_timeout_ms = 10000"

text \<open>The answer of \<open>fetch("/api/qr")\<close>: a rejected promise with the error's
  message, or status, status text, body and \<open>JSON.parse\<close> of the body.\<close>

datatype qr_answer =
    QrRejected string
  | QrHttp nat string string "json option"

text \<open>What the page sees: an answer later than the timeout is the
  \<open>AbortError\<close> of the controller (\<open>None\<close>).\<close>

definition qr_arrival :: "nat \<Rightarrow> qr_answer \<Rightarrow> qr_answer option" where
  "qr_arrival latency a = (if qr_timeout_ms \<le> latency then None else Some a)"

definition qr_timeout_message :: string where
  "qr_timeout_message = ''Request timeout - QR service took too long to respond''"

text \<open>The bullet \<open>U+2022\<close> of the message, in UTF-8.\<close>

definition bullet :: string where
  "bullet = [CHR 0xE2, CHR 0x80, CHR 0xA2]"

definition qr_unreachable_message :: string where
  "qr_unreachable_message = ''Unable to connect to QR service. This could be due to:'' @ [CHR 0x0A] @
     bullet @ '' Network connectivity issues'' @ [CHR 0x0A] @
     bullet @ '' CORS policy blocking the request'' @ [CHR 0x0A] @
     bullet @ '' QR service is temporarily unavailable'' @ [CHR 0x0A, CHR 0x0A] @
     ''Please try again later or contact support.''"

text \<open>The inner \<open>catch (fetchError)\<close>: the abort and a \<open>Failed to fetch\<close>
  are replaced by messages for the user, anything else is rethrown.\<close>

definition qr_fetch_error_message :: "string option \<Rightarrow> string" where
  "qr_fetch_error_message e =
     (case e of
        None \<Rightarrow> qr_timeout_message
      | Some m \<Rightarrow> (if js_includes m ''Failed to fetch'' then qr_unreachable_message else m))"

text \<open>\<open>if (!response.ok)\<close>: the four messages by status.\<close>

definition qr_status_message :: "nat \<Rightarrow> string \<Rightarrow> string" where
  "qr_status_message status status_text =
     (if status = 0 then ''Network error: Unable to reach QR service. Please check your internet connection.''
      else if 500 \<le> status then
        ''QR service is temporarily unavailable ('' @ int_to_string (int status) @ ''). Please try again later.''
      else if status = 404 then ''QR service endpoint not found. Please contact support.''
      else ''QR service error: '' @ int_to_string (int status) @ '' '' @ status_text)"

text \<open>The body: \<open>data.qr\<close>, else \<open>data.error\<close>, else no code.  Reading a
  property of \<open>null\<close> throws.\<close>

definition qr_body :: "json \<Rightarrow> string + json" where
  "qr_body d =
     (case js_get d ''qr'' of
        Inl (TypeError m) \<Rightarrow> Inl m
      | Inr q \<Rightarrow>
          (if truthy q then Inr (the q)
           else (let e = js_field (Some d) ''error'' in
                 if truthy e then Inl (''QR service error: '' @ js_opt_to_string e)
                 else Inl ''QR code not available in response'')))"

datatype qr_outcome = QrSkipped | QrShown json | QrAlert string | QrToast string

text \<open>\<open>fetchQRCode(chatbotId)\<close>: every path through \<open>finally\<close> clears the
  loading flag; a missing session alerts and returns.\<close>

definition fetch_qr_code ::
  "user_id option \<Rightarrow> string option \<Rightarrow> nat \<Rightarrow> qr_answer \<Rightarrow> qr_view \<Rightarrow> qr_outcome \<times> qr_view" where
  "fetch_qr_code user token latency a v =
     (if user = None then (QrSkipped, v)
      else
        (let v1 = v\<lparr>qv_loading := False, qv_code := JStr []\<rparr> in
         case truthy_token token of
           None \<Rightarrow> (QrAlert ''Session expired. Please login again.'', v1)
         | Some _ \<Rightarrow>
             (case qr_arrival latency a of
                None \<Rightarrow> (QrToast (qr_fetch_error_message None), v1)
              | Some (QrRejected m) \<Rightarrow> (QrToast (qr_fetch_error_message (Some m)), v1)
              | Some (QrHttp status st body parsed) \<Rightarrow>
                  (if \<not> http_ok status then (QrToast (qr_status_message status st), v1)
                   else
                     (case parsed of
                        None \<Rightarrow> (QrToast ''Invalid response format from QR service'', v1)
                      | Some d \<Rightarrow>
                          (case qr_body d of
                             Inl m \<Rightarrow> (QrToast m, v1)
                           | Inr q \<Rightarrow> (QrShown q, v1\<lparr>qv_code := q\<rparr>)))))))"

subsection \<open>Countdown, watcher and badge\<close>

text \<open>One tick of the countdown \<open>setInterval\<close> (only while the dialog is
  open): at one or below the code of the selected bot is fetched and the
  counter restarts at 10.  The second component is the bot whose code is
  fetched.\<close>

definition countdown_tick :: "qr_view \<Rightarrow> qr_view \<times> string option" where
  "countdown_tick v =
     (if \<not> qv_open v then (v, None)
      else if qv_countdown v \<le> 1 then (v\<lparr>qv_countdown := 10\<rparr>, map_option c_id (qv_bot v))
      else (v\<lparr>qv_countdown := qv_countdown v - 1\<rparr>, None))"

fun run_ticks :: "nat \<Rightarrow> qr_view \<Rightarrow> qr_view \<times> string list" where
  "run_ticks 0 v = (v, [])"
| "run_ticks (Suc n) v =
     (let (v1, f) = countdown_tick v; (v2, fs) = run_ticks n v1
      in (v2, (case f of None \<Rightarrow> fs | Some i \<Rightarrow> i # fs)))"

text \<open>The effect that watches the list: when the selected bot is listed
  with status \<open>WORKING\<close> the dialog closes and the page reloads.\<close>

definition watch_working :: "chatbot list \<Rightarrow> qr_view \<Rightarrow> qr_view \<times> bool" where
  "watch_working cs v =
     (case qv_bot v of
        Some b \<Rightarrow>
          (if qv_open v then
             (case find (\<lambda>c. c_id c = c_id b) cs of
                Some c \<Rightarrow> (if c_status c = Some ''WORKING''
                            then (v\<lparr>qv_open := False, qv_bot := None, qv_code := JStr []\<rparr>, True)
                            else (v, False))
              | None \<Rightarrow> (v, False))
           else (v, False))
      | None \<Rightarrow> (v, False))"

datatype badge = BadgeProvisioning | BadgeNeedScanQr | BadgeWorking

definition status_badge :: "string option \<Rightarrow> badge" where
  "status_badge s =
     (if s = Some ''NEED_SCAN_QR'' then BadgeNeedScanQr
      else if s = Some ''WORKING'' then BadgeWorking else BadgeProvisioning)"

text \<open>The click on a \<open>Need Scan QR\<close> badge: select the bot, fetch its code,
  open the dialog.\<close>

definition open_qr_dialog ::
  "chatbot \<Rightarrow> user_id option \<Rightarrow> string option \<Rightarrow> nat \<Rightarrow> qr_answer \<Rightarrow> qr_view \<Rightarrow> qr_outcome \<times> qr_view" where
  "open_qr_dialog c user token latency a v =
     (let (out, v1) = fetch_qr_code user token latency a (v\<lparr>qv_bot := Some c\<rparr>) in (out, v1\<lparr>qv_open := True\<rparr>))"

text \<open>The range the countdown keeps.\<close>

definition countdown_ok :: "qr_view \<Rightarrow> bool" where
  "countdown_ok v \<longleftrightarrow> 1 \<le> qv_countdown v \<and> qv_countdown v \<le> 10"

subsection \<open>Properties\<close>

lemma countdown_tick_simps:
  "\<not> qv_open v \<Longrightarrow> countdown_tick v = (v, None)"
  "qv_open v \<Longrightarrow> qv_countdown v \<le> 1 \<Longrightarrow> countdown_tick v = (v\<lparr>qv_countdown := 10\<rparr>, map_option c_id (qv_bot v))"
  "qv_open v \<Longrightarrow> 1 < qv_countdown v \<Longrightarrow> countdown_tick v = (v\<lparr>qv_countdown := qv_countdown v - 1\<rparr>, None)"
  by (simp_all add: countdown_tick_def)

text \<open>The countdown stays between 1 and 10: it starts at 10 and every tick keeps it in that range.\<close>

theorem countdown_invariant:
  "countdown_ok qr_view_init \<and> (countdown_ok v \<longrightarrow> countdown_ok (fst (countdown_tick v)))"
  by (simp add: countdown_ok_def qr_view_init_def countdown_tick_def)

lemma run_ticks_fetch:
  assumes "qv_open v" "qv_bot v = Some b" "qv_countdown v = int k + 1" "k < n"
  shows "c_id b \<in> set (snd (run_ticks n v))"
  using assms
proof (induction k arbitrary: v n)
  case 0
  then obtain m where "n = Suc m" by (cases n) auto
  with 0 show ?case by (simp add: countdown_tick_simps(2) split: prod.splits)
next
  case (Suc k)
  then obtain m where n: "n = Suc m" and km: "k < m" by (cases n) auto
  let ?v1 = "v\<lparr>qv_countdown := qv_countdown v - 1\<rparr>"
  have "c_id b \<in> set (snd (run_ticks m ?v1))"
    using Suc.IH [of ?v1 m] Suc.prems km by simp
  with Suc.prems n show ?case by (simp add: countdown_tick_simps(3) split: prod.splits)
qed

text \<open>C12: While the dialog is open with a selected bot and a counter in range, every ten consecutive ticks refetch that bot's code at least once.\<close>

theorem countdown_refetches:
  assumes "qv_open v" "qv_bot v = Some b" "countdown_ok v"
  shows "c_id b \<in> set (snd (run_ticks 10 v))"
proof -
  let ?k = "nat (qv_countdown v - 1)"
  have k: "qv_countdown v = int ?k + 1" "?k < 10"
    using assms(3) unfolding countdown_ok_def by (simp, arith)
  show ?thesis by (rule run_ticks_fetch [OF assms(1,2) k(1) k(2)])
qed


text \<open>An answer that takes the timeout or longer is the abort: whatever the service would have said, the user is told that the request timed out.\<close>

theorem qr_timeout_bound:
  assumes "user \<noteq> None" "str_truthy token" "qr_timeout_ms \<le> latency"
  shows "fst (fetch_qr_code user token latency a v) = QrToast ''Request timeout - QR service took too long to respond''"
  using assms by (auto simp: fetch_qr_code_def qr_arrival_def qr_fetch_error_message_def qr_timeout_message_def)

text \<open>C32: After \<open>fetchQRCode\<close> for a signed-in user the spinner is off, and the dialog shows a code only when the outcome is that truthy code; every other outcome leaves the code empty.\<close>

theorem qr_code_only_on_success:
  assumes "user \<noteq> None"
  shows "\<not> qv_loading (snd (fetch_qr_code user token latency a v))
       \<and> (qv_code (snd (fetch_qr_code user token latency a v)) = JStr []
          \<or> (fst (fetch_qr_code user token latency a v) = QrShown (qv_code (snd (fetch_qr_code user token latency a v)))
             \<and> truthy (Some (qv_code (snd (fetch_qr_code user token latency a v))))))"
  using assms
  by (auto simp: fetch_qr_code_def qr_body_def Let_def truthy_def
           split: option.splits qr_answer.splits sum.splits js_error.splits if_splits)

text \<open>The failure messages of the QR service by status: 0 is a network error, 500 and above is unavailability with the status, 404 is a missing endpoint, any other non-2xx is the status and its text; a \<open>Failed to fetch\<close> rejection gets the connection help text.\<close>

theorem qr_error_messages:
  "fetch_qr_code (Some u) (Some (k # t)) 10 (QrHttp 503 ''Service Unavailable'' [] None) v =
     (QrToast ''QR service is temporarily unavailable (503). Please try again later.'', v\<lparr>qv_loading := False, qv_code := JStr []\<rparr>)
   \<and> fst (fetch_qr_code (Some u) (Some (k # t)) 10 (QrHttp 404 ''Not Found'' [] None) v) =
       QrToast ''QR service endpoint not found. Please contact support.''
   \<and> fst (fetch_qr_code (Some u) (Some (k # t)) 10 (QrHttp 0 [] [] None) v) =
       QrToast ''Network error: Unable to reach QR service. Please check your internet connection.''
   \<and> fst (fetch_qr_code (Some u) (Some (k # t)) 10 (QrHttp 401 ''Unauthorized'' [] None) v) =
       QrToast ''QR service error: 401 Unauthorized''
   \<and> fst (fetch_qr_code (Some u) (Some (k # t)) 10 (QrRejected ''TypeError: Failed to fetch'') v) =
       QrToast qr_unreachable_message"
  by (simp add: fetch_qr_code_def qr_arrival_def qr_timeout_ms_def http_ok_def qr_status_message_def
        int_to_string_def nat_digits.simps digit_char_def qr_fetch_error_message_def js_includes_def)

text \<open>The watcher closes the dialog and reloads exactly when the selected bot is listed with status \<open>WORKING\<close> while the dialog is open.\<close>

theorem watch_working_iff:
  "snd (watch_working cs v) \<longleftrightarrow>
     qv_open v \<and> (\<exists>b c. qv_bot v = Some b \<and> find (\<lambda>c. c_id c = c_id b) cs = Some c \<and> c_status c = Some ''WORKING'')"
  by (auto simp: watch_working_def split: option.splits)

theorem countdown_invariant_witness:
  "countdown_ok qr_view_init \<and> countdown_ok (fst (countdown_tick qr_view_init))"
  using countdown_invariant [of qr_view_init] by simp

theorem countdown_refetches_witness:
  "''b1'' \<in> set (snd (run_ticks 10 (qr_view_init\<lparr>qv_open := True, qv_bot := Some example_bot\<rparr>)))"
proof -
  have h: "qv_open (qr_view_init\<lparr>qv_open := True, qv_bot := Some example_bot\<rparr>)"
    "qv_bot (qr_view_init\<lparr>qv_open := True, qv_bot := Some example_bot\<rparr>) = Some example_bot"
    "countdown_ok (qr_view_init\<lparr>qv_open := True, qv_bot := Some example_bot\<rparr>)"
    by (simp_all add: countdown_ok_def qr_view_init_def)
  from countdown_refetches [OF h] show ?thesis by simp
qed

theorem qr_timeout_bound_witness:
  "fst (fetch_qr_code (Some ''u1'') (Some ''tok'') 12000 (QrHttp 200 ''OK'' [] (Some (JObj [(''qr'', JStr ''abc'')]))) qr_view_init)
     = QrToast ''Request timeout - QR service took too long to respond''"
proof -
  have h: "Some ''u1'' \<noteq> None" "str_truthy (Some ''tok'')" "qr_timeout_ms \<le> 12000" by (simp_all add: qr_timeout_ms_def)
  from qr_timeout_bound [OF h] show ?thesis .
qed

theorem qr_code_only_on_success_witness:
  "qv_code (snd (fetch_qr_code (Some ''u1'') (Some ''tok'') 100 (QrHttp 200 ''OK'' [] (Some (JObj [(''qr'', JStr ''abc'')]))) qr_view_init))
     = JStr ''abc''
   \<and> \<not> qv_loading (snd (fetch_qr_code (Some ''u1'') (Some ''tok'') 100 (QrHttp 200 ''OK'' [] (Some (JObj [(''qr'', JStr ''abc'')]))) qr_view_init))"
proof -
  have h: "Some ''u1'' \<noteq> None" by simp
  have "qv_code (snd (fetch_qr_code (Some ''u1'') (Some ''tok'') 100 (QrHttp 200 ''OK'' [] (Some (JObj [(''qr'', JStr ''abc'')]))) qr_view_init))
     = JStr ''abc''"
    by (simp add: fetch_qr_code_def qr_arrival_def qr_timeout_ms_def http_ok_def qr_body_def truthy_def)
  with qr_code_only_on_success [OF h, of "Some ''tok''" 100 "QrHttp 200 ''OK'' [] (Some (JObj [(''qr'', JStr ''abc'')]))" qr_view_init]
  show ?thesis by simp
qed

end
