(* ===== verification/Chatbot_Page.thy ===== *)
theory Chatbot_Page
  imports Dashboard
begin

text \<open>
  The chatbot page \<open>src/app/dashboard/chatbots/[id]/page.tsx\<close> apart from
  \<open>handleRenew\<close> (theory \<open>Renewal\<close>): its reads of the bot and the
  balance, the ten-second usage refresh, saving and updating the prompt,
  switching the bot on and off, the usage percentage (compared with the
  dashboard's), and the simulated chat whose replies arrive one second
  after each message.
\<close>

subsection \<open>Page state and reads\<close>

text \<open>The page state; \<open>cv_plan\<close> is the plan joined to the bot by
  \<open>select("*, plans (*)")\<close>.\<close>

record chatbot_view =
  cv_chatbot :: "chatbot option"
  cv_plan :: "plan option"
  cv_loading :: bool
  cv_saving :: bool
  cv_prompt :: string
  cv_balance :: int

definition chatbot_view_init :: chatbot_view where
  "chatbot_view_init =
     \<lparr>cv_chatbot = None, cv_plan = None, cv_loading = True, cv_saving = False, cv_prompt = [], cv_balance = 0\<rparr>"

text \<open>\<open>fetchBalance\<close>: an error keeps the shown balance, a missing row shows 0.\<close>

definition cp_fetch_balance :: "user_id option \<Rightarrow> int option db_result \<Rightarrow> chatbot_view \<Rightarrow> chatbot_view" where
  "cp_fetch_balance user r v =
     (case user of
        None \<Rightarrow> v
      | Some _ \<Rightarrow> (case r of DbErr _ \<Rightarrow> v | DbOk b \<Rightarrow> v\<lparr>cv_balance := (case b of Some x \<Rightarrow> x | None \<Rightarrow> 0)\<rparr>))"

datatype page_notice = NoNotice | NoticeError string | NoticeSuccess string

text \<open>\<open>fetchChatbot\<close>: missing configuration or a failed read shows an error
  and navigates back to \<open>/dashboard\<close>; a loaded bot sets the prompt only
  when the editor is still empty.\<close>

definition cp_fetch_chatbot ::
  "user_id option \<Rightarrow> bool \<Rightarrow> (chatbot \<times> plan option) db_result \<Rightarrow> chatbot_view \<Rightarrow> chatbot_view \<times> page_notice \<times> string option" where
  "cp_fetch_chatbot user configured r v =
     (if user = None then (v, NoNotice, None)
      else if \<not> configured then
        (v\<lparr>cv_loading := False\<rparr>, NoticeError ''Supabase configuration missing'', Some ''/dashboard'')
      else
        (case r of
           DbErr m \<Rightarrow> (v\<lparr>cv_loading := False\<rparr>, NoticeError (''Failed to load chatbot: '' @ m), Some ''/dashboard'')
         | DbOk (c, p) \<Rightarrow>
             (v\<lparr>cv_chatbot := Some c, cv_plan := p, cv_loading := False,
                cv_prompt := (if cv_prompt v = [] then (case c_prompt c of Some s \<Rightarrow> s | None \<Rightarrow> []) else cv_prompt v)\<rparr>,
              NoNotice, None)))"

text \<open>One tick of the ten-second usage refresh: only \<open>ai_usages\<close> and
  \<open>ai_quota\<close> are copied into the shown bot.\<close>

definition usage_refresh :: "(int option \<times> int option) db_result \<Rightarrow> chatbot_view \<Rightarrow> chatbot_view" where
  "usage_refresh r v =
     (case (r, cv_chatbot v) of
        (DbOk (u, q), Some c) \<Rightarrow> v\<lparr>cv_chatbot := Some (c\<lparr>c_ai_usages := u, c_ai_quota := q\<rparr>)\<rparr>
      | _ \<Rightarrow> v)"

subsection \<open>Prompt and status\<close>

text \<open>\<open>handleSavePrompt\<close> (defined in the page, not bound to a control):
  update the row, then the shown bot.\<close>

definition handle_save_prompt ::
  "user_id option \<Rightarrow> bool \<Rightarrow> string \<Rightarrow> chatbot_view \<Rightarrow> store \<Rightarrow> chatbot_view \<times> page_notice \<times> store" where
  "handle_save_prompt user update_fails now v st =
     (case (cv_chatbot v, user) of
        (Some c, Some u) \<Rightarrow>
          (if update_fails then (v\<lparr>cv_saving := False\<rparr>, NoticeError ''Gagal menyimpan prompt'', st)
           else (v\<lparr>cv_chatbot := Some (c\<lparr>c_prompt := Some (cv_prompt v)\<rparr>), cv_saving := False\<rparr>,
                 NoticeSuccess ''Prompt berhasil disimpan!'',
                 update_chatbot (c_id c) u (\<lambda>b. b\<lparr>c_prompt := Some (cv_prompt v), c_updated_at := Some now\<rparr>) st))
      | _ \<Rightarrow> (v, NoNotice, st))"

text \<open>\<open>handleUpdatePrompt\<close>: the \<open>update-prompt\<close> webhook, then, on status
  200 only, the same row update (its error is only logged) and the shown
  bot.  Another 2xx status passes the \<open>ok\<close> test and then does nothing.\<close>

definition handle_update_prompt ::
  "user_id option \<Rightarrow> string option \<Rightarrow> http_response \<Rightarrow> bool \<Rightarrow> string \<Rightarrow> chatbot_view \<Rightarrow> store
   \<Rightarrow> chatbot_view \<times> page_notice \<times> store" where
  "handle_update_prompt user token resp update_fails now v st =
     (case (cv_chatbot v, user) of
        (Some c, Some u) \<Rightarrow>
          (if js_trim (cv_prompt v) = [] then (v, NoNotice, st)
           else
             (let v1 = v\<lparr>cv_saving := False\<rparr>;
                  fail = (\<lambda>m. (v1, NoticeError (''Gagal mengupdate prompt: '' @ m), st))
              in case truthy_token token of
                   None \<Rightarrow> fail ''No authentication token found''
                 | Some _ \<Rightarrow>
                     (case resp of
                        NetworkError m \<Rightarrow> fail m
                      | Http status _ body _ \<Rightarrow>
                          (if \<not> http_ok status then
                             fail (''API returned status '' @ int_to_string (int status) @ '': '' @ body)
                           else if status = 200 then
                             (v1\<lparr>cv_chatbot := Some (c\<lparr>c_prompt := Some (cv_prompt v)\<rparr>)\<rparr>,
                              NoticeSuccess ''Prompt berhasil diupdate!'',
                              if update_fails then st
                              else update_chatbot (c_id c) u
                                     (\<lambda>b. b\<lparr>c_prompt := Some (cv_prompt v), c_updated_at := Some now\<rparr>) st)
                           else (v1, NoNotice, st)))))
      | _ \<Rightarrow> (v, NoNotice, st))"

text \<open>\<open>handleToggleActive(isActive)\<close>: a failed update changes nothing.\<close>

definition handle_toggle_active ::
  "user_id option \<Rightarrow> bool \<Rightarrow> bool \<Rightarrow> string \<Rightarrow> chatbot_view \<Rightarrow> store \<Rightarrow> chatbot_view \<times> store" where
  "handle_toggle_active user is_active update_fails now v st =
     (case (cv_chatbot v, user) of
        (Some c, Some u) \<Rightarrow>
          (if update_fails then (v, st)
           else (v\<lparr>cv_chatbot := Some (c\<lparr>c_is_active := is_active\<rparr>)\<rparr>,
                 update_chatbot (c_id c) u (\<lambda>b. b\<lparr>c_is_active := is_active, c_updated_at := Some now\<rparr>) st))
      | _ \<Rightarrow> (v, st))"

text \<open>\<open>isBalanceSufficient\<close> of this page: against the joined plan.\<close>

definition cp_balance_sufficient :: "chatbot_view \<Rightarrow> bool" where
  "cp_balance_sufficient v = (case cv_plan v of None \<Rightarrow> False | Some p \<Rightarrow> pl_price_per_month p \<le> cv_balance v)"

subsection \<open>Usage percentage\<close>

text \<open>\<open>Math.round(u / q * 100)\<close> in exact arithmetic:
  \<open>\<lfloor>100u/q + 1/2\<rfloor>\<close>, which is \<open>(200u + q) div 2q\<close> for any \<open>q \<noteq> 0\<close>.\<close>

definition js_round_percent :: "int \<Rightarrow> int \<Rightarrow> int" where
  "js_round_percent u q = (200 * u + q) div (2 * q)"

text \<open>The dashboard's \<open>getUsageText\<close>: \<open>ai_quota ? round((ai_usages || 0) / ai_quota * 100) : 0\<close>.\<close>

definition usage_percent_dashboard :: "chatbot \<Rightarrow> int" where
  "usage_percent_dashboard c =
     (case c_ai_quota c of
        Some q \<Rightarrow> (if q \<noteq> 0 then js_round_percent (case c_ai_usages c of Some u \<Rightarrow> u | None \<Rightarrow> 0) q else 0)
      | None \<Rightarrow> 0)"

definition usage_text :: "chatbot \<Rightarrow> string" where
  "usage_text c = int_to_string (usage_percent_dashboard c) @ ''% used''"

text \<open>This page's \<open>getUsagePercentage\<close>: 0 unless both quota and usages are
  truthy.\<close>

definition usage_percent_page :: "chatbot option \<Rightarrow> int" where
  "usage_percent_page b =
     (case b of
        Some c \<Rightarrow>
          (case (c_ai_quota c, c_ai_usages c) of
             (Some q, Some u) \<Rightarrow> (if q = 0 \<or> u = 0 then 0 else js_round_percent u q)
           | _ \<Rightarrow> 0)
      | None \<Rightarrow> 0)"

subsection \<open>The simulated chat\<close>

datatype sender = SenderBot | SenderUser

record chat_msg =
  cm_id :: nat
  cm_sender :: sender
  cm_text :: string

text \<open>The history, the input field, and the ids of the bot replies whose
  one-second timers are running (each computed when its message was sent).\<close>

record chat_state =
  ch_history :: "chat_msg list"
  ch_input :: string
  ch_pending :: "nat list"

definition bot_reply_text :: string where
  "bot_reply_text = ''Terima kasih atas pesan Anda. Ini adalah respons simulasi dari chatbot.''"

definition chat_init :: chat_state where
  "chat_init =
     \<lparr>ch_history = [\<lparr>cm_id = 1, cm_sender = SenderBot,
                     cm_text = ''Halo! Saya adalah chatbot Anda. Ada yang bisa saya bantu?''\<rparr>],
      ch_input = [], ch_pending = []\<rparr>"

text \<open>\<open>handleSendMessage\<close>: the message gets id \<open>length + 1\<close> and its reply,
  scheduled for later, id \<open>length + 2\<close>, both from the history as it is now.\<close>

definition send_message :: "chat_state \<Rightarrow> chat_state" where
  "send_message s =
     (if js_trim (ch_input s) = [] then s
      else \<lparr>ch_history = ch_history s @ [\<lparr>cm_id = length (ch_history s) + 1, cm_sender = SenderUser, cm_text = ch_input s\<rparr>],
            ch_input = [], ch_pending = ch_pending s @ [length (ch_history s) + 2]\<rparr>)"

text \<open>A reply timer fires: the oldest pending reply is appended.\<close>

definition bot_reply :: "chat_state \<Rightarrow> chat_state" where
  "bot_reply s =
     (case ch_pending s of
        [] \<Rightarrow> s
      | i # rest \<Rightarrow> s\<lparr>ch_history := ch_history s @ [\<lparr>cm_id = i, cm_sender = SenderBot, cm_text = bot_reply_text\<rparr>],
                    ch_pending := rest\<rparr>)"

definition restart_chat :: "chat_state \<Rightarrow> chat_state" where
  "restart_chat s =
     s\<lparr>ch_history := [\<lparr>cm_id = 1, cm_sender = SenderBot,
                        cm_text = ''Chat telah dimulai ulang. Halo, ada yang bisa saya bantu?''\<rparr>]\<rparr>"

datatype chat_event = Type string | Send | ReplyFires | Restart

fun chat_step :: "chat_state \<Rightarrow> chat_event \<Rightarrow> chat_state" where
  "chat_step s (Type m) = s\<lparr>ch_input := m\<rparr>"
| "chat_step s Send = send_message s"
| "chat_step s ReplyFires = bot_reply s"
| "chat_step s Restart = restart_chat s"

definition chat_run :: "chat_state \<Rightarrow> chat_event list \<Rightarrow> chat_state" where
  "chat_run s es = foldl chat_step s es"

text \<open>Ids equal to positions, with no reply pending.\<close>

definition chat_ids_ok :: "chat_state \<Rightarrow> bool" where
  "chat_ids_ok s \<longleftrightarrow> map cm_id (ch_history s) = [1..<length (ch_history s) + 1] \<and> ch_pending s = []"

subsection \<open>Properties\<close>

lemma js_round_percent_zero: "q \<noteq> 0 \<Longrightarrow> js_round_percent 0 q = 0"
  unfolding js_round_percent_def
  by (cases "0 < q") (simp_all add: div_pos_pos_trivial div_neg_neg_trivial)

text \<open>C35: The dashboard's usage text and the chatbot page compute the same percentage for every bot, although they test quota and usages differently.\<close>

theorem usage_percent_equiv: "usage_percent_page (Some c) = usage_percent_dashboard c"
  by (auto simp: usage_percent_page_def usage_percent_dashboard_def js_round_percent_zero
           split: option.splits)

lemma js_round_percent_bounds:
  assumes "0 < q" "0 \<le> u" "u \<le> q"
  shows "0 \<le> js_round_percent u q \<and> js_round_percent u q \<le> 100"
proof -
  obtain d r where d: "d = (200 * u + q) div (2 * q)" and r: "r = (200 * u + q) mod (2 * q)" by simp
  have m: "d * (2 * q) + r = 200 * u + q" unfolding d r by (rule div_mult_mod_eq)
  have r0: "0 \<le> r" and rq: "r < 2 * q" unfolding r using assms(1) by simp_all
  have lo: "0 \<le> d"
  proof (rule ccontr)
    assume "\<not> 0 \<le> d"
    then have "d * (2 * q) \<le> - 1 * (2 * q)" using assms(1) by (intro mult_right_mono) simp_all
    with m rq assms show False by linarith
  qed
  have hi: "d \<le> 100"
  proof (rule ccontr)
    assume "\<not> d \<le> 100"
    then have "101 * (2 * q) \<le> d * (2 * q)" using assms(1) by (intro mult_right_mono) simp_all
    with m r0 assms show False by linarith
  qed
  show ?thesis using lo hi unfolding js_round_percent_def d by simp
qed

text \<open>The dashboard's percentage lies between 0 and 100 while the usages
  stay within a positive quota (the page caps only the bar's width).\<close>

lemma usage_percent_dashboard_bounds:
  assumes "c_ai_quota c = Some q" "0 < q" "c_ai_usages c = Some u" "0 \<le> u" "u \<le> q"
  shows "0 \<le> usage_percent_dashboard c \<and> usage_percent_dashboard c \<le> 100"
  using js_round_percent_bounds [OF assms(2,4,5)] assms(1-3) by (simp add: usage_percent_dashboard_def)

text \<open>When each reply arrives before the next message is sent, the ids stay
  the positions \<open>1, 2, ...\<close> of the history.\<close>

lemma chat_send_reply_ids:
  assumes "chat_ids_ok s"
  shows "chat_ids_ok (bot_reply (send_message s))"
  using assms by (auto simp: chat_ids_ok_def send_message_def bot_reply_def)

text \<open>C36: From any state of the chat with no reply pending, two non-blank
  messages sent within a second get clashing ids: the reply to the first
  takes the id the second message already has (both are computed from the
  history as it was when they were sent), so the history holds a duplicate
  key.\<close>

theorem chat_duplicate_ids:
  assumes "ch_pending s = []" "js_trim m1 \<noteq> []" "js_trim m2 \<noteq> []"
  shows "\<not> distinct (map cm_id (ch_history (chat_run s [Type m1, Send, Type m2, Send, ReplyFires, ReplyFires])))"
  using assms by (simp add: chat_run_def send_message_def bot_reply_def)

theorem chat_duplicate_ids_witness:
  "\<not> distinct (map cm_id (ch_history (chat_run chat_init [Type ''a'', Send, Type ''b'', Send, ReplyFires, ReplyFires])))"
proof -
  have h: "ch_pending chat_init = []" "js_trim ''a'' \<noteq> []" "js_trim ''b'' \<noteq> []"
    by (simp_all add: chat_init_def js_trim_def is_js_space_def)
  from chat_duplicate_ids [OF h] show ?thesis .
qed

end
