(* ===== verification/Renewal.thy ===== *)
theory Renewal
  imports Tables
begin

text \<open>
  The renewal confirmation poller: \<open>handleRenew\<close> in
  \<open>src/app/dashboard/chatbots/[id]/page.tsx\<close>.  After the renewal webhook
  answers 200, the handler re-reads the chatbot's \<open>expired_at\<close> and
  \<open>ai_quota\<close> up to five times, one second apart, stops at the first read
  that differs from the values captured before the request, and otherwise
  writes a locally computed patch (expiry \<open>max(now, previous) + 30 days\<close>,
  quota \<open>+10\<close>).  The loop is a \<^theory_text>\<open>function\<close> whose measure is the
  number of attempts left; the specification's state machine
  (Idle, Requested, Polling, Confirmed, TimedOut) is an inductive step
  relation, and the loop is shown to be a run of it.
\<close>

subsection \<open>Poll reads and the change test\<close>

text \<open>The two columns \<open>fetchLatest\<close> selects.\<close>

record snapshot =
  s_expired_at :: "timestamp option"
  s_ai_quota :: "int option"

definition max_attempts :: nat where
  "max_attempts = 5"

definition poll_interval_ms :: int where
  "poll_interval_ms = 1000"

definition day_ms :: int where
  "day_ms = 24 * 60 * 60 * 1000"

text \<open>\<open>typeof chatbot.ai_quota === "number" ? chatbot.ai_quota : 0\<close>.\<close>

definition prev_ai_quota :: "chatbot \<Rightarrow> int" where
  "prev_ai_quota c = (case c_ai_quota c of Some q \<Rightarrow> q | None \<Rightarrow> 0)"

text \<open>\<open>fetchLatest\<close>: the selected row, or \<open>null\<close> on a read error.\<close>

definition fetch_latest :: "snapshot db_result \<Rightarrow> snapshot option" where
  "fetch_latest r = (case r of DbErr _ \<Rightarrow> None | DbOk s \<Rightarrow> Some s)"

text \<open>\<open>changedExpiry || changedQuota\<close>: a present expiry different from the
  baseline, or a numeric quota different from the baseline quota.\<close>

definition renewal_changed :: "timestamp option \<Rightarrow> int \<Rightarrow> snapshot \<Rightarrow> bool" where
  "renewal_changed pe pq l \<longleftrightarrow>
     (s_expired_at l \<noteq> None \<and> s_expired_at l \<noteq> pe) \<or>
     (case s_ai_quota l of Some q \<Rightarrow> q \<noteq> pq | None \<Rightarrow> False)"

text \<open>A read that does not end the loop: an error or an unchanged row.\<close>

definition unchanged_read :: "timestamp option \<Rightarrow> int \<Rightarrow> snapshot db_result \<Rightarrow> bool" where
  "unchanged_read pe pq r \<longleftrightarrow>
     (case fetch_latest r of Some l \<Rightarrow> \<not> renewal_changed pe pq l | None \<Rightarrow> True)"

text \<open>The loop's \<open>latest\<close> shows no change (or is \<open>null\<close>).\<close>

definition no_change_seen :: "timestamp option \<Rightarrow> int \<Rightarrow> snapshot option \<Rightarrow> bool" where
  "no_change_seen pe pq lat \<longleftrightarrow> (case lat of Some l \<Rightarrow> \<not> renewal_changed pe pq l | None \<Rightarrow> True)"

subsection \<open>The bounded poll loop\<close>

text \<open>
  \<open>for (attempt = 0; attempt < 5; attempt++) { await wait(1000); latest =
  await fetchLatest(); if (!latest) continue; if (changed) break; }\<close>.
  \<open>reads k\<close> is the response of the read at attempt \<open>k\<close>.  The result is
  the last value of \<open>latest\<close> and the number of reads made (each preceded
  by a one-second wait).
\<close>

function poll_loop ::
  "(nat \<Rightarrow> snapshot db_result) \<Rightarrow> timestamp option \<Rightarrow> int \<Rightarrow> nat \<Rightarrow> snapshot option
   \<Rightarrow> snapshot option \<times> nat" where
  "poll_loop reads pe pq attempt latest =
     (if attempt < max_attempts then
        (case fetch_latest (reads attempt) of
           None \<Rightarrow> poll_loop reads pe pq (Suc attempt) None
         | Some l \<Rightarrow>
             (if renewal_changed pe pq l then (Some l, Suc attempt)
              else poll_loop reads pe pq (Suc attempt) (Some l)))
      else (latest, attempt))"
  by pat_completeness auto
termination
  by (relation "measure (\<lambda>(_, _, _, attempt, _). max_attempts - attempt)") auto

declare poll_loop.simps [simp del]

subsection \<open>Updates of the page's chatbot state\<close>

text \<open>A date in a response body is carried as the instant it denotes: a
  number is milliseconds since the epoch, an ISO string (what the store
  returns) is read as \<open>new Date(s)\<close> reads it.\<close>

fun json_timestamp :: "json option \<Rightarrow> timestamp option" where
  "json_timestamp (Some (JNum t)) = Some t"
| "json_timestamp (Some (JStr s)) = iso_instant s"
| "json_timestamp _ = None"

fun js_number :: "json option \<Rightarrow> int option" where
  "js_number (Some (JNum n)) = Some n"
| "js_number _ = None"

text \<open>The update from the 200 body before polling: \<open>expired_at\<close> when
  truthy, \<open>ai_quota\<close> when a number, overridden by \<open>prevAiQuota +
  ai_quota_increment\<close> when that is a number.\<close>

definition immediate_update :: "int \<Rightarrow> json option \<Rightarrow> chatbot \<Rightarrow> chatbot" where
  "immediate_update pq body c =
     (case body of
        None \<Rightarrow> c
      | Some d \<Rightarrow>
          (let e = js_field (Some d) ''expired_at'';
               c1 = (if truthy e then
                       (case json_timestamp e of Some t \<Rightarrow> c\<lparr>c_expired_at := Some t\<rparr> | None \<Rightarrow> c)
                     else c);
               c2 = (case js_number (js_field (Some d) ''ai_quota'') of
                       Some q \<Rightarrow> c1\<lparr>c_ai_quota := Some q\<rparr> | None \<Rightarrow> c1)
           in (case js_number (js_field (Some d) ''ai_quota_increment'') of
                 Some i \<Rightarrow> c2\<lparr>c_ai_quota := Some (pq + i)\<rparr> | None \<Rightarrow> c2)))"

text \<open>The update after an observed change: the read's values where present.\<close>

definition confirm_update :: "snapshot \<Rightarrow> chatbot \<Rightarrow> chatbot" where
  "confirm_update l c =
     c\<lparr>c_expired_at := (case s_expired_at l of Some e \<Rightarrow> Some e | None \<Rightarrow> c_expired_at c),
       c_ai_quota := (case s_ai_quota l of Some q \<Rightarrow> Some q | None \<Rightarrow> c_ai_quota c)\<rparr>"

text \<open>The fallback expiry: thirty days after the later of the previous
  expiry and now.  \<open>setDate(getDate() + 30)\<close> adds thirty calendar days
  of the browser's local time zone; in a zone without daylight saving
  changes, which includes the Indonesian zones the page's \<open>id-ID\<close>
  locale is written for (WIB, WITA, WIT), that is exactly
  \<open>30 * day_ms\<close>.  Across a daylight-saving change elsewhere the code's
  result differs from this by the size of the change.\<close>

definition fallback_expiry :: "timestamp option \<Rightarrow> timestamp \<Rightarrow> timestamp" where
  "fallback_expiry pe now =
     (case pe of Some e \<Rightarrow> (if e > now then e else now) | None \<Rightarrow> now) + 30 * day_ms"

subsection \<open>The handler\<close>

datatype renew_response = RespNetworkError string | RespHttp nat "json option"

datatype renew_outcome =
    RenewNotStarted
  | RenewFailed string
  | RenewConfirmed snapshot
  | RenewSynced timestamp int
  | RenewPending

record renew_result =
  rr_outcome :: renew_outcome
  rr_chatbot :: "chatbot option"
  rr_patch :: "(timestamp \<times> int) option"
  rr_reads :: nat
  rr_dialog_closed :: bool

text \<open>The message of a non-200 answer: the body's \<open>message\<close>, else its
  \<open>error\<close>, else its \<open>code\<close>, else the status.\<close>

definition renew_error_message :: "nat \<Rightarrow> json option \<Rightarrow> string" where
  "renew_error_message status body =
     (let dflt = ''Renewal failed: '' @ int_to_string (int status) in
      case body of
        None \<Rightarrow> dflt
      | Some JNull \<Rightarrow> dflt
      | Some d \<Rightarrow>
          (let msg = js_field (Some d) ''message''; err = js_field (Some d) ''error'';
               code = js_field (Some d) ''code''
           in if truthy msg then js_opt_to_string msg
              else if truthy err then js_opt_to_string err
              else if code \<noteq> None then
                ''Error '' @ js_opt_to_string code @ '': '' @
                js_opt_to_string (js_or msg (Some (JStr ''Unknown error'')))
              else dflt))"

definition renew_failed :: "chatbot option \<Rightarrow> string \<Rightarrow> renew_result" where
  "renew_failed cb msg =
     \<lparr>rr_outcome = RenewFailed (''Gagal memperpanjang chatbot: '' @ msg), rr_chatbot = cb,
      rr_patch = None, rr_reads = 0, rr_dialog_closed = False\<rparr>"

text \<open>After the loop: confirm when the last read differs from the baseline,
  otherwise write the fallback patch; the page state shows the patch only
  when the write succeeded.\<close>

definition renew_after_poll ::
  "chatbot \<Rightarrow> timestamp option \<Rightarrow> int \<Rightarrow> snapshot option \<times> nat \<Rightarrow> timestamp \<Rightarrow> bool
   \<Rightarrow> renew_result" where
  "renew_after_poll c pe pq res now patch_ok =
     (let (latest, n) = res;
          e = fallback_expiry pe now; q = pq + 10;
          fallback =
            (if patch_ok then
               \<lparr>rr_outcome = RenewSynced e q,
                rr_chatbot = Some (c\<lparr>c_expired_at := Some e, c_ai_quota := Some q\<rparr>),
                rr_patch = Some (e, q), rr_reads = n, rr_dialog_closed = True\<rparr>
             else
               \<lparr>rr_outcome = RenewPending, rr_chatbot = Some c,
                rr_patch = Some (e, q), rr_reads = n, rr_dialog_closed = True\<rparr>)
      in case latest of
           Some l \<Rightarrow>
             (if renewal_changed pe pq l then
                \<lparr>rr_outcome = RenewConfirmed l, rr_chatbot = Some (confirm_update l c),
                 rr_patch = None, rr_reads = n, rr_dialog_closed = True\<rparr>
              else fallback)
         | None \<Rightarrow> fallback)"

text \<open>\<open>handleRenew\<close>: guards, session token, the webhook call, then the
  poll loop or the error branch.\<close>

definition handle_renew ::
  "chatbot option \<Rightarrow> user_id option \<Rightarrow> string option \<Rightarrow> renew_response
   \<Rightarrow> (nat \<Rightarrow> snapshot db_result) \<Rightarrow> timestamp \<Rightarrow> bool \<Rightarrow> renew_result" where
  "handle_renew cb user token resp reads now patch_ok =
     (case (cb, user) of
        (Some c, Some u) \<Rightarrow>
          (case truthy_token token of
             None \<Rightarrow> renew_failed cb ''No authentication token found''
           | Some _ \<Rightarrow>
               (let pe = c_expired_at c; pq = prev_ai_quota c
                in case resp of
                     RespNetworkError m \<Rightarrow> renew_failed cb m
                   | RespHttp status body \<Rightarrow>
                       (if status = 200 then
                          renew_after_poll (immediate_update pq body c) pe pq
                            (poll_loop reads pe pq 0 None) now patch_ok
                        else renew_failed cb (renew_error_message status body))))
      | _ \<Rightarrow> \<lparr>rr_outcome = RenewNotStarted, rr_chatbot = cb, rr_patch = None, rr_reads = 0,
              rr_dialog_closed = False\<rparr>)"

subsection \<open>The specification's state machine\<close>

datatype poll_state =
    Idle
  | Requested
  | Polling nat "snapshot option"
  | Confirmed snapshot
  | TimedOut "snapshot option"

inductive poll_step ::
  "(nat \<Rightarrow> snapshot db_result) \<Rightarrow> timestamp option \<Rightarrow> int \<Rightarrow> poll_state \<Rightarrow> poll_state \<Rightarrow> bool"
  for reads pe pq where
  request: "poll_step reads pe pq Idle Requested"
| start: "poll_step reads pe pq Requested (Polling 0 None)"
| observe_change:
    "k < max_attempts \<Longrightarrow> fetch_latest (reads k) = Some l \<Longrightarrow> renewal_changed pe pq l \<Longrightarrow>
     poll_step reads pe pq (Polling k lat) (Confirmed l)"
| observe_error:
    "k < max_attempts \<Longrightarrow> fetch_latest (reads k) = None \<Longrightarrow>
     poll_step reads pe pq (Polling k lat) (Polling (Suc k) None)"
| observe_same:
    "k < max_attempts \<Longrightarrow> fetch_latest (reads k) = Some l \<Longrightarrow> \<not> renewal_changed pe pq l \<Longrightarrow>
     poll_step reads pe pq (Polling k lat) (Polling (Suc k) (Some l))"
| give_up:
    "\<not> k < max_attempts \<Longrightarrow> poll_step reads pe pq (Polling k lat) (TimedOut lat)"

inductive poll_reachable ::
  "(nat \<Rightarrow> snapshot db_result) \<Rightarrow> timestamp option \<Rightarrow> int \<Rightarrow> poll_state \<Rightarrow> bool"
  for reads pe pq where
  init: "poll_reachable reads pe pq Idle"
| step: "poll_reachable reads pe pq s \<Longrightarrow> poll_step reads pe pq s t \<Longrightarrow> poll_reachable reads pe pq t"

fun poll_terminal :: "poll_state \<Rightarrow> bool" where
  "poll_terminal (Confirmed _) = True"
| "poll_terminal (TimedOut _) = True"
| "poll_terminal _ = False"

text \<open>What the loop's result means in the state machine.\<close>

definition poll_final :: "timestamp option \<Rightarrow> int \<Rightarrow> snapshot option \<Rightarrow> poll_state" where
  "poll_final pe pq latest =
     (case latest of
        Some l \<Rightarrow> (if renewal_changed pe pq l then Confirmed l else TimedOut latest)
      | None \<Rightarrow> TimedOut None)"

text \<open>The invariant of reachable states.\<close>

fun poll_inv :: "timestamp option \<Rightarrow> int \<Rightarrow> poll_state \<Rightarrow> bool" where
  "poll_inv pe pq (Polling k lat) =
     (k \<le> max_attempts \<and> (case lat of Some l \<Rightarrow> \<not> renewal_changed pe pq l | None \<Rightarrow> True))"
| "poll_inv pe pq (Confirmed l) = renewal_changed pe pq l"
| "poll_inv pe pq (TimedOut lat) = (case lat of Some l \<Rightarrow> \<not> renewal_changed pe pq l | None \<Rightarrow> True)"
| "poll_inv pe pq _ = True"

inductive_cases poll_step_PollingE: "poll_step reads pe pq (Polling k lat) t"
inductive_cases poll_step_ConfirmedE: "poll_step reads pe pq (Confirmed l) t"
inductive_cases poll_step_TimedOutE: "poll_step reads pe pq (TimedOut lat) t"

subsection \<open>Example runs\<close>

text \<open>Reads of \<open>example_bot\<close>'s row: one that is unchanged, and one where the
  renewal has landed (expiry 2000, quota 110), preceded by a failed read.\<close>

abbreviation example_unchanged :: snapshot where
  "example_unchanged \<equiv> \<lparr>s_expired_at = Some 1000, s_ai_quota = Some 100\<rparr>"

abbreviation example_renewed :: snapshot where
  "example_renewed \<equiv> \<lparr>s_expired_at = Some 2000, s_ai_quota = Some 110\<rparr>"

abbreviation example_reads_same :: "nat \<Rightarrow> snapshot db_result" where
  "example_reads_same \<equiv> (\<lambda>k. DbOk example_unchanged)"

abbreviation example_reads_late :: "nat \<Rightarrow> snapshot db_result" where
  "example_reads_late \<equiv> (\<lambda>k. if k = 0 then DbErr ''timeout'' else DbOk example_renewed)"

subsection \<open>Loop lemmas\<close>

lemma poll_loop_step_none:
  "attempt < max_attempts \<Longrightarrow> fetch_latest (reads attempt) = None \<Longrightarrow>
   poll_loop reads pe pq attempt lat = poll_loop reads pe pq (Suc attempt) None"
  by (simp add: poll_loop.simps [of reads pe pq attempt])

lemma poll_loop_step_same:
  "attempt < max_attempts \<Longrightarrow> fetch_latest (reads attempt) = Some l \<Longrightarrow> \<not> renewal_changed pe pq l \<Longrightarrow>
   poll_loop reads pe pq attempt lat = poll_loop reads pe pq (Suc attempt) (Some l)"
  by (simp add: poll_loop.simps [of reads pe pq attempt])

lemma poll_loop_step_change:
  "attempt < max_attempts \<Longrightarrow> fetch_latest (reads attempt) = Some l \<Longrightarrow> renewal_changed pe pq l \<Longrightarrow>
   poll_loop reads pe pq attempt lat = (Some l, Suc attempt)"
  by (simp add: poll_loop.simps [of reads pe pq attempt])

lemma poll_loop_stop:
  "\<not> attempt < max_attempts \<Longrightarrow> poll_loop reads pe pq attempt lat = (lat, attempt)"
  by (simp add: poll_loop.simps [of reads pe pq attempt])

lemma poll_loop_no_change:
  assumes "\<forall>i. k \<le> i \<longrightarrow> i < max_attempts \<longrightarrow> unchanged_read pe pq (reads i)"
    and "k \<le> max_attempts" and "no_change_seen pe pq lat"
  shows "poll_loop reads pe pq k lat = (fst (poll_loop reads pe pq k lat), max_attempts)
         \<and> no_change_seen pe pq (fst (poll_loop reads pe pq k lat))"
  using assms
proof (induction reads pe pq k lat rule: poll_loop.induct)
  case (1 reads pe pq attempt latest)
  show ?case
  proof (cases "attempt < max_attempts")
    case True
    then have un: "unchanged_read pe pq (reads attempt)" using "1.prems"(1) by simp
    have prems': "\<forall>i. Suc attempt \<le> i \<longrightarrow> i < max_attempts \<longrightarrow> unchanged_read pe pq (reads i)"
      using "1.prems"(1) by simp
    have le': "Suc attempt \<le> max_attempts" using True by simp
    show ?thesis
    proof (cases "fetch_latest (reads attempt)")
      case None
      have "no_change_seen pe pq None" by (simp add: no_change_seen_def)
      with "1.IH"(1) [OF True None prems' le'] show ?thesis
        by (simp add: poll_loop_step_none True None)
    next
      case (Some l)
      with un have nc: "\<not> renewal_changed pe pq l" by (simp add: unchanged_read_def)
      then have "no_change_seen pe pq (Some l)" by (simp add: no_change_seen_def)
      with "1.IH"(2) [OF True Some nc prems' le'] show ?thesis
        by (simp add: poll_loop_step_same True Some nc)
    qed
  next
    case False
    with "1.prems"(2,3) show ?thesis by (simp add: poll_loop_stop)
  qed
qed

lemma poll_loop_reads_bound:
  "k \<le> max_attempts \<Longrightarrow> snd (poll_loop reads pe pq k lat) \<le> max_attempts"
proof (induction reads pe pq k lat rule: poll_loop.induct)
  case (1 reads pe pq attempt latest)
  show ?case
    using "1.IH" "1.prems"
    by (subst poll_loop.simps) (auto split: option.splits)
qed

lemma poll_loop_reads_pos:
  "k < max_attempts \<Longrightarrow> k < snd (poll_loop reads pe pq k lat)"
proof (induction reads pe pq k lat rule: poll_loop.induct)
  case (1 reads pe pq attempt latest)
  show ?case
  proof (cases "Suc attempt < max_attempts")
    case True
    then show ?thesis using "1.IH" "1.prems"
      by (subst poll_loop.simps) (fastforce split: option.splits)
  next
    case False
    then have "\<not> Suc attempt < max_attempts" .
    then show ?thesis using "1.prems"
      by (subst poll_loop.simps) (auto split: option.splits simp: poll_loop.simps [of reads pe pq "Suc attempt"])
  qed
qed

lemma poll_loop_first_change:
  "k \<le> j \<Longrightarrow> j < max_attempts \<Longrightarrow> fetch_latest (reads j) = Some l \<Longrightarrow> renewal_changed pe pq l \<Longrightarrow>
   (\<forall>i. k \<le> i \<longrightarrow> i < j \<longrightarrow> unchanged_read pe pq (reads i)) \<Longrightarrow>
   poll_loop reads pe pq k lat = (Some l, Suc j)"
proof (induction reads pe pq k lat rule: poll_loop.induct)
  case (1 reads pe pq attempt latest)
  show ?case
  proof (cases "attempt = j")
    case True
    with "1.prems" show ?thesis by (simp add: poll_loop_step_change)
  next
    case False
    with "1.prems" have lt: "attempt < j" and un: "unchanged_read pe pq (reads attempt)"
      by auto
    with "1.prems" have am: "attempt < max_attempts" by simp
    show ?thesis
    proof (cases "fetch_latest (reads attempt)")
      case None
      with "1.IH"(1) [OF am None] "1.prems" lt show ?thesis
        by (simp add: poll_loop_step_none am None)
    next
      case (Some l')
      with un have nc: "\<not> renewal_changed pe pq l'" by (simp add: unchanged_read_def)
      with "1.IH"(2) [OF am Some nc] "1.prems" lt show ?thesis
        by (simp add: poll_loop_step_same am Some nc)
    qed
  qed
qed

lemma poll_loop_change_iff:
  "\<not> no_change_seen pe pq (fst (poll_loop reads pe pq 0 None)) \<longleftrightarrow>
   (\<exists>j<max_attempts. \<not> unchanged_read pe pq (reads j))"
proof
  assume nc: "\<not> no_change_seen pe pq (fst (poll_loop reads pe pq 0 None))"
  show "\<exists>j<max_attempts. \<not> unchanged_read pe pq (reads j)"
  proof (rule ccontr)
    assume "\<not> (\<exists>j<max_attempts. \<not> unchanged_read pe pq (reads j))"
    then have all: "\<forall>i. 0 \<le> i \<longrightarrow> i < max_attempts \<longrightarrow> unchanged_read pe pq (reads i)" by simp
    have "no_change_seen pe pq None" by (simp add: no_change_seen_def)
    with all have "no_change_seen pe pq (fst (poll_loop reads pe pq 0 None))"
      using poll_loop_no_change [of 0 pe pq reads None] by simp
    with nc show False by contradiction
  qed
next
  assume "\<exists>j<max_attempts. \<not> unchanged_read pe pq (reads j)"
  then have ex: "\<exists>j. j < max_attempts \<and> \<not> unchanged_read pe pq (reads j)" by blast
  define j where "j = (LEAST j. j < max_attempts \<and> \<not> unchanged_read pe pq (reads j))"
  from ex have "j < max_attempts \<and> \<not> unchanged_read pe pq (reads j)"
    unfolding j_def by (rule LeastI_ex)
  then have j: "j < max_attempts" "\<not> unchanged_read pe pq (reads j)" by simp_all
  have least: "\<forall>i. 0 \<le> i \<longrightarrow> i < j \<longrightarrow> unchanged_read pe pq (reads i)"
  proof (intro allI impI)
    fix i assume "i < j"
    then have "\<not> (i < max_attempts \<and> \<not> unchanged_read pe pq (reads i))"
      unfolding j_def by (rule not_less_Least)
    with \<open>i < j\<close> j(1) show "unchanged_read pe pq (reads i)" by simp
  qed
  from j(2) obtain l where l: "fetch_latest (reads j) = Some l" "renewal_changed pe pq l"
    by (auto simp: unchanged_read_def split: option.splits)
  have "poll_loop reads pe pq 0 None = (Some l, Suc j)"
    using j(1) l least by (intro poll_loop_first_change) simp_all
  with l show "\<not> no_change_seen pe pq (fst (poll_loop reads pe pq 0 None))"
    by (simp add: no_change_seen_def)
qed

lemma poll_loop_refines:
  assumes "k \<le> max_attempts" and "no_change_seen pe pq lat"
  shows "(poll_step reads pe pq)\<^sup>*\<^sup>* (Polling k lat) (poll_final pe pq (fst (poll_loop reads pe pq k lat)))"
  using assms
proof (induction reads pe pq k lat rule: poll_loop.induct)
  case (1 reads pe pq attempt latest)
  show ?case
  proof (cases "attempt < max_attempts")
    case True
    show ?thesis
    proof (cases "fetch_latest (reads attempt)")
      case None
      have "poll_step reads pe pq (Polling attempt latest) (Polling (Suc attempt) None)"
        using True None by (rule observe_error)
      moreover have "(poll_step reads pe pq)\<^sup>*\<^sup>* (Polling (Suc attempt) None)
          (poll_final pe pq (fst (poll_loop reads pe pq (Suc attempt) None)))"
        using "1.IH"(1) [OF True None] True by (simp add: no_change_seen_def)
      ultimately show ?thesis
        by (simp add: poll_loop_step_none True None converse_rtranclp_into_rtranclp)
    next
      case (Some l)
      show ?thesis
      proof (cases "renewal_changed pe pq l")
        case ch: True
        have "poll_step reads pe pq (Polling attempt latest) (Confirmed l)"
          using True Some ch by (rule observe_change)
        then show ?thesis
          by (simp add: poll_loop_step_change True Some ch poll_final_def)
      next
        case nc: False
        have "poll_step reads pe pq (Polling attempt latest) (Polling (Suc attempt) (Some l))"
          using True Some nc by (rule observe_same)
        moreover have "(poll_step reads pe pq)\<^sup>*\<^sup>* (Polling (Suc attempt) (Some l))
            (poll_final pe pq (fst (poll_loop reads pe pq (Suc attempt) (Some l))))"
          using "1.IH"(2) [OF True Some nc] True nc by (simp add: no_change_seen_def)
        ultimately show ?thesis
          by (simp add: poll_loop_step_same True Some nc converse_rtranclp_into_rtranclp)
      qed
    qed
  next
    case False
    then have "poll_step reads pe pq (Polling attempt latest) (TimedOut latest)"
      by (rule give_up)
    moreover have "poll_final pe pq latest = TimedOut latest"
      using "1.prems"(2) by (cases latest) (auto simp: poll_final_def no_change_seen_def)
    ultimately show ?thesis
      by (simp add: poll_loop_stop False)
  qed
qed

text \<open>C15: The poll loop implements the specification's state machine: from Idle there is a run of the step relation to the state that the loop's result denotes.\<close>

theorem poll_loop_refines_machine:
  "(poll_step reads pe pq)\<^sup>*\<^sup>* Idle (poll_final pe pq (fst (poll_loop reads pe pq 0 None)))"
proof -
  have "(poll_step reads pe pq)\<^sup>*\<^sup>* Idle (Polling 0 None)"
    by (meson converse_rtranclp_into_rtranclp poll_step.request poll_step.start rtranclp.rtrancl_refl)
  also have "(poll_step reads pe pq)\<^sup>*\<^sup>* (Polling 0 None) (poll_final pe pq (fst (poll_loop reads pe pq 0 None)))"
    by (rule poll_loop_refines) (simp_all add: no_change_seen_def)
  finally show ?thesis .
qed

lemma poll_step_inv: "poll_step reads pe pq s t \<Longrightarrow> poll_inv pe pq s \<Longrightarrow> poll_inv pe pq t"
  by (induction rule: poll_step.induct) auto

text \<open>Every reachable state of the machine satisfies the invariant: at most five attempts, a confirmed read differs from the baseline, and a timed-out state holds no changed read.\<close>

theorem poll_reachable_inv: "poll_reachable reads pe pq s \<Longrightarrow> poll_inv pe pq s"
proof (induction rule: poll_reachable.induct)
  case init
  show ?case by simp
next
  case (step s t)
  then show ?case by (blast intro: poll_step_inv)
qed

theorem poll_step_deterministic:
  "poll_step reads pe pq s t \<Longrightarrow> poll_step reads pe pq s t' \<Longrightarrow> t = t'"
  by (auto elim!: poll_step.cases)

lemma poll_terminal_no_step: "poll_terminal s \<Longrightarrow> \<not> poll_step reads pe pq s t"
  by (cases s) (auto elim: poll_step.cases)

lemma poll_nonterminal_step: "\<not> poll_terminal s \<Longrightarrow> \<exists>t. poll_step reads pe pq s t"
proof (cases s)
  case (Polling k lat)
  show ?thesis
  proof (cases "k < max_attempts")
    case True
    show ?thesis
    proof (cases "fetch_latest (reads k)")
      case None
      with True Polling show ?thesis by (blast intro: observe_error)
    next
      case (Some l)
      with True Polling show ?thesis
        by (cases "renewal_changed pe pq l") (blast intro: observe_change observe_same)+
    qed
  next
    case False
    with Polling show ?thesis by (blast intro: give_up)
  qed
qed (auto intro: poll_step.intros)

lemma handle_renew_200:
  "handle_renew (Some c) (Some u) (Some (t # tok)) (RespHttp 200 body) reads now ok =
   renew_after_poll (immediate_update (prev_ai_quota c) body c) (c_expired_at c) (prev_ai_quota c)
     (poll_loop reads (c_expired_at c) (prev_ai_quota c) 0 None) now ok"
  by (simp add: handle_renew_def Let_def)

lemma renew_after_poll_changed:
  "renewal_changed pe pq l \<Longrightarrow>
   renew_after_poll c pe pq (Some l, n) now ok =
     \<lparr>rr_outcome = RenewConfirmed l, rr_chatbot = Some (confirm_update l c),
      rr_patch = None, rr_reads = n, rr_dialog_closed = True\<rparr>"
  by (simp add: renew_after_poll_def)

lemma renew_after_poll_unchanged:
  "no_change_seen pe pq lat \<Longrightarrow>
   renew_after_poll c pe pq (lat, n) now ok =
     (if ok then
        \<lparr>rr_outcome = RenewSynced (fallback_expiry pe now) (pq + 10),
         rr_chatbot = Some (c\<lparr>c_expired_at := Some (fallback_expiry pe now), c_ai_quota := Some (pq + 10)\<rparr>),
         rr_patch = Some (fallback_expiry pe now, pq + 10), rr_reads = n, rr_dialog_closed = True\<rparr>
      else
        \<lparr>rr_outcome = RenewPending, rr_chatbot = Some c,
         rr_patch = Some (fallback_expiry pe now, pq + 10), rr_reads = n, rr_dialog_closed = True\<rparr>)"
  by (cases lat) (auto simp: renew_after_poll_def no_change_seen_def Let_def)

text \<open>C4: Spec 8.6: when the read at attempt \<open>j\<close> is the first to differ from the baseline, the handler confirms with that read after exactly \<open>j + 1\<close> reads and writes no patch.\<close>

theorem renew_confirms_first_change:
  assumes "j < max_attempts" and "fetch_latest (reads j) = Some l"
    and "renewal_changed (c_expired_at c) (prev_ai_quota c) l"
    and "\<forall>i<j. unchanged_read (c_expired_at c) (prev_ai_quota c) (reads i)"
  shows "rr_outcome (handle_renew (Some c) (Some u) (Some (t # tok)) (RespHttp 200 body) reads now ok) = RenewConfirmed l
    \<and> rr_reads (handle_renew (Some c) (Some u) (Some (t # tok)) (RespHttp 200 body) reads now ok) = Suc j
    \<and> rr_patch (handle_renew (Some c) (Some u) (Some (t # tok)) (RespHttp 200 body) reads now ok) = None"
proof -
  have "poll_loop reads (c_expired_at c) (prev_ai_quota c) 0 None = (Some l, Suc j)"
    using assms by (intro poll_loop_first_change) simp_all
  with assms(3) show ?thesis
    by (simp add: handle_renew_200 renew_after_poll_changed)
qed

text \<open>C5: Spec 8.7: when none of the five reads differs from the baseline and the patch write succeeds, the handler writes and shows expiry \<open>max(now, previous) + 30 days\<close> and quota \<open>previous + 10\<close>, after five reads.\<close>

theorem renew_timeout_fallback:
  assumes "\<forall>i<max_attempts. unchanged_read (c_expired_at c) (prev_ai_quota c) (reads i)"
  shows "handle_renew (Some c) (Some u) (Some (t # tok)) (RespHttp 200 body) reads now True =
    \<lparr>rr_outcome = RenewSynced (fallback_expiry (c_expired_at c) now) (prev_ai_quota c + 10),
     rr_chatbot = Some ((immediate_update (prev_ai_quota c) body c)
        \<lparr>c_expired_at := Some (fallback_expiry (c_expired_at c) now), c_ai_quota := Some (prev_ai_quota c + 10)\<rparr>),
     rr_patch = Some (fallback_expiry (c_expired_at c) now, prev_ai_quota c + 10),
     rr_reads = max_attempts, rr_dialog_closed = True\<rparr>"
proof -
  let ?pe = "c_expired_at c" and ?pq = "prev_ai_quota c"
  have "no_change_seen ?pe ?pq None" by (simp add: no_change_seen_def)
  with assms have nc: "poll_loop reads ?pe ?pq 0 None = (fst (poll_loop reads ?pe ?pq 0 None), max_attempts)
      \<and> no_change_seen ?pe ?pq (fst (poll_loop reads ?pe ?pq 0 None))"
    by (intro poll_loop_no_change) simp_all
  then show ?thesis
    by (metis handle_renew_200 renew_after_poll_unchanged)
qed

text \<open>C16: A 200 answer ends in confirmation exactly when one of the five reads differs from the baseline.\<close>

theorem renew_confirmed_iff_change:
  "(\<exists>l. rr_outcome (handle_renew (Some c) (Some u) (Some (t # tok)) (RespHttp 200 body) reads now ok) = RenewConfirmed l)
   \<longleftrightarrow> (\<exists>j<max_attempts. \<not> unchanged_read (c_expired_at c) (prev_ai_quota c) (reads j))"
proof -
  let ?pe = "c_expired_at c" and ?pq = "prev_ai_quota c"
  obtain lat n where res: "poll_loop reads ?pe ?pq 0 None = (lat, n)" by fastforce
  have "(\<exists>l. rr_outcome (renew_after_poll (immediate_update ?pq body c) ?pe ?pq (lat, n) now ok) = RenewConfirmed l)
        \<longleftrightarrow> \<not> no_change_seen ?pe ?pq lat"
    by (cases lat) (auto simp: renew_after_poll_def no_change_seen_def Let_def)
  with res show ?thesis
    using poll_loop_change_iff [of ?pe ?pq reads] by (simp add: handle_renew_200)
qed

text \<open>C18: The compensating patch is written only when no read of the loop differed from the baseline.\<close>

theorem renew_patch_only_without_change:
  assumes "rr_patch (handle_renew (Some c) user tok resp reads now ok) \<noteq> None"
  shows "\<forall>i<max_attempts. unchanged_read (c_expired_at c) (prev_ai_quota c) (reads i)"
proof -
  let ?pe = "c_expired_at c" and ?pq = "prev_ai_quota c"
  obtain lat n where res: "poll_loop reads ?pe ?pq 0 None = (lat, n)" by fastforce
  from assms have "no_change_seen ?pe ?pq lat"
    by (cases lat) (auto simp: handle_renew_def renew_failed_def res renew_after_poll_def no_change_seen_def Let_def
        split: option.splits renew_response.splits if_splits)
  with res show ?thesis
    using poll_loop_change_iff [of ?pe ?pq reads] by auto
qed

text \<open>C20: The loop makes at least one and at most five reads, so the handler
  waits between one and five seconds before it decides.\<close>

theorem poll_loop_reads_bounds:
  "1 \<le> snd (poll_loop reads pe pq 0 None) \<and> snd (poll_loop reads pe pq 0 None) \<le> max_attempts"
proof -
  have "0 < snd (poll_loop reads pe pq 0 None)"
    by (rule poll_loop_reads_pos) (simp add: max_attempts_def)
  moreover have "snd (poll_loop reads pe pq 0 None) \<le> max_attempts"
    by (rule poll_loop_reads_bound) simp
  ultimately show ?thesis by simp
qed

text \<open>The fallback expiry is thirty days (2592000000 ms) after the later
  of now and the previous expiry.\<close>

theorem fallback_expiry_max:
  "fallback_expiry pe now = max now (case pe of Some e \<Rightarrow> e | None \<Rightarrow> now) + 2592000000"
  by (auto simp: fallback_expiry_def day_ms_def split: option.splits)

text \<open>C24: Any answer other than 200, including another 2xx status, is a
  failure: the handler reports the body's message, polls nothing and writes
  no patch.\<close>

theorem renew_non200_fails:
  assumes "status \<noteq> 200"
  shows "rr_outcome (handle_renew (Some c) (Some u) (Some (t # tok)) (RespHttp status body) reads now ok)
           = RenewFailed (''Gagal memperpanjang chatbot: '' @ renew_error_message status body)
    \<and> rr_patch (handle_renew (Some c) (Some u) (Some (t # tok)) (RespHttp status body) reads now ok) = None
    \<and> rr_reads (handle_renew (Some c) (Some u) (Some (t # tok)) (RespHttp status body) reads now ok) = 0"
  using assms by (simp add: handle_renew_def renew_failed_def Let_def)

text \<open>The failure message is the body's \<open>message\<close>, else its \<open>error\<close>,
  else \<open>Error code: Unknown error\<close>, else \<open>Renewal failed: status\<close>.\<close>

theorem renew_error_message_examples:
  "renew_error_message 402 (Some (JObj [(''message'', JStr ''Saldo tidak cukup'')])) = ''Saldo tidak cukup''
   \<and> renew_error_message 400 (Some (JObj [(''error'', JStr ''bad'')])) = ''bad''
   \<and> renew_error_message 400 (Some (JObj [(''code'', JNum 7)])) = ''Error 7: Unknown error''
   \<and> renew_error_message 500 None = ''Renewal failed: 500''"
  by (simp add: renew_error_message_def js_opt_to_string_def int_to_string_def nat_digits.simps digit_char_def)

text \<open>A read whose expiry was cleared to \<open>null\<close> and whose quota is the
  baseline quota does not count as a change, although it differs from the
  baseline.\<close>

lemma renewal_changed_cleared_expiry:
  "\<not> renewal_changed (Some e) q \<lparr>s_expired_at = None, s_ai_quota = Some q\<rparr>"
  by (simp add: renewal_changed_def)

subsection \<open>Witnesses\<close>

theorem renew_confirms_first_change_witness:
  "1 < max_attempts
   \<and> fetch_latest (example_reads_late 1) = Some example_renewed
   \<and> renewal_changed (c_expired_at example_bot) (prev_ai_quota example_bot) example_renewed
   \<and> rr_outcome (handle_renew (Some example_bot) (Some ''u1'') (Some ''tok'') (RespHttp 200 None)
        example_reads_late 5000 True) = RenewConfirmed example_renewed
   \<and> rr_reads (handle_renew (Some example_bot) (Some ''u1'') (Some ''tok'') (RespHttp 200 None)
        example_reads_late 5000 True) = 2"
proof -
  have h1: "1 < max_attempts" by (simp add: max_attempts_def)
  have h2: "fetch_latest (example_reads_late 1) = Some example_renewed" by (simp add: fetch_latest_def)
  have h3: "renewal_changed (c_expired_at example_bot) (prev_ai_quota example_bot) example_renewed"
    by (simp add: renewal_changed_def prev_ai_quota_def)
  have h4: "\<forall>i<1. unchanged_read (c_expired_at example_bot) (prev_ai_quota example_bot) (example_reads_late i)"
    by (simp add: unchanged_read_def fetch_latest_def)
  from renew_confirms_first_change [OF h1 h2 h3 h4, where u = "''u1''" and t = "CHR ''t''" and tok = "''ok''"
      and body = None and now = 5000 and ok = True] h1 h2 h3
  show ?thesis by simp
qed

theorem renew_timeout_fallback_witness:
  "rr_outcome (handle_renew (Some example_bot) (Some ''u1'') (Some ''tok'') (RespHttp 200 None)
      example_reads_same 5000 True) = RenewSynced 2592005000 110
   \<and> rr_reads (handle_renew (Some example_bot) (Some ''u1'') (Some ''tok'') (RespHttp 200 None)
      example_reads_same 5000 True) = 5"
proof -
  have h: "\<forall>i<max_attempts. unchanged_read (c_expired_at example_bot) (prev_ai_quota example_bot) (example_reads_same i)"
    by (simp add: unchanged_read_def fetch_latest_def renewal_changed_def prev_ai_quota_def)
  from renew_timeout_fallback [OF h, where u = "''u1''" and t = "CHR ''t''" and tok = "''ok''" and body = None and now = 5000]
  show ?thesis by (simp add: fallback_expiry_def day_ms_def prev_ai_quota_def max_attempts_def)
qed

theorem renew_patch_only_without_change_witness:
  "rr_patch (handle_renew (Some example_bot) (Some ''u1'') (Some ''tok'') (RespHttp 200 None)
      example_reads_same 5000 True) \<noteq> None
   \<and> list_all (\<lambda>i. unchanged_read (c_expired_at example_bot) (prev_ai_quota example_bot) (example_reads_same i))
         [0..<max_attempts]"
proof -
  have h: "rr_patch (handle_renew (Some example_bot) (Some ''u1'') (Some ''tok'') (RespHttp 200 None)
      example_reads_same 5000 True) \<noteq> None"
    by (simp add: handle_renew_def Let_def prev_ai_quota_def poll_loop.simps max_attempts_def
        fetch_latest_def renewal_changed_def renew_after_poll_def)
  from h renew_patch_only_without_change [OF h] show ?thesis
    by (simp add: list_all_iff)
qed

theorem poll_reachable_inv_witness:
  "poll_reachable example_reads_same (Some 1000) 100 (Polling 1 (Some example_unchanged))
   \<and> poll_inv (Some 1000) 100 (Polling 1 (Some example_unchanged))"
proof -
  have r1: "poll_reachable example_reads_same (Some 1000) 100 Requested"
    by (rule poll_reachable.step [OF poll_reachable.init poll_step.request])
  have r2: "poll_reachable example_reads_same (Some 1000) 100 (Polling 0 None)"
    by (rule poll_reachable.step [OF r1 poll_step.start])
  have s3: "poll_step example_reads_same (Some 1000) 100 (Polling 0 None) (Polling (Suc 0) (Some example_unchanged))"
    by (rule poll_step.observe_same) (simp_all add: max_attempts_def fetch_latest_def renewal_changed_def)
  have r3: "poll_reachable example_reads_same (Some 1000) 100 (Polling 1 (Some example_unchanged))"
    using poll_reachable.step [OF r2 s3] by simp
  show ?thesis by (rule conjI [OF r3 poll_reachable_inv [OF r3]])
qed

theorem renew_non200_fails_witness:
  "(201::nat) \<noteq> 200
   \<and> rr_outcome (handle_renew (Some example_bot) (Some ''u1'') (Some ''tok'') (RespHttp 201 None)
        example_reads_same 5000 True) = RenewFailed ''Gagal memperpanjang chatbot: Renewal failed: 201''"
proof -
  have h: "(201::nat) \<noteq> 200" by simp
  from renew_non200_fails [OF h, where c = example_bot and u = "''u1''" and t = "CHR ''t''" and tok = "''ok''"
      and body = None and reads = example_reads_same and now = 5000 and ok = True] h
  show ?thesis
    by (simp add: renew_error_message_def int_to_string_def nat_digits.simps digit_char_def)
qed


end
