(* ===== verification/Plans.thy ===== *)
theory Plans
  imports Gateway Renewal
begin

text \<open>
  The plans page, \<open>src/app/dashboard/plans/page.tsx\<close>: it lists the plans,
  reads the chatbot named by the \<open>chatbotId\<close> query parameter and the
  user's balance, and buys a plan for that bot through the \<open>bot/renew\<close>
  webhook.  The module-level \<open>daysRemaining\<close> (the same code as
  \<open>getDaysLeft\<close> of the dashboard and of the chatbot page) is here too.
\<close>

subsection \<open>Days remaining\<close>

text \<open>\<open>Math.ceil(a / b)\<close> for integers, \<open>b > 0\<close>.\<close>

definition ceil_div :: "int \<Rightarrow> int \<Rightarrow> int" where
  "ceil_div a b = - ((- a) div b)"

text \<open>\<open>daysRemaining(expired_at)\<close> at instant \<open>now\<close>: no expiry gives 0;
  otherwise the whole days left, rounded up, and never below 0.\<close>

definition days_left :: "timestamp \<Rightarrow> timestamp option \<Rightarrow> int" where
  "days_left now e = (case e of None \<Rightarrow> 0 | Some t \<Rightarrow> max 0 (ceil_div (t - now) day_ms))"

subsection \<open>Page state and reads\<close>

record plans_view =
  pv_plans :: "plan list"
  pv_chatbot :: "chatbot option"
  pv_balance :: int
  pv_loading_plans :: bool
  pv_loading_chatbot :: bool
  pv_dialog_open :: bool
  pv_selected :: "plan option"
  pv_purchasing :: bool

definition plans_view_init :: plans_view where
  "plans_view_init =
     \<lparr>pv_plans = [], pv_chatbot = None, pv_balance = 0, pv_loading_plans = True, pv_loading_chatbot = True,
      pv_dialog_open = False, pv_selected = None, pv_purchasing = False\<rparr>"

definition pp_fetch_plans :: "plan list db_result \<Rightarrow> plans_view \<Rightarrow> plans_view" where
  "pp_fetch_plans r v =
     (case r of
        DbErr _ \<Rightarrow> v\<lparr>pv_loading_plans := False\<rparr>
      | DbOk ps \<Rightarrow> v\<lparr>pv_plans := ps, pv_loading_plans := False\<rparr>)"

text \<open>\<open>.eq("id", chatbotId).eq("user_id", u).single()\<close>: one row or an error.\<close>

definition pp_chatbot_query :: "string \<Rightarrow> user_id \<Rightarrow> store \<Rightarrow> chatbot db_result" where
  "pp_chatbot_query i u st =
     (case filter (\<lambda>c. c_id c = i \<and> c_user_id c = Some u) (chatbots st) of
        [c] \<Rightarrow> DbOk c
      | _ \<Rightarrow> DbErr ''JSON object requested, multiple (or no) rows returned'')"

text \<open>\<open>fetchChatbot\<close>: the early return for a missing id or user comes
  before the \<open>try\<close>, so its \<open>finally\<close> does not run and the loading flag
  stays set.\<close>

definition pp_fetch_chatbot :: "string option \<Rightarrow> user_id option \<Rightarrow> chatbot db_result \<Rightarrow> plans_view \<Rightarrow> plans_view" where
  "pp_fetch_chatbot chatbot_id user r v =
     (if \<not> str_truthy chatbot_id \<or> user = None then v
      else (case r of
              DbErr _ \<Rightarrow> v\<lparr>pv_loading_chatbot := False\<rparr>
            | DbOk c \<Rightarrow> v\<lparr>pv_chatbot := Some c, pv_loading_chatbot := False\<rparr>))"

text \<open>\<open>setBalance(balanceData?.balance || 0)\<close>: a missing row, a failed read
  and a zero balance all show 0.\<close>

definition pp_fetch_balance :: "user_id option \<Rightarrow> int option db_result \<Rightarrow> plans_view \<Rightarrow> plans_view" where
  "pp_fetch_balance user r v =
     (case user of
        None \<Rightarrow> v
      | Some _ \<Rightarrow> v\<lparr>pv_balance := (case r of DbOk (Some b) \<Rightarrow> b | _ \<Rightarrow> 0)\<rparr>)"

definition open_purchase_dialog ::
  "plan \<Rightarrow> string option \<Rightarrow> user_id option \<Rightarrow> int option db_result \<Rightarrow> chatbot db_result \<Rightarrow> plans_view \<Rightarrow> plans_view" where
  "open_purchase_dialog p chatbot_id user rb rc v =
     (pp_fetch_chatbot chatbot_id user rc (pp_fetch_balance user rb v))\<lparr>pv_selected := Some p, pv_dialog_open := True\<rparr>"

definition pp_balance_sufficient :: "plans_view \<Rightarrow> bool" where
  "pp_balance_sufficient v = (case pv_selected v of None \<Rightarrow> False | Some p \<Rightarrow> pl_price_per_month p \<le> pv_balance v)"

text \<open>A plan's card: the bot's current plan cannot be bought again.\<close>

definition is_current_plan :: "plans_view \<Rightarrow> plan \<Rightarrow> bool" where
  "is_current_plan v p \<longleftrightarrow> map_option c_plan_id (pv_chatbot v) = Some (pl_id p)"

subsection \<open>Buying a plan\<close>

datatype purchase_outcome = PurchaseSkipped | PurchaseSuccess string | PurchaseError string

record purchase_result =
  pr_outcome :: purchase_outcome
  pr_request :: "(string \<times> string) option"
  pr_view :: plans_view

text \<open>\<open>handlePurchase\<close>: after the token check it posts \<open>{id, planId}\<close>
  and reports success once \<open>fetch\<close> resolves, whatever the status; only a
  rejected \<open>fetch\<close> or a missing token is an error.\<close>

definition handle_purchase :: "plans_view \<Rightarrow> user_id option \<Rightarrow> string option \<Rightarrow> http_response \<Rightarrow> purchase_result" where
  "handle_purchase v user token resp =
     (case (pv_selected v, pv_chatbot v, user) of
        (Some p, Some c, Some _) \<Rightarrow>
          (let fail = PurchaseError ''Gagal melakukan upgrade paket. Silakan coba lagi.'' in
           case truthy_token token of
             None \<Rightarrow> \<lparr>pr_outcome = fail, pr_request = None, pr_view = v\<lparr>pv_purchasing := False\<rparr>\<rparr>
           | Some _ \<Rightarrow>
               (let rq = Some (c_id c, pl_id p) in
                case resp of
                  NetworkError _ \<Rightarrow> \<lparr>pr_outcome = fail, pr_request = rq, pr_view = v\<lparr>pv_purchasing := False\<rparr>\<rparr>
                | Http _ _ _ _ \<Rightarrow>
                    \<lparr>pr_outcome = PurchaseSuccess (''Paket berhasil diupgrade ke '' @ pl_name p @
                                                   ''. Masa aktif diperpanjang 30 hari.''),
                     pr_request = rq, pr_view = v\<lparr>pv_dialog_open := False, pv_purchasing := False\<rparr>\<rparr>))
      | _ \<Rightarrow> \<lparr>pr_outcome = PurchaseSkipped, pr_request = None, pr_view = v\<rparr>)"

text \<open>The \<open>disabled\<close> condition of the purchase button, negated.\<close>

definition purchase_enabled :: "plans_view \<Rightarrow> bool" where
  "purchase_enabled v \<longleftrightarrow> pp_balance_sufficient v \<and> \<not> pv_purchasing v"

subsection \<open>What the page shows\<close>

text \<open>The mount effect: with a user, \<open>fetchPlans\<close>, \<open>fetchChatbot\<close> and
  \<open>fetchBalance\<close>; they set disjoint parts of the state, so the order in
  which their answers arrive does not matter (lemma \<open>plans_reads_commute\<close>).\<close>

definition plans_mount ::
  "user_id option \<Rightarrow> string option \<Rightarrow> plan list db_result \<Rightarrow> chatbot db_result \<Rightarrow> int option db_result \<Rightarrow>
   plans_view \<Rightarrow> plans_view" where
  "plans_mount user cid rp rc rb v =
     (if user = None then v else pp_fetch_balance user rb (pp_fetch_chatbot cid user rc (pp_fetch_plans rp v)))"

text \<open>The \<open>Kembali\<close> link.\<close>

definition back_href :: "string option \<Rightarrow> string" where
  "back_href cid = (if str_truthy cid then ''/dashboard/chatbots/'' @ the cid else ''/dashboard'')"

text \<open>A plan's card: name, the \<open>Saat Ini\<close> badge, price and quota, the
  expiry with its days remaining (current plan with an expiry only), and
  the action button.\<close>

datatype card_action = CardCurrentPlan | CardBuy

record plan_card_view =
  pc_name :: string
  pc_current :: bool
  pc_price :: int
  pc_quota :: int
  pc_expiry :: "(timestamp \<times> int) option"
  pc_action :: card_action

definition render_plan_card :: "timestamp \<Rightarrow> plans_view \<Rightarrow> plan \<Rightarrow> plan_card_view" where
  "render_plan_card now v p =
     (let cur = is_current_plan v p;
          exp = (case pv_chatbot v of None \<Rightarrow> None | Some c \<Rightarrow> c_expired_at c)
      in \<lparr>pc_name = pl_name p, pc_current = cur, pc_price = pl_price_per_month p, pc_quota = pl_ai_quota p,
          pc_expiry = (if cur then map_option (\<lambda>t. (t, days_left now (Some t))) exp else None),
          pc_action = (if cur then CardCurrentPlan else CardBuy)\<rparr>)"

datatype plans_render = PlansLoading string | PlansGrid string "plan_card_view list"

definition render_plans_page :: "timestamp \<Rightarrow> string option \<Rightarrow> plans_view \<Rightarrow> plans_render" where
  "render_plans_page now cid v =
     (if pv_loading_plans v \<or> pv_loading_chatbot v then PlansLoading (back_href cid)
      else PlansGrid (back_href cid) (map (render_plan_card now v) (pv_plans v)))"

text \<open>The confirmation dialog: the balance after purchase (red when not
  sufficient), the shortfall notice, and the confirm button.\<close>

record purchase_summary =
  ps_plan :: plan
  ps_balance :: int
  ps_after :: int
  ps_sufficient :: bool
  ps_shortfall :: "int option"
  ps_confirm_label :: string
  ps_confirm_enabled :: bool

definition purchase_dialog :: "plans_view \<Rightarrow> purchase_summary option" where
  "purchase_dialog v =
     (if \<not> pv_dialog_open v then None
      else case pv_selected v of
        None \<Rightarrow> None
      | Some p \<Rightarrow> Some
          \<lparr>ps_plan = p, ps_balance = pv_balance v, ps_after = pv_balance v - pl_price_per_month p,
           ps_sufficient = pp_balance_sufficient v,
           ps_shortfall = (if pp_balance_sufficient v then None else Some (pl_price_per_month p - pv_balance v)),
           ps_confirm_label = (if pv_purchasing v then ''Memproses...'' else ''Konfirmasi''),
           ps_confirm_enabled = purchase_enabled v\<rparr>)"

definition cancel_purchase :: "plans_view \<Rightarrow> plans_view" where
  "cancel_purchase v = v\<lparr>pv_dialog_open := False\<rparr>"

subsection \<open>Properties\<close>

lemma plans_reads_commute:
  "pp_fetch_balance user rb (pp_fetch_chatbot cid user rc v) = pp_fetch_chatbot cid user rc (pp_fetch_balance user rb v)"
  "pp_fetch_plans rp (pp_fetch_chatbot cid user rc v) = pp_fetch_chatbot cid user rc (pp_fetch_plans rp v)"
  "pp_fetch_plans rp (pp_fetch_balance user rb v) = pp_fetch_balance user rb (pp_fetch_plans rp v)"
    apply (simp add: pp_fetch_balance_def pp_fetch_chatbot_def split: option.split db_result.split)
   apply (cases rp; cases rc; simp add: pp_fetch_chatbot_def pp_fetch_plans_def)
  apply (simp add: pp_fetch_balance_def pp_fetch_plans_def split: option.split db_result.split)
  done

text \<open>C8: Opened without a \<open>chatbotId\<close> (or with an empty one) the page
  never leaves its loading state: whatever the three reads answer, it shows
  \<open>Memuat paket...\<close> with a link back to the dashboard.\<close>

lemma plans_page_stuck_without_id:
  assumes "\<not> str_truthy cid"
  shows "render_plans_page now cid (plans_mount user cid rp rc rb plans_view_init) = PlansLoading ''/dashboard''"
  using assms
  by (simp add: render_plans_page_def plans_mount_def plans_view_init_def pp_fetch_balance_def
        pp_fetch_chatbot_def pp_fetch_plans_def back_href_def split: option.split db_result.split)

text \<open>The dialog's figures are consistent: the shortfall notice appears
  exactly when the balance after purchase is negative, and it names the
  missing amount, which is positive.\<close>

lemma purchase_dialog_shortfall:
  assumes "purchase_dialog v = Some s"
  shows "(ps_shortfall s \<noteq> None \<longleftrightarrow> ps_after s < 0)
       \<and> (\<forall>d. ps_shortfall s = Some d \<longrightarrow> d = - ps_after s \<and> 0 < d)
       \<and> (ps_confirm_enabled s \<longrightarrow> ps_sufficient s)"
  using assms
  by (auto simp: purchase_dialog_def pp_balance_sufficient_def purchase_enabled_def split: if_splits option.splits)



lemma ceil_div_bounds:
  assumes "0 < b"
  shows "(ceil_div a b - 1) * b < a" "a \<le> ceil_div a b * b"
proof -
  obtain d r where d: "d = (- a) div b" and r: "r = (- a) mod b" by simp
  have m: "d * b + r = - a" unfolding d r by (rule div_mult_mod_eq)
  have r0: "0 \<le> r" and rb: "r < b" unfolding r using assms by simp_all
  have c: "ceil_div a b = - d" unfolding ceil_div_def d ..
  have e1: "(- d - 1) * b = - (d * b) - b" by (simp add: algebra_simps)
  have e2: "(- d) * b = - (d * b)" by simp
  show "(ceil_div a b - 1) * b < a" unfolding c e1 using m rb by linarith
  show "a \<le> ceil_div a b * b" unfolding c e2 using m r0 by linarith
qed

lemma day_ms_pos: "0 < day_ms"
  by (simp add: day_ms_def)

text \<open>C38: The days shown as remaining are never negative; they are 0 when there is no expiry or it has passed, and otherwise the number of started days left: \<open>(d - 1) * day < t - now \<le> d * day\<close>.\<close>

theorem days_left_bounds:
  "0 \<le> days_left now e
   \<and> (e = None \<longrightarrow> days_left now e = 0)
   \<and> (\<forall>t. e = Some t \<and> t \<le> now \<longrightarrow> days_left now e = 0)
   \<and> (\<forall>t. e = Some t \<and> now < t \<longrightarrow>
        (days_left now e - 1) * day_ms < t - now \<and> t - now \<le> days_left now e * day_ms)"
proof -
  have nonpos: "ceil_div (t - now) day_ms \<le> 0" if "t \<le> now" for t
  proof -
    have "(ceil_div (t - now) day_ms - 1) * day_ms < 0"
      using ceil_div_bounds(1) [OF day_ms_pos, of "t - now"] that by linarith
    then show ?thesis using day_ms_pos by (simp add: mult_less_0_iff)
  qed
  have pos: "0 < ceil_div (t - now) day_ms" if "now < t" for t
  proof -
    have "0 < ceil_div (t - now) day_ms * day_ms"
      using ceil_div_bounds(2) [OF day_ms_pos, of "t - now"] that by linarith
    then show ?thesis using day_ms_pos by (simp add: zero_less_mult_iff)
  qed
  show ?thesis
    using nonpos pos ceil_div_bounds [OF day_ms_pos]
    by (auto simp: days_left_def split: option.splits)
qed


text \<open>C37: Buying a plan reports success and closes the dialog for every answer of the renewal webhook, a 500 or a 402 included: only a missing token or a rejected \<open>fetch\<close> is reported as an error.\<close>

theorem purchase_ignores_status:
  assumes "pv_selected v = Some p" "pv_chatbot v = Some c" "str_truthy token"
  shows "pr_outcome (handle_purchase v (Some u) token (Http status st body parsed)) =
           PurchaseSuccess (''Paket berhasil diupgrade ke '' @ pl_name p @ ''. Masa aktif diperpanjang 30 hari.'')
       \<and> pr_request (handle_purchase v (Some u) token (Http status st body parsed)) = Some (c_id c, pl_id p)
       \<and> \<not> pv_dialog_open (pr_view (handle_purchase v (Some u) token (Http status st body parsed)))"
  using assms by (simp add: handle_purchase_def)

theorem purchase_ignores_status_witness:
  "pr_outcome (handle_purchase (plans_view_init\<lparr>pv_selected := Some example_plan, pv_chatbot := Some example_bot\<rparr>)
      (Some ''u1'') (Some ''tok'') (Http 500 ''Internal Server Error'' ''boom'' None)) =
     PurchaseSuccess ''Paket berhasil diupgrade ke Basic. Masa aktif diperpanjang 30 hari.''"
proof -
  have h: "pv_selected (plans_view_init\<lparr>pv_selected := Some example_plan, pv_chatbot := Some example_bot\<rparr>) = Some example_plan"
    "pv_chatbot (plans_view_init\<lparr>pv_selected := Some example_plan, pv_chatbot := Some example_bot\<rparr>) = Some example_bot"
    "str_truthy (Some ''tok'')" by simp_all
  from purchase_ignores_status [OF h] show ?thesis by simp
qed

theorem days_left_bounds_witness:
  "days_left 0 (Some (day_ms + 1)) = 2 \<and> (2 - 1) * day_ms < day_ms + 1 - 0 \<and> day_ms + 1 - 0 \<le> 2 * day_ms"
proof -
  have v: "days_left 0 (Some (day_ms + 1)) = 2"
    by (simp add: days_left_def ceil_div_def day_ms_def)
  from days_left_bounds [of 0 "Some (day_ms + 1)"] v show ?thesis by simp
qed

theorem plans_page_stuck_without_id_witness:
  "render_plans_page 0 None
     (plans_mount (Some ''u1'') None (DbOk [example_plan]) (DbOk example_bot) (DbOk (Some 100000)) plans_view_init)
   = PlansLoading ''/dashboard''"
proof -
  have h: "\<not> str_truthy None" by simp
  from plans_page_stuck_without_id [OF h] show ?thesis .
qed

end
