(* ===== verification/Dashboard_View.thy ===== *)
theory Dashboard_View
  imports Dashboard_QR Chatbot_Page Plans
begin

text \<open>
  What the dashboard (\<open>src/app/dashboard/page.tsx\<close>) shows: a row of the
  chatbot table with its fallbacks, the table's loading, empty and filled
  states with the footer count, and the summary and buttons of the
  \<open>Buat Chatbot Baru\<close> dialog, whose open/close handler refreshes the
  balance or resets the form, and the QR dialog with its close button.
  Locale formatting (\<open>formatCurrency\<close>, \<open>formatDate\<close>,
  \<open>toLocaleString\<close>) is not modelled: figures are kept as numbers.
\<close>

subsection \<open>A row of the table\<close>

text \<open>\<open>select("*, plans (*)")\<close> joins each bot with the plan its
  \<open>plan_id\<close> names (none when the id names no plan).\<close>

definition joined_plan :: "plan list \<Rightarrow> chatbot \<Rightarrow> plan option" where
  "joined_plan ps c = find (\<lambda>p. pl_id p = c_plan_id c) ps"

record dash_row =
  dr_id :: string
  dr_name :: string
  dr_active :: bool
  dr_badge :: badge
  dr_plan_name :: string
  dr_price :: "int option"
  dr_auto_renewal :: bool
  dr_usages :: int
  dr_quota :: int
  dr_percent :: int
  dr_expiry :: "timestamp option"
  dr_days_left :: int
  dr_deleting :: bool
  dr_href :: string

text \<open>The cells of a row: \<open>name || "Bot Tanpa Nama"\<close>, the badge of
  \<open>status || "PROVISIONING"\<close>, \<open>plans?.name || "Tanpa Paket"\<close>, the price
  or \<open>Gratis\<close> when it is falsy, usage and quota with \<open>|| "0"\<close>, the
  percentage of \<open>getUsageText\<close>, the expiry with \<open>getDaysLeft\<close>, and the
  delete button, disabled while this bot is being deleted.\<close>

definition render_dash_row :: "timestamp \<Rightarrow> plan list \<Rightarrow> string option \<Rightarrow> chatbot \<Rightarrow> dash_row" where
  "render_dash_row now ps deleting c =
     (let jp = joined_plan ps c in
      \<lparr>dr_id = c_id c,
       dr_name = (if str_truthy (c_name c) then the (c_name c) else ''Bot Tanpa Nama''),
       dr_active = c_is_active c,
       dr_badge = status_badge (Some (if str_truthy (c_status c) then the (c_status c) else ''PROVISIONING'')),
       dr_plan_name = (case jp of Some p \<Rightarrow> if pl_name p \<noteq> [] then pl_name p else ''Tanpa Paket'' | None \<Rightarrow> ''Tanpa Paket''),
       dr_price = (case jp of Some p \<Rightarrow> if pl_price_per_month p \<noteq> 0 then Some (pl_price_per_month p) else None | None \<Rightarrow> None),
       dr_auto_renewal = (c_is_auto_renewal c = Some True),
       dr_usages = (case c_ai_usages c of Some u \<Rightarrow> u | None \<Rightarrow> 0),
       dr_quota = (case c_ai_quota c of Some q \<Rightarrow> q | None \<Rightarrow> 0),
       dr_percent = usage_percent_dashboard c,
       dr_expiry = c_expired_at c,
       dr_days_left = days_left now (c_expired_at c),
       dr_deleting = (deleting = Some (c_id c)),
       dr_href = ''/dashboard/chatbots/'' @ c_id c\<rparr>)"

subsection \<open>The table and its footer\<close>

datatype dash_table = TableLoading | TableEmpty string | TableRows "dash_row list"

definition render_dash_table :: "timestamp \<Rightarrow> dash_view \<Rightarrow> dash_table" where
  "render_dash_table now v =
     (let fs = filtered_chatbots (dv_search v) (dv_chatbots v) in
      if dv_loading v then TableLoading
      else if fs = [] then
        TableEmpty (if dv_search v \<noteq> [] then ''Tidak ada chatbot yang ditemukan sesuai pencarian Anda''
                    else ''Tidak ada chatbot ditemukan'')
      else TableRows (map (render_dash_row now (dv_plans v) (dv_deleting v)) fs))"

text \<open>\<open>Menampilkan shown dari total chatbot\<close>; the pager buttons are always
  disabled (\<open>Halaman 1 dari 1\<close>).\<close>

definition dash_footer :: "dash_view \<Rightarrow> nat \<times> nat" where
  "dash_footer v = (length (filtered_chatbots (dv_search v) (dv_chatbots v)), length (dv_chatbots v))"

subsection \<open>The create dialog\<close>

text \<open>A number as the page computes it: \<open>price - balance\<close> with
  \<open>balance\<close> \<open>undefined\<close> is \<open>NaN\<close>.\<close>

datatype js_num = JsInt int | JsNaN

definition js_minus :: "int option \<Rightarrow> int option \<Rightarrow> js_num" where
  "js_minus a b = (case (a, b) of (Some x, Some y) \<Rightarrow> JsInt (x - y) | _ \<Rightarrow> JsNaN)"

record create_summary =
  cs_balance :: "int option"
  cs_plan_cost :: "int option"
  cs_shortfall :: "js_num option"
  cs_remaining :: "js_num option"
  cs_create_enabled :: bool
  cs_create_label :: string

text \<open>The right-hand column: current balance, the plan's cost, the red
  alert with the missing amount or the green one with what remains, and the
  \<open>Buat Bot\<close> button.\<close>

definition create_dialog_summary :: "dash_view \<Rightarrow> create_summary" where
  "create_dialog_summary v =
     (let sp = selected_plan v; ok = is_balance_sufficient v in
      \<lparr>cs_balance = dv_balance v,
       cs_plan_cost = map_option pl_price_per_month sp,
       cs_shortfall = (case sp of Some p \<Rightarrow> if \<not> ok then Some (js_minus (Some (pl_price_per_month p)) (dv_balance v)) else None
                                 | None \<Rightarrow> None),
       cs_remaining = (case sp of Some p \<Rightarrow> if ok then Some (js_minus (dv_balance v) (Some (pl_price_per_month p))) else None
                                 | None \<Rightarrow> None),
       cs_create_enabled = create_enabled v,
       cs_create_label = (if dv_creating v then ''Membuat...'' else ''Buat Bot'')\<rparr>)"

text \<open>\<open>onOpenChange\<close> of the dialog: opening refreshes the balance (with
  the answer of its read), closing resets the form.\<close>

definition new_bot_open_change :: "bool \<Rightarrow> user_id option \<Rightarrow> int option db_result \<Rightarrow> dash_view \<Rightarrow> dash_view" where
  "new_bot_open_change opening user r v =
     (let v1 = v\<lparr>dv_new_bot_open := opening\<rparr> in
      if opening then fetch_balance user r v1 else reset_form v1)"

text \<open>The name field and the plan radio group.\<close>

definition set_bot_name :: "string \<Rightarrow> dash_view \<Rightarrow> dash_view" where
  "set_bot_name n v = v\<lparr>dv_bot_name := n\<rparr>"

definition select_plan :: "string \<Rightarrow> dash_view \<Rightarrow> dash_view" where
  "select_plan i v = v\<lparr>dv_selected_plan := i\<rparr>"

subsection \<open>The QR dialog\<close>

datatype qr_panel = QrPanelLoading | QrPanelCode json | QrPanelPlaceholder

record qr_dialog_view =
  qd_title :: string
  qd_countdown :: int
  qd_panel :: qr_panel
  qd_empty_hint :: bool
  qd_ready_hint :: bool

text \<open>The dialog: title \<open>selectedBotForQR?.name || "Bot"\<close>, the countdown,
  the spinner, the code or the placeholder, and the two hints
  (\<open>Kode QR akan dibuat di sini\<close> without code and spinner,
  \<open>Kode QR siap dipindai\<close> with a code).\<close>

definition render_qr_dialog :: "qr_view \<Rightarrow> qr_dialog_view option" where
  "render_qr_dialog v =
     (if \<not> qv_open v then None
      else Some
        \<lparr>qd_title = (case qv_bot v of Some c \<Rightarrow> if str_truthy (c_name c) then the (c_name c) else ''Bot'' | None \<Rightarrow> ''Bot''),
         qd_countdown = qv_countdown v,
         qd_panel = (if qv_loading v then QrPanelLoading
                     else if js_truthy (qv_code v) then QrPanelCode (qv_code v) else QrPanelPlaceholder),
         qd_empty_hint = (\<not> js_truthy (qv_code v) \<and> \<not> qv_loading v),
         qd_ready_hint = js_truthy (qv_code v)\<rparr>)"

text \<open>The close button: dialog shut, bot deselected, code cleared.\<close>

definition close_qr_dialog :: "qr_view \<Rightarrow> qr_view" where
  "close_qr_dialog v = v\<lparr>qv_open := False, qv_bot := None, qv_code := JStr []\<rparr>"

subsection \<open>Properties\<close>

text \<open>The rows shown are the filtered bots, in order, and the footer counts
  them against all bots.\<close>

lemma dash_table_rows:
  assumes "\<not> dv_loading v" "filtered_chatbots (dv_search v) (dv_chatbots v) \<noteq> []"
  shows "\<exists>rows. render_dash_table now v = TableRows rows \<and> map dr_id rows =
           map c_id (filtered_chatbots (dv_search v) (dv_chatbots v))
       \<and> length rows = fst (dash_footer v) \<and> fst (dash_footer v) \<le> snd (dash_footer v)"
  using assms
  by (simp add: render_dash_table_def dash_footer_def render_dash_row_def Let_def filtered_chatbots_def)

text \<open>The alerts of the dialog exclude each other, and the green one never
  shows \<open>NaN\<close>: when the balance suffices the remainder is the balance
  minus the cost, at least 0.\<close>

lemma create_summary_alerts:
  "\<not> (cs_shortfall (create_dialog_summary v) \<noteq> None \<and> cs_remaining (create_dialog_summary v) \<noteq> None)
   \<and> (\<forall>r. cs_remaining (create_dialog_summary v) = Some r \<longrightarrow> (\<exists>n. r = JsInt n \<and> 0 \<le> n))"
  by (auto simp: create_dialog_summary_def Let_def is_balance_sufficient_def js_minus_def
           split: option.splits)

text \<open>C19: Without a balance row (\<open>balance\<close> is \<open>undefined\<close>) the dialog says the
  balance is insufficient and names the missing amount as \<open>NaN\<close>, for every
  plan, free ones included.\<close>

lemma create_summary_nan_without_balance:
  assumes "dv_balance v = None" "selected_plan v = Some p"
  shows "cs_shortfall (create_dialog_summary v) = Some JsNaN \<and> cs_remaining (create_dialog_summary v) = None
       \<and> \<not> cs_create_enabled (create_dialog_summary v)"
  using assms
  by (simp add: create_dialog_summary_def is_balance_sufficient_def js_minus_def create_enabled_def)

text \<open>After the close button the countdown stops and, when the dialog is
  opened again, no old code is shown before the new one arrives.\<close>

lemma close_qr_dialog_clears:
  "render_qr_dialog (close_qr_dialog v) = None
   \<and> countdown_tick (close_qr_dialog v) = (close_qr_dialog v, None)
   \<and> map_option qd_panel (render_qr_dialog ((close_qr_dialog v)\<lparr>qv_open := True\<rparr>))
       \<in> {Some QrPanelLoading, Some QrPanelPlaceholder}"
  by (simp add: render_qr_dialog_def close_qr_dialog_def countdown_tick_def)

theorem create_summary_nan_without_balance_witness:
  "cs_shortfall (create_dialog_summary (example_dash_view\<lparr>dv_balance := None\<rparr>)) = Some JsNaN
   \<and> \<not> cs_create_enabled (create_dialog_summary (example_dash_view\<lparr>dv_balance := None\<rparr>))"
proof -
  have h: "dv_balance (example_dash_view\<lparr>dv_balance := None\<rparr>) = None"
    "selected_plan (example_dash_view\<lparr>dv_balance := None\<rparr>) = Some example_plan"
    by (simp_all add: selected_plan_def dash_view_init_def)
  from create_summary_nan_without_balance [OF h] show ?thesis by simp
qed

end
