(* ===== verification/Chatbot_View.thy ===== *)
theory Chatbot_View
  imports Chatbot_Page Plans
begin

text \<open>
  What the chatbot page (\<open>src/app/dashboard/chatbots/[id]/page.tsx\<close>)
  shows: the loading and not-found screens, the header with the activation
  switch, the prompt editor's button, the usage tab with its bar, the plan
  tab with the joined plan's fallbacks, and the renewal dialog (its figures,
  alert and confirm button, and the open handler that refreshes the
  balance).  Locale formatting is not modelled: figures are numbers.
\<close>

subsection \<open>Header and tabs\<close>

record cp_header =
  ch_name :: string
  ch_active :: bool
  ch_switch_label :: string

definition render_cp_header :: "chatbot \<Rightarrow> cp_header" where
  "render_cp_header c =
     \<lparr>ch_name = (if str_truthy (c_name c) then the (c_name c) else ''Bot Tanpa Nama''),
      ch_active = c_is_active c,
      ch_switch_label = (if c_is_active c then ''Aktif'' else ''Tidak Aktif'')\<rparr>"

text \<open>The \<open>Update Prompt\<close> button: disabled while saving or for a blank
  prompt.\<close>

definition update_prompt_enabled :: "chatbot_view \<Rightarrow> bool" where
  "update_prompt_enabled v \<longleftrightarrow> \<not> cv_saving v \<and> js_trim (cv_prompt v) \<noteq> []"

definition update_prompt_label :: "chatbot_view \<Rightarrow> string" where
  "update_prompt_label v = (if cv_saving v then ''Mengupdate Prompt...'' else ''Update Prompt'')"

text \<open>The usage tab: usages and quota (\<open>|| "0"\<close>), \<open>getUsagePercentage()\<close>
  and the bar's width \<open>Math.min(percentage, 100)\<close>.\<close>

record usage_tab =
  ut_usages :: int
  ut_quota :: int
  ut_percent :: int
  ut_bar_width :: int

definition render_usage_tab :: "chatbot \<Rightarrow> usage_tab" where
  "render_usage_tab c =
     \<lparr>ut_usages = (case c_ai_usages c of Some u \<Rightarrow> u | None \<Rightarrow> 0),
      ut_quota = (case c_ai_quota c of Some q \<Rightarrow> q | None \<Rightarrow> 0),
      ut_percent = usage_percent_page (Some c),
      ut_bar_width = min (usage_percent_page (Some c)) 100\<rparr>"

text \<open>The plan tab: the joined plan's name, description, price (or
  \<open>Gratis\<close>) and quota with their fallbacks, the auto-renewal flag and the
  expiry with its days left.\<close>

record plan_tab =
  pt_name :: string
  pt_description :: string
  pt_price :: "int option"
  pt_quota :: int
  pt_auto_renewal :: bool
  pt_expiry :: "(timestamp \<times> int) option"

definition render_plan_tab :: "timestamp \<Rightarrow> chatbot \<Rightarrow> plan option \<Rightarrow> plan_tab" where
  "render_plan_tab now c jp =
     \<lparr>pt_name = (case jp of Some p \<Rightarrow> if pl_name p \<noteq> [] then pl_name p else ''Tanpa Paket'' | None \<Rightarrow> ''Tanpa Paket''),
      pt_description = (case jp of Some p \<Rightarrow> if str_truthy (pl_description p) then the (pl_description p)
                                             else ''Tidak ada deskripsi tersedia''
                                 | None \<Rightarrow> ''Tidak ada deskripsi tersedia''),
      pt_price = (case jp of Some p \<Rightarrow> if pl_price_per_month p \<noteq> 0 then Some (pl_price_per_month p) else None | None \<Rightarrow> None),
      pt_quota = (case jp of Some p \<Rightarrow> pl_ai_quota p | None \<Rightarrow> 0),
      pt_auto_renewal = (c_is_auto_renewal c = Some True),
      pt_expiry = map_option (\<lambda>t. (t, days_left now (Some t))) (c_expired_at c)\<rparr>"

subsection \<open>The renewal dialog\<close>

text \<open>The figures: cost (\<open>Gratis\<close> without a joined plan), the balance,
  the balance after renewal, the red notice with the missing amount
  (the literal \<open>Rp 0\<close> without a plan, here 0), and the confirm button.\<close>

record renew_summary =
  rs_cost :: "int option"
  rs_balance :: int
  rs_after :: int
  rs_sufficient :: bool
  rs_shortfall :: "int option"
  rs_confirm_enabled :: bool
  rs_confirm_label :: string

definition renew_dialog_summary :: "bool \<Rightarrow> chatbot_view \<Rightarrow> renew_summary" where
  "renew_dialog_summary renew_loading v =
     (let ok = cp_balance_sufficient v in
      \<lparr>rs_cost = map_option pl_price_per_month (cv_plan v),
       rs_balance = cv_balance v,
       rs_after = (case cv_plan v of Some p \<Rightarrow> cv_balance v - pl_price_per_month p | None \<Rightarrow> cv_balance v),
       rs_sufficient = ok,
       rs_shortfall = (if ok then None
                       else Some (case cv_plan v of Some p \<Rightarrow> pl_price_per_month p - cv_balance v | None \<Rightarrow> 0)),
       rs_confirm_enabled = (ok \<and> \<not> renew_loading),
       rs_confirm_label = (if renew_loading then ''Memproses...'' else ''Konfirmasi Renew'')\<rparr>)"

text \<open>\<open>onOpenChange\<close>: opening refreshes the balance.\<close>

definition renew_dialog_open_change ::
  "bool \<Rightarrow> user_id option \<Rightarrow> int option db_result \<Rightarrow> chatbot_view \<Rightarrow> bool \<times> chatbot_view" where
  "renew_dialog_open_change opening user r v = (opening, if opening then cp_fetch_balance user r v else v)"

subsection \<open>The page\<close>

datatype cp_render =
    CpLoading
  | CpNotFound string
  | CpPage cp_header usage_tab plan_tab

definition render_chatbot_page :: "timestamp \<Rightarrow> chatbot_view \<Rightarrow> cp_render" where
  "render_chatbot_page now v =
     (if cv_loading v then CpLoading
      else case cv_chatbot v of
        None \<Rightarrow> CpNotFound ''/dashboard''
      | Some c \<Rightarrow> CpPage (render_cp_header c) (render_usage_tab c) (render_plan_tab now c (cv_plan v)))"

text \<open>A chat bubble: the user's on the right, the bot's on the left.\<close>

definition chat_bubble_right :: "chat_msg \<Rightarrow> bool" where
  "chat_bubble_right m \<longleftrightarrow> cm_sender m = SenderUser"

subsection \<open>Properties\<close>

text \<open>The red notice and the confirm button agree: the notice shows exactly
  when the button is disabled for lack of balance; the amount it names is
  positive whenever a plan is joined.\<close>

lemma renew_summary_consistent:
  "(rs_shortfall (renew_dialog_summary l v) \<noteq> None \<longleftrightarrow> \<not> rs_sufficient (renew_dialog_summary l v))
   \<and> (rs_confirm_enabled (renew_dialog_summary l v) \<longrightarrow> rs_sufficient (renew_dialog_summary l v))
   \<and> (cv_plan v \<noteq> None \<longrightarrow> rs_shortfall (renew_dialog_summary l v) \<noteq> None \<longrightarrow>
        0 < the (rs_shortfall (renew_dialog_summary l v)) \<and> rs_after (renew_dialog_summary l v) < 0)"
  by (auto simp: renew_dialog_summary_def cp_balance_sufficient_def Let_def split: option.splits)

text \<open>C29: A bot without a joined plan can never be renewed from its page: the
  dialog reports an insufficient balance, asks for \<open>Rp 0\<close> more and keeps
  the confirm button disabled, whatever the balance.\<close>

lemma renew_blocked_without_plan:
  assumes "cv_plan v = None"
  shows "rs_shortfall (renew_dialog_summary l v) = Some 0 \<and> \<not> rs_confirm_enabled (renew_dialog_summary l v)"
  using assms by (simp add: renew_dialog_summary_def cp_balance_sufficient_def)

theorem renew_blocked_without_plan_witness:
  "rs_shortfall (renew_dialog_summary False (chatbot_view_init\<lparr>cv_balance := 500000\<rparr>)) = Some 0
   \<and> \<not> rs_confirm_enabled (renew_dialog_summary False (chatbot_view_init\<lparr>cv_balance := 500000\<rparr>))"
proof -
  have h: "cv_plan (chatbot_view_init\<lparr>cv_balance := 500000\<rparr>) = None" by (simp add: chatbot_view_init_def)
  from renew_blocked_without_plan [OF h] show ?thesis .
qed

end
