(* ===== verification/Auth.thy ===== *)
theory Auth
  imports Tables
begin

text \<open>
  Authentication: the provider of \<open>src/contexts/AuthContext.tsx\<close> (the
  signed-in user, the loading flag and the \<open>auth-token\<close> cookie it keeps in
  step with the session; \<open>verifyOTP\<close>, which creates a zero balance row for
  a new user; \<open>logout\<close>) and the guard and sidebar of
  \<open>src/app/dashboard/layout.tsx\<close>; the login page is theory \<open>Login\<close>.  The
  authentication service is outside the repository: its answers are inputs.
\<close>

subsection \<open>The provider\<close>

text \<open>A session of the authentication client: its user and access token.\<close>

record session =
  ss_user :: "user_id option"
  ss_token :: "string option"

text \<open>The provider's state and the browser's \<open>auth-token\<close> cookie, with its
  lifetime in days.\<close>

record auth_state =
  au_user :: "user_id option"
  au_loading :: bool
  au_cookie :: "(string \<times> nat) option"

definition auth_init :: "(string \<times> nat) option \<Rightarrow> auth_state" where
  "auth_init c = \<lparr>au_user = None, au_loading = True, au_cookie = c\<rparr>"

definition session_user :: "session option \<Rightarrow> user_id option" where
  "session_user s = (case s of None \<Rightarrow> None | Some x \<Rightarrow> ss_user x)"

definition session_token :: "session option \<Rightarrow> string option" where
  "session_token s = (case s of None \<Rightarrow> None | Some x \<Rightarrow> ss_token x)"

text \<open>\<open>getSession\<close> at mount: the cookie is set when there is a (non-empty)
  token and left alone otherwise.\<close>

definition get_session :: "session option \<Rightarrow> auth_state \<Rightarrow> auth_state" where
  "get_session s a =
     (case truthy_token (session_token s) of
        Some t \<Rightarrow> a\<lparr>au_user := session_user s, au_cookie := Some (t, 7), au_loading := False\<rparr>
      | None \<Rightarrow> a\<lparr>au_user := session_user s, au_loading := False\<rparr>)"

text \<open>The \<open>onAuthStateChange\<close> listener: the cookie follows the session.\<close>

definition auth_state_change :: "session option \<Rightarrow> auth_state \<Rightarrow> auth_state" where
  "auth_state_change s a =
     a\<lparr>au_user := session_user s, au_cookie := map_option (\<lambda>t. (t, 7)) (truthy_token (session_token s)), au_loading := False\<rparr>"

datatype auth_event = SessionRead "session option" | AuthChange "session option"

fun auth_step :: "auth_state \<Rightarrow> auth_event \<Rightarrow> auth_state" where
  "auth_step a (SessionRead s) = get_session s a"
| "auth_step a (AuthChange s) = auth_state_change s a"

definition auth_run :: "auth_state \<Rightarrow> auth_event list \<Rightarrow> auth_state" where
  "auth_run a es = foldl auth_step a es"

text \<open>\<open>useAuth\<close>: outside the provider it throws.\<close>

definition use_auth :: "'a option \<Rightarrow> string + 'a" where
  "use_auth ctx = (case ctx of None \<Rightarrow> Inl ''useAuth must be used within an AuthProvider'' | Some c \<Rightarrow> Inr c)"

text \<open>\<open>loginWithGoogle\<close>: the OAuth request returns to \<open>/dashboard\<close> on the
  page's origin; an error of the client is thrown.\<close>

definition google_redirect_to :: "string \<Rightarrow> string" where
  "google_redirect_to origin = origin @ ''/dashboard''"

definition login_with_google :: "string \<Rightarrow> string option \<Rightarrow> (string \<times> string) \<times> (string + unit)" where
  "login_with_google origin err =
     ((''google'', google_redirect_to origin), case err of Some m \<Rightarrow> Inl m | None \<Rightarrow> Inr ())"

text \<open>\<open>verifyOtp\<close> answers an error or a user (possibly none).\<close>

datatype otp_answer = OtpError string | OtpOk "user_id option"

text \<open>\<open>verifyOTP\<close>: on a user, look for the balance row (a failed read
  counts as none) and insert one with balance 0 if none was seen; an insert
  error is only logged.\<close>

definition verify_otp :: "otp_answer \<Rightarrow> bool \<Rightarrow> store \<Rightarrow> (string + unit) \<times> store" where
  "verify_otp r read_fails st =
     (case r of
        OtpError m \<Rightarrow> (Inl m, st)
      | OtpOk None \<Rightarrow> (Inr (), st)
      | OtpOk (Some u) \<Rightarrow>
          (let existing = (if read_fails then None else balances st u)
           in if existing = None then (Inr (), snd (insert_balance u 0 st)) else (Inr (), st)))"

text \<open>\<open>logout\<close>: the cookie is removed only when sign-out succeeds.\<close>

definition logout :: "string option \<Rightarrow> auth_state \<Rightarrow> (string + unit) \<times> auth_state" where
  "logout err a = (case err of Some m \<Rightarrow> (Inl m, a) | None \<Rightarrow> (Inr (), a\<lparr>au_cookie := None\<rparr>))"

subsection \<open>The dashboard layout\<close>

datatype layout_render = RenderSpinner | RenderNothing | RenderDashboard

text \<open>What the layout renders, and where its effect navigates.\<close>

definition layout_guard :: "auth_state \<Rightarrow> layout_render \<times> string option" where
  "layout_guard a =
     (if au_loading a then (RenderSpinner, None)
      else if au_user a = None then (RenderNothing, Some ''/login'')
      else (RenderDashboard, None))"

text \<open>The sidebar's items (their icons are not modelled).\<close>

record sidebar_item =
  si_name :: string
  si_href :: string
  si_badge :: "string option"

definition sidebar_items :: "sidebar_item list" where
  "sidebar_items =
     [\<lparr>si_name = ''Chatbot'', si_href = ''/dashboard'', si_badge = Some ''Beta''\<rparr>,
      \<lparr>si_name = ''Saldo'', si_href = ''/dashboard/balance'', si_badge = None\<rparr>,
      \<lparr>si_name = ''Pengaturan'', si_href = ''/dashboard/settings'', si_badge = None\<rparr>,
      \<lparr>si_name = ''Agensi'', si_href = ''/dashboard/agency'', si_badge = None\<rparr>]"

definition is_active :: "string \<Rightarrow> string \<Rightarrow> bool" where
  "is_active pathname href \<longleftrightarrow>
     pathname = href \<or> (href = ''/dashboard'' \<and> js_starts_with pathname ''/dashboard/chatbots'')"

text \<open>A link of the sidebar (and of the mobile bar, which renders the same
  items with the same test): highlighted or not, with its badge.\<close>

record nav_link =
  nl_name :: string
  nl_href :: string
  nl_active :: bool
  nl_badge :: "string option"

definition render_sidebar :: "string \<Rightarrow> nav_link list" where
  "render_sidebar pathname =
     map (\<lambda>i. \<lparr>nl_name = si_name i, nl_href = si_href i, nl_active = is_active pathname (si_href i),
               nl_badge = si_badge i\<rparr>) sidebar_items"

text \<open>The layout for a path: the sidebar once the guard lets the page through.\<close>

definition render_layout :: "string \<Rightarrow> auth_state \<Rightarrow> nav_link list option" where
  "render_layout pathname a =
     (case fst (layout_guard a) of RenderDashboard \<Rightarrow> Some (render_sidebar pathname) | _ \<Rightarrow> None)"

text \<open>\<open>handleLogout\<close> of the layout: home on success, nothing on error.\<close>

definition layout_logout :: "string option \<Rightarrow> auth_state \<Rightarrow> auth_state \<times> string option" where
  "layout_logout err a =
     (case logout err a of (Inr (), a1) \<Rightarrow> (a1, Some ''/'') | (Inl _, a1) \<Rightarrow> (a1, None))"

subsection \<open>Properties\<close>

text \<open>C13: \<open>verifyOTP\<close> for a user leaves every balance row as it was, except that a user without one gets a row with balance 0; an existing balance is never reset, even when the existence check fails.\<close>

theorem verify_otp_balance_row:
  "balances (snd (verify_otp (OtpOk (Some u)) read_fails st)) =
     (balances st)(u \<mapsto> (case balances st u of None \<Rightarrow> 0 | Some b \<Rightarrow> b))"
  by (auto simp: verify_otp_def insert_balance_def Let_def map_upd_triv split: option.splits)

text \<open>C31: Exactly one sidebar link is highlighted on the four pages it links
  to and on the chatbot detail pages (\<open>Chatbot\<close>), none elsewhere: the
  plans page \<open>/dashboard/plans\<close> highlights nothing.\<close>

theorem sidebar_active_count:
  "length (filter nl_active (render_sidebar p)) =
     (if p \<in> set (map si_href sidebar_items) \<or> js_starts_with p ''/dashboard/chatbots'' then 1 else 0)"
  by (auto simp: render_sidebar_def sidebar_items_def is_active_def js_starts_with_def)

end
