(* ===== verification/Config.thy ===== *)
theory Config
  imports Auth Chatbot_Page
begin

text \<open>
  Configuration and the remaining glue: the storage client of
  \<open>src/lib/supabase.ts\<close>, which falls back to placeholders when its two
  environment variables are missing (specification, section 6: degrade to a
  logged non-functional placeholder rather than crash), the reverse-proxy
  rewrite of \<open>src/next.config.js\<close> that sends \<open>/api/qr\<close> to the QR
  webhook, and the links, account menu and logout of
  \<open>src/components/Navbar.tsx\<close>.
\<close>

subsection \<open>The storage client\<close>

text \<open>An environment variable: unset (\<open>None\<close>) or a string; the empty string
  is falsy like an unset one.\<close>

definition env_value :: "string option \<Rightarrow> string option" where
  "env_value e = (case e of Some s \<Rightarrow> (if s = [] then None else Some s) | None \<Rightarrow> None)"

definition set_or_missing :: "string option \<Rightarrow> string" where
  "set_or_missing e = (if env_value e = None then ''Missing'' else ''Set'')"

text \<open>The URL and key handed to \<open>createClient\<close>, and the \<open>console.error\<close>
  lines printed at load.\<close>

definition client_config :: "string option \<Rightarrow> string option \<Rightarrow> (string \<times> string) \<times> string list" where
  "client_config url key =
     ((case env_value url of Some u \<Rightarrow> u | None \<Rightarrow> ''https://placeholder.supabase.co'',
       case env_value key of Some k \<Rightarrow> k | None \<Rightarrow> ''placeholder-key''),
      (if env_value url = None \<or> env_value key = None then
         [''Missing Supabase environment variables'',
          ''NEXT_PUBLIC_SUPABASE_URL: '' @ set_or_missing url,
          ''NEXT_PUBLIC_SUPABASE_ANON_KEY: '' @ set_or_missing key]
       else []))"

text \<open>The check of the chatbot page's \<open>fetchChatbot\<close> on the same variables.\<close>

definition supabase_configured :: "string option \<Rightarrow> string option \<Rightarrow> bool" where
  "supabase_configured url key \<longleftrightarrow> env_value url \<noteq> None \<and> env_value key \<noteq> None"

subsection \<open>The QR proxy\<close>

definition qr_rewrite :: "string \<Rightarrow> string option" where
  "qr_rewrite path =
     (if path = ''/api/qr'' then Some ''https://n8n.tanam.io/webhook/tanam.io/bot/QR'' else None)"

subsection \<open>The navigation bar\<close>

text \<open>The links of the bar (shown on wide screens).\<close>

definition navbar_links :: "(string \<times> string) list" where
  "navbar_links = [(''Beranda'', ''/''), (''Fitur'', ''#features''), (''Harga'', ''#pricing''), (''Kontak'', ''#contact'')]"

text \<open>The account area: for a signed-in user a menu with \<open>Dasbor\<close> and
  \<open>Keluar\<close>, otherwise the \<open>Masuk\<close> button linking to the login page.\<close>

datatype navbar_account = AccountMenu "(string \<times> string) list" | SignInLink string

definition navbar_account_of :: "auth_state \<Rightarrow> navbar_account" where
  "navbar_account_of a = (if au_user a = None then SignInLink ''/login'' else AccountMenu [(''Dasbor'', ''/dashboard'')])"

text \<open>\<open>handleLogout\<close> of the navigation bar: an error is only logged.\<close>

definition navbar_logout :: "string option \<Rightarrow> auth_state \<Rightarrow> auth_state" where
  "navbar_logout err a = snd (logout err a)"

subsection \<open>Properties\<close>

text \<open>The navigation bar follows the provider: after \<open>logout\<close> succeeds
  the session listener clears the user and the bar shows \<open>Masuk\<close>; a
  failed sign-out keeps the menu.\<close>

lemma navbar_after_logout:
  "navbar_account_of (auth_state_change None (navbar_logout None a)) = SignInLink ''/login''"
  "au_user a \<noteq> None \<Longrightarrow> navbar_account_of (navbar_logout (Some m) a) = AccountMenu [(''Dasbor'', ''/dashboard'')]"
  by (simp_all add: navbar_account_of_def navbar_logout_def logout_def auth_state_change_def session_user_def)

text \<open>Loading the storage client never fails.  With a variable unset or
  empty the client gets a placeholder, three error lines are logged, and
  every load of the chatbot page reports the missing configuration and
  navigates back to the dashboard, whatever the store holds.\<close>

theorem missing_config_degrades:
  assumes "env_value url = None"
  shows "fst (fst (client_config url key)) = ''https://placeholder.supabase.co''
       \<and> hd (snd (client_config url key)) = ''Missing Supabase environment variables''
       \<and> snd (cp_fetch_chatbot (Some u) (supabase_configured url key) r v) =
           (NoticeError ''Supabase configuration missing'', Some ''/dashboard'')"
  using assms by (simp add: client_config_def supabase_configured_def cp_fetch_chatbot_def)

theorem missing_config_degrades_witness:
  "fst (fst (client_config None (Some ''k''))) = ''https://placeholder.supabase.co''
   \<and> snd (cp_fetch_chatbot (Some ''u1'') (supabase_configured None (Some ''k'')) (DbOk (example_bot, None)) chatbot_view_init) =
       (NoticeError ''Supabase configuration missing'', Some ''/dashboard'')"
  using missing_config_degrades [of None "Some ''k''" "''u1''" "DbOk (example_bot, None)" chatbot_view_init]
  by (simp add: env_value_def)

end
