(* ===== verification/Balance_View.thy ===== *)
theory Balance_View
  imports Balance_Page Gateway
begin

text \<open>
  The presentation helpers of the balance page
  (\<open>src/app/dashboard/balance/page.tsx\<close>): the fixed-size pagination of the
  transaction and payment lists with its previous/next buttons and range
  label, and the payment status badge.  Specification 4.5: the view holder
  exposes the transaction list paginated with a fixed page size.  Also the
  page's tab and page-number state with the events that change it, what the
  tables show (rows, pager), and the top-up dialog's controls.
\<close>

subsection \<open>Pagination\<close>

definition items_per_page :: nat where
  "items_per_page = 5"

text \<open>\<open>getPaginatedData(data, page)\<close>: \<open>data.slice((page - 1) * 5, (page - 1) * 5 + 5)\<close>
  for the page numbers the page uses, which start at 1.\<close>

definition paginate :: "'a list \<Rightarrow> nat \<Rightarrow> 'a list" where
  "paginate xs page = take items_per_page (drop ((page - 1) * items_per_page) xs)"

text \<open>\<open>getTotalPages(n)\<close>: \<open>Math.ceil(n / 5)\<close>.\<close>

definition total_pages :: "nat \<Rightarrow> nat" where
  "total_pages n = (n + items_per_page - 1) div items_per_page"

text \<open>The buttons: \<open>Math.max(1, prev - 1)\<close> and \<open>Math.min(total, prev + 1)\<close>.\<close>

definition prev_page :: "nat \<Rightarrow> nat" where
  "prev_page p = max 1 (p - 1)"

definition next_page :: "nat \<Rightarrow> nat \<Rightarrow> nat" where
  "next_page t p = min t (p + 1)"

text \<open>The label \<open>Menampilkan from sampai to dari n\<close>.\<close>

definition range_label :: "nat \<Rightarrow> nat \<Rightarrow> nat \<times> nat" where
  "range_label p n = ((p - 1) * items_per_page + 1, min (p * items_per_page) n)"

subsection \<open>Payment status badge\<close>

datatype status_label = LabelPaid | LabelPending | LabelExpired | LabelOther string

definition payment_status_badge :: "string \<Rightarrow> status_label" where
  "payment_status_badge s =
     (if s = ''paid'' then LabelPaid else if s = ''pending'' then LabelPending
      else if s = ''expired'' then LabelExpired else LabelOther s)"

text \<open>The database string of a payment status.\<close>

fun payment_status_string :: "payment_status \<Rightarrow> string" where
  "payment_status_string Pending = ''pending''"
| "payment_status_string Paid = ''paid''"
| "payment_status_string Expired = ''expired''"

subsection \<open>Tabs and page numbers\<close>

datatype balance_tab = TabTransactions | TabPayments

record table_view =
  tb_tab :: balance_tab
  tb_tx_page :: nat
  tb_pay_page :: nat

definition table_view_init :: table_view where
  "table_view_init = \<lparr>tb_tab = TabTransactions, tb_tx_page = 1, tb_pay_page = 1\<rparr>"

text \<open>The tab buttons and the two pagers' buttons.  A pager is rendered only
  for a non-empty list, and a disabled button (\<open>Sebelumnya\<close> on page 1,
  \<open>Selanjutnya\<close> on the last page) does not fire.\<close>

datatype table_event = SelectTab balance_tab | TxPrev | TxNext | PayPrev | PayNext

definition pager_click :: "bool \<Rightarrow> nat \<Rightarrow> nat \<Rightarrow> nat" where
  "pager_click is_next n p =
     (if n = 0 then p
      else if is_next then (if p = total_pages n then p else next_page (total_pages n) p)
      else (if p = 1 then p else prev_page p))"

text \<open>A tab's pager is rendered only while that tab is shown.\<close>

fun table_step :: "nat \<Rightarrow> nat \<Rightarrow> table_view \<Rightarrow> table_event \<Rightarrow> table_view" where
  "table_step ntx npay v (SelectTab t) = v\<lparr>tb_tab := t\<rparr>"
| "table_step ntx npay v TxPrev =
     (if tb_tab v = TabTransactions then v\<lparr>tb_tx_page := pager_click False ntx (tb_tx_page v)\<rparr> else v)"
| "table_step ntx npay v TxNext =
     (if tb_tab v = TabTransactions then v\<lparr>tb_tx_page := pager_click True ntx (tb_tx_page v)\<rparr> else v)"
| "table_step ntx npay v PayPrev =
     (if tb_tab v = TabPayments then v\<lparr>tb_pay_page := pager_click False npay (tb_pay_page v)\<rparr> else v)"
| "table_step ntx npay v PayNext =
     (if tb_tab v = TabPayments then v\<lparr>tb_pay_page := pager_click True npay (tb_pay_page v)\<rparr> else v)"

subsection \<open>What the tables show\<close>

text \<open>A transaction row: date, description, the \<open>Penggunaan\<close> or
  \<open>Isi Saldo\<close> badge, the sign and the amount (formatting not modelled).\<close>

record tx_row_view =
  xr_created_at :: string
  xr_description :: "string option"
  xr_usage :: bool
  xr_sign :: string
  xr_amount :: "int option"

definition tx_row :: "transaction \<Rightarrow> tx_row_view" where
  "tx_row t =
     \<lparr>xr_created_at = t_created_at t, xr_description = t_description t, xr_usage = (t_type t = Usage),
      xr_sign = (if t_type t = Usage then ''-'' else ''+''), xr_amount = t_amount t\<rparr>"

text \<open>A payment row; the \<open>Bayar\<close> button opens the invoice of a pending
  payment that has one.\<close>

record pay_row_view =
  yr_created_at :: string
  yr_amount :: int
  yr_badge :: status_label
  yr_pay_url :: "string option"

definition payment_row :: "payment \<Rightarrow> pay_row_view" where
  "payment_row p =
     \<lparr>yr_created_at = p_created_at p, yr_amount = p_amount p,
      yr_badge = payment_status_badge (payment_status_string (p_status p)),
      yr_pay_url = (if payment_status_string (p_status p) = ''pending'' \<and> str_truthy (p_invoice_url p)
                    then p_invoice_url p else None)\<rparr>"

text \<open>The pager under a table: the range label, the page of the total, and
  which buttons are enabled.\<close>

record pager_view =
  pg_from :: nat
  pg_to :: nat
  pg_count :: nat
  pg_page :: nat
  pg_total :: nat
  pg_prev_enabled :: bool
  pg_next_enabled :: bool

definition pager :: "nat \<Rightarrow> nat \<Rightarrow> pager_view option" where
  "pager p n =
     (if n = 0 then None
      else Some \<lparr>pg_from = fst (range_label p n), pg_to = snd (range_label p n), pg_count = n, pg_page = p,
                 pg_total = total_pages n, pg_prev_enabled = (p \<noteq> 1), pg_next_enabled = (p \<noteq> total_pages n)\<rparr>)"

text \<open>The table card shows one tab; an empty page shows the
  \<open>Tidak ada ...\<close> row, here the empty row list.\<close>

datatype balance_table =
    TransactionsTable "tx_row_view list" "pager_view option"
  | PaymentsTable "pay_row_view list" "pager_view option"

definition render_balance_table :: "balance_view \<Rightarrow> table_view \<Rightarrow> balance_table" where
  "render_balance_table b v =
     (case tb_tab v of
        TabTransactions \<Rightarrow>
          TransactionsTable (map tx_row (paginate (bv_transactions b) (tb_tx_page v)))
            (pager (tb_tx_page v) (length (bv_transactions b)))
      | TabPayments \<Rightarrow>
          PaymentsTable (map payment_row (paginate (bv_payments b) (tb_pay_page v)))
            (pager (tb_pay_page v) (length (bv_payments b))))"

text \<open>A sequence of clicks on the tabs and pagers, for lists of fixed length.\<close>

definition table_run :: "nat \<Rightarrow> nat \<Rightarrow> table_view \<Rightarrow> table_event list \<Rightarrow> table_view" where
  "table_run ntx npay v es = foldl (table_step ntx npay) v es"

text \<open>Page numbers within range: from 1 to the last page, page 1 for an
  empty list.\<close>

definition page_in_range :: "nat \<Rightarrow> nat \<Rightarrow> bool" where
  "page_in_range n p \<longleftrightarrow> 1 \<le> p \<and> p \<le> max 1 (total_pages n)"

definition tables_wf :: "nat \<Rightarrow> nat \<Rightarrow> table_view \<Rightarrow> bool" where
  "tables_wf ntx npay v \<longleftrightarrow> page_in_range ntx (tb_tx_page v) \<and> page_in_range npay (tb_pay_page v)"

text \<open>What a consistent table shows for a list of \<open>n\<close> rows: no pager and no
  rows when the list is empty; otherwise a page between 1 and the last,
  whose label counts exactly the rows shown.\<close>

definition pager_consistent :: "'r list \<Rightarrow> pager_view option \<Rightarrow> nat \<Rightarrow> bool" where
  "pager_consistent rows pg n \<longleftrightarrow>
     (case pg of
        None \<Rightarrow> n = 0 \<and> rows = []
      | Some g \<Rightarrow> 0 < n \<and> pg_count g = n \<and> 1 \<le> pg_page g \<and> pg_page g \<le> pg_total g
                 \<and> pg_from g \<le> pg_to g \<and> length rows = pg_to g - pg_from g + 1)"

subsection \<open>The top-up dialog's controls\<close>

text \<open>The three preset buttons set the amount field.\<close>

definition topup_presets :: "string list" where
  "topup_presets = [''50000'', ''100000'', ''200000'']"

definition set_topup_amount :: "string \<Rightarrow> topup_view \<Rightarrow> topup_view" where
  "set_topup_amount a v = v\<lparr>tv_amount := a\<rparr>"

definition topup_submit_enabled :: "topup_view \<Rightarrow> bool" where
  "topup_submit_enabled v \<longleftrightarrow> \<not> tv_loading v \<and> tv_amount v \<noteq> []"

definition topup_submit_label :: "topup_view \<Rightarrow> string" where
  "topup_submit_label v = (if tv_loading v then ''Memproses...'' else ''Isi Saldo'')"

subsection \<open>Properties\<close>

lemma paginate_prefix:
  "concat (map (paginate xs) [1..<Suc k]) = take (k * items_per_page) xs"
proof (induction k)
  case 0
  then show ?case by simp
next
  case (Suc k)
  have "concat (map (paginate xs) [1..<Suc (Suc k)]) = take (k * items_per_page) xs @ paginate xs (Suc k)"
    using Suc.IH by simp
  also have "\<dots> = take (k * items_per_page + items_per_page) xs"
    by (simp only: paginate_def take_add diff_Suc_1)
  also have "\<dots> = take (Suc k * items_per_page) xs"
    by (simp add: add.commute)
  finally show ?case .
qed

lemma total_pages_covers: "n \<le> total_pages n * items_per_page"
  unfolding total_pages_def items_per_page_def by linarith

text \<open>C40: Pagination loses and repeats nothing: the pages \<open>1 .. getTotalPages(n)\<close> of a list, put one after the other, give back the list.\<close>

theorem pages_partition: "concat (map (paginate xs) [1..<total_pages (length xs) + 1]) = xs"
  using paginate_prefix [of xs "total_pages (length xs)"] total_pages_covers [of "length xs"] by simp

text \<open>From a page in range, both buttons stay in range.\<close>

lemma page_nav_in_range:
  assumes "1 \<le> p" "p \<le> t"
  shows "1 \<le> prev_page p \<and> prev_page p \<le> t \<and> 1 \<le> next_page t p \<and> next_page t p \<le> t"
  using assms by (simp add: prev_page_def next_page_def)

lemma total_pages_pos: "0 < n \<Longrightarrow> 0 < total_pages n"
  unfolding total_pages_def items_per_page_def by simp

lemma pager_click_in_range:
  assumes "page_in_range n p"
  shows "page_in_range n (pager_click b n p)"
  using assms total_pages_pos [of n]
  by (auto simp: pager_click_def page_in_range_def prev_page_def next_page_def)

lemma table_step_wf:
  assumes "tables_wf ntx npay v"
  shows "tables_wf ntx npay (table_step ntx npay v e)"
  using assms by (cases e) (simp_all add: tables_wf_def pager_click_in_range)

lemma table_run_wf:
  "tables_wf ntx npay v \<Longrightarrow> tables_wf ntx npay (table_run ntx npay v es)"
  unfolding table_run_def by (induction es arbitrary: v) (simp_all add: table_step_wf)

text \<open>On a page in range of a non-empty list the label counts exactly the
  rows shown: \<open>from\<close> is at most \<open>to\<close>, and \<open>to - from + 1\<close> is the
  length of the page.\<close>

lemma pager_matches_rows:
  assumes "page_in_range (length xs) p" "xs \<noteq> []"
  shows "\<exists>g. pager p (length xs) = Some g \<and> pg_from g \<le> pg_to g
           \<and> length (paginate xs p) = pg_to g - pg_from g + 1"
proof -
  let ?n = "length xs"
  have p1: "1 \<le> p" and pt: "p \<le> total_pages ?n"
    using assms total_pages_pos [of ?n] by (auto simp: page_in_range_def)
  obtain q where q: "p = Suc q" using p1 by (cases p) simp_all
  have "total_pages ?n * 5 \<le> ?n + 4"
    unfolding total_pages_def items_per_page_def by simp
  then have lt: "q * 5 < ?n" using pt q by simp
  have "length (paginate xs p) = min 5 (?n - q * 5)"
    by (simp add: paginate_def items_per_page_def q)
  moreover have "pager p ?n = Some \<lparr>pg_from = q * 5 + 1, pg_to = min (q * 5 + 5) ?n, pg_count = ?n, pg_page = p,
                 pg_total = total_pages ?n, pg_prev_enabled = (p \<noteq> 1), pg_next_enabled = (p \<noteq> total_pages ?n)\<rparr>"
    using assms(2) by (simp add: pager_def range_label_def items_per_page_def q)
  ultimately show ?thesis using lt by auto
qed

lemma page_view_consistent:
  assumes "page_in_range (length xs) p"
  shows "pager_consistent (map f (paginate xs p)) (pager p (length xs)) (length xs)"
proof (cases "xs = []")
  case True
  then show ?thesis by (simp add: pager_consistent_def pager_def paginate_def)
next
  case False
  with assms obtain g where g: "pager p (length xs) = Some g" "pg_from g \<le> pg_to g"
      "length (paginate xs p) = pg_to g - pg_from g + 1"
    using pager_matches_rows by blast
  have "1 \<le> p" "p \<le> total_pages (length xs)"
    using assms False total_pages_pos [of "length xs"] by (auto simp: page_in_range_def)
  with g False show ?thesis
    by (auto simp: pager_consistent_def pager_def split: if_splits)
qed

text \<open>C39: Whatever the user clicks on the tabs and the two pagers, the table
  shown is consistent with its list: no pager and the empty row exactly
  when the list is empty, otherwise a page between 1 and
  \<open>getTotalPages\<close> whose \<open>Menampilkan from sampai to\<close> label counts
  exactly the rows on the page.\<close>

theorem balance_table_consistent:
  "(case render_balance_table b (table_run (length (bv_transactions b)) (length (bv_payments b)) table_view_init es) of
      TransactionsTable rows pg \<Rightarrow> pager_consistent rows pg (length (bv_transactions b))
    | PaymentsTable rows pg \<Rightarrow> pager_consistent rows pg (length (bv_payments b)))"
proof -
  let ?v = "table_run (length (bv_transactions b)) (length (bv_payments b)) table_view_init es"
  have "tables_wf (length (bv_transactions b)) (length (bv_payments b)) table_view_init"
    by (simp add: tables_wf_def page_in_range_def table_view_init_def)
  then have "tables_wf (length (bv_transactions b)) (length (bv_payments b)) ?v"
    by (rule table_run_wf)
  then show ?thesis
    by (simp add: render_balance_table_def tables_wf_def page_view_consistent split: balance_tab.split)
qed

text \<open>The page number is not reset when a refresh returns fewer rows: on
  page 3 of a list that shrank to four rows the table is empty and the label
  reads \<open>11 sampai 4 dari 4\<close>.\<close>

theorem page_not_reset_after_refresh:
  "paginate [1::nat, 2, 3, 4] 3 = [] \<and> total_pages 4 = 1 \<and> range_label 3 4 = (11, 4)"
  by (simp add: paginate_def total_pages_def range_label_def items_per_page_def)

end
