(* ===== verification/Login.thy ===== *)
theory Login
  imports Auth
begin

text \<open>
  The login page \<open>src/app/login/page.tsx\<close>: sending and verifying the
  e-mail OTP, Google login, the 60-second cooldown after a rate-limit error,
  and what the form shows.  The page is a deterministic machine over the
  user's events and the answers of the authentication client; its
  well-formedness invariant holds in every reachable state.
\<close>

subsection \<open>State and handlers\<close>

datatype login_step = StepEmail | StepOtp

record login_view =
  lv_email :: string
  lv_otp :: string
  lv_step :: login_step
  lv_loading :: bool
  lv_error :: string
  lv_cooldown_active :: bool
  lv_cooldown_time :: int

definition login_view_init :: login_view where
  "login_view_init =
     \<lparr>lv_email = [], lv_otp = [], lv_step = StepEmail, lv_loading = False, lv_error = [],
      lv_cooldown_active = False, lv_cooldown_time = 0\<rparr>"

definition cooldown_duration :: int where
  "cooldown_duration = 60"

text \<open>An error of the authentication client: message, HTTP status, code.\<close>

record auth_error =
  ae_message :: string
  ae_status :: "nat option"
  ae_code :: "string option"

definition is_rate_limit :: "auth_error \<Rightarrow> string \<Rightarrow> bool" where
  "is_rate_limit e msg \<longleftrightarrow>
     ae_status e = Some 429 \<or> ae_code e = Some ''over_email_send_rate_limit''
     \<or> js_includes msg ''email rate limit exceeded'' \<or> js_includes msg ''rate limit''"

text \<open>\<open>login(email)\<close> of the provider: \<open>signInWithOtp\<close> with
  \<open>shouldCreateUser: true\<close>; an error of the client is thrown to the page.\<close>

record otp_request =
  or_email :: string
  or_should_create_user :: bool

definition auth_login :: "string \<Rightarrow> auth_error option \<Rightarrow> otp_request \<times> (auth_error + unit)" where
  "auth_login email err =
     (\<lparr>or_email = email, or_should_create_user = True\<rparr>, case err of Some e \<Rightarrow> Inl e | None \<Rightarrow> Inr ())"

datatype login_toast =
    NoToast | ToastTooFast string | ToastOtpSent string | ToastRateLimit string | ToastError string
  | ToastWelcome

definition wait_message :: "int \<Rightarrow> string" where
  "wait_message t = ''Tunggu '' @ int_to_string t @ '' detik sebelum mengirim OTP lagi''"

text \<open>\<open>handleSendOTP\<close>, given the answer of \<open>login(email)\<close>.\<close>

definition handle_send_otp :: "login_view \<Rightarrow> auth_error + unit \<Rightarrow> login_view \<times> login_toast" where
  "handle_send_otp v r =
     (if lv_cooldown_active v then
        (v\<lparr>lv_error := wait_message (lv_cooldown_time v)\<rparr>, ToastTooFast (wait_message (lv_cooldown_time v)))
      else if lv_email v = [] then (v\<lparr>lv_error := ''Email harus diisi''\<rparr>, NoToast)
      else
        (case r of
           Inr () \<Rightarrow> (v\<lparr>lv_step := StepOtp, lv_error := [], lv_loading := False\<rparr>,
                      ToastOtpSent (''Kode OTP telah dikirim ke '' @ lv_email v))
         | Inl e \<Rightarrow>
             (let msg = (if ae_message e = [] then ''Terjadi kesalahan saat mengirim OTP'' else ae_message e)
              in if is_rate_limit e msg then
                   (v\<lparr>lv_error := msg, lv_loading := False, lv_cooldown_active := True,
                      lv_cooldown_time := cooldown_duration\<rparr>,
                    ToastRateLimit (''Terlalu banyak permintaan. Tunggu '' @ int_to_string cooldown_duration @
                      '' detik sebelum mencoba lagi.''))
                 else (v\<lparr>lv_error := msg, lv_loading := False\<rparr>, ToastError msg))))"

text \<open>One second of the cooldown interval; once the counter reaches zero the
  interval is cleared, so later ticks change nothing.\<close>

definition cooldown_tick :: "login_view \<Rightarrow> login_view" where
  "cooldown_tick v =
     (if \<not> lv_cooldown_active v then v
      else if lv_cooldown_time v \<le> 1 then v\<lparr>lv_cooldown_active := False, lv_cooldown_time := 0\<rparr>
      else v\<lparr>lv_cooldown_time := lv_cooldown_time v - 1\<rparr>)"

text \<open>\<open>handleVerifyOTP\<close>, given the answer of \<open>verifyOTP\<close>; success
  navigates to \<open>/dashboard\<close>.\<close>

definition handle_verify_otp :: "login_view \<Rightarrow> string + unit \<Rightarrow> login_view \<times> login_toast \<times> string option" where
  "handle_verify_otp v r =
     (if lv_otp v = [] then (v\<lparr>lv_error := ''Kode OTP harus diisi''\<rparr>, NoToast, None)
      else
        (case r of
           Inr () \<Rightarrow> (v\<lparr>lv_error := [], lv_loading := False\<rparr>, ToastWelcome, Some ''/dashboard'')
         | Inl m \<Rightarrow>
             (let msg = (if m = [] then ''Kode OTP tidak valid'' else m)
              in (v\<lparr>lv_error := msg, lv_loading := False\<rparr>, ToastError msg, None))))"

definition handle_google_login :: "login_view \<Rightarrow> string + unit \<Rightarrow> login_view \<times> login_toast" where
  "handle_google_login v r =
     (case r of
        Inr () \<Rightarrow> (v\<lparr>lv_error := [], lv_loading := False\<rparr>, NoToast)
      | Inl m \<Rightarrow>
          (let msg = (if m = [] then ''Terjadi kesalahan saat login dengan Google'' else m)
           in (v\<lparr>lv_error := msg, lv_loading := False\<rparr>, ToastError msg)))"

subsection \<open>What the form shows\<close>

text \<open>The card's title and description by step (lines 158 to 166).\<close>

definition login_title :: "login_view \<Rightarrow> string" where
  "login_title v = (if lv_step v = StepEmail then ''Masuk ke Akun'' else ''Verifikasi OTP'')"

definition login_description :: "login_view \<Rightarrow> string" where
  "login_description v =
     (if lv_step v = StepEmail then ''Masukkan email Anda untuk mendapatkan kode OTP''
      else ''Kami telah mengirim kode OTP ke '' @ lv_email v)"

text \<open>The send button: its label and whether it is disabled.\<close>

definition send_button_label :: "login_view \<Rightarrow> string" where
  "send_button_label v =
     (if lv_loading v then ''Mengirim...''
      else if lv_cooldown_active v then ''Tunggu '' @ int_to_string (lv_cooldown_time v) @ ''s''
      else ''Kirim OTP'')"

definition send_disabled :: "login_view \<Rightarrow> bool" where
  "send_disabled v \<longleftrightarrow> lv_loading v \<or> lv_cooldown_active v"

subsection \<open>The page as a machine\<close>

text \<open>The user's events: typing in the two fields (the OTP field keeps at
  most six characters, \<open>maxLength={6}\<close>), the three submissions with the
  answer of the authentication client, a second of the cooldown interval,
  and \<open>Kembali ke Email\<close>.\<close>

datatype login_event =
    EvEmail string
  | EvOtp string
  | EvSendOtp "auth_error + unit"
  | EvVerifyOtp "string + unit"
  | EvGoogle "string + unit"
  | EvTick
  | EvBackToEmail

text \<open>An event reaches its handler only when its control is on the screen
  and enabled: the e-mail field, the send button (\<open>disabled={loading ||
  cooldownActive}\<close>) and the Google button (\<open>disabled={loading}\<close>) in
  the e-mail step; the OTP field, the verify button (\<open>disabled={loading}\<close>)
  and \<open>Kembali ke Email\<close> in the OTP step.  The cooldown interval ticks
  whatever the step.\<close>

fun login_transition :: "login_view \<Rightarrow> login_event \<Rightarrow> login_view" where
  "login_transition v (EvEmail e) = (if lv_step v = StepEmail then v\<lparr>lv_email := e\<rparr> else v)"
| "login_transition v (EvOtp t) = (if lv_step v = StepOtp then v\<lparr>lv_otp := take 6 t\<rparr> else v)"
| "login_transition v (EvSendOtp r) =
     (if lv_step v = StepEmail \<and> \<not> send_disabled v then fst (handle_send_otp v r) else v)"
| "login_transition v (EvVerifyOtp r) =
     (if lv_step v = StepOtp \<and> \<not> lv_loading v then fst (handle_verify_otp v r) else v)"
| "login_transition v (EvGoogle r) =
     (if lv_step v = StepEmail \<and> \<not> lv_loading v then fst (handle_google_login v r) else v)"
| "login_transition v EvTick = cooldown_tick v"
| "login_transition v EvBackToEmail = (if lv_step v = StepOtp then v\<lparr>lv_step := StepEmail\<rparr> else v)"

inductive login_reachable :: "login_view \<Rightarrow> bool" where
  init: "login_reachable login_view_init"
| step: "login_reachable v \<Longrightarrow> login_reachable (login_transition v e)"

text \<open>Well-formedness of the page state: the cooldown is active exactly
  while its counter is positive, the counter never exceeds the cooldown,
  the OTP field holds at most six characters, and the OTP step always has
  the address the code was sent to (its description never reads
  \<open>Kami telah mengirim kode OTP ke \<close> with nothing after it).\<close>

definition login_wf :: "login_view \<Rightarrow> bool" where
  "login_wf v \<longleftrightarrow>
     (lv_cooldown_active v \<longleftrightarrow> 0 < lv_cooldown_time v)
     \<and> 0 \<le> lv_cooldown_time v \<and> lv_cooldown_time v \<le> cooldown_duration
     \<and> length (lv_otp v) \<le> 6
     \<and> (lv_step v = StepOtp \<longrightarrow> lv_email v \<noteq> [])"

subsection \<open>Properties\<close>

lemma cooldown_ticks_active:
  "lv_cooldown_active v \<Longrightarrow> lv_cooldown_time v = int k + int j + 1 \<Longrightarrow>
   lv_cooldown_active ((cooldown_tick ^^ j) v) \<and> lv_cooldown_time ((cooldown_tick ^^ j) v) = int k + 1"
proof (induction j arbitrary: v)
  case 0
  then show ?case by simp
next
  case (Suc j)
  let ?v1 = "cooldown_tick v"
  have "lv_cooldown_active ?v1" "lv_cooldown_time ?v1 = int k + int j + 1"
    using Suc.prems by (simp_all add: cooldown_tick_def)
  with Suc.IH [of ?v1] show ?case by (simp add: funpow_Suc_right del: funpow.simps)
qed

text \<open>C33: A cooldown of \<open>k\<close> seconds lasts exactly \<open>k\<close> ticks: still active after \<open>k - 1\<close>, over after \<open>k\<close>.\<close>

theorem cooldown_ends:
  assumes "lv_cooldown_active v" "lv_cooldown_time v = int k" "1 \<le> k"
  shows "lv_cooldown_active ((cooldown_tick ^^ (k - 1)) v) \<and> \<not> lv_cooldown_active ((cooldown_tick ^^ k) v)"
proof -
  have t: "lv_cooldown_time v = int 0 + int (k - 1) + 1" using assms(2,3) by simp
  note a = cooldown_ticks_active [OF assms(1) t]
  have "(cooldown_tick ^^ k) v = cooldown_tick ((cooldown_tick ^^ (k - 1)) v)"
    using assms(3) by (metis Suc_diff_1 funpow.simps(2) comp_apply less_eq_Suc_le Suc_le_eq One_nat_def)
  with a show ?thesis by (simp add: cooldown_tick_def)
qed

lemma send_otp_wf:
  assumes "login_wf v" shows "login_wf (fst (handle_send_otp v r))"
  using assms unfolding handle_send_otp_def Let_def
  by (simp add: login_wf_def cooldown_duration_def split: sum.split unit.split) blast

lemma verify_otp_wf:
  assumes "login_wf v" shows "login_wf (fst (handle_verify_otp v r))"
  using assms unfolding handle_verify_otp_def Let_def
  by (simp add: login_wf_def split: sum.split unit.split)

lemma google_login_wf:
  assumes "login_wf v" shows "login_wf (fst (handle_google_login v r))"
  using assms unfolding handle_google_login_def Let_def
  by (simp add: login_wf_def split: sum.split unit.split)

lemma cooldown_tick_wf:
  assumes "login_wf v" shows "login_wf (cooldown_tick v)"
  using assms unfolding login_wf_def cooldown_tick_def by simp

lemma login_transition_wf:
  assumes "login_wf v"
  shows "login_wf (login_transition v e)"
  using assms
  by (cases e) (simp_all add: send_otp_wf verify_otp_wf google_login_wf cooldown_tick_wf,
                auto simp: login_wf_def)

text \<open>Sending the code through the provider: the request asks for the
  address typed in the field, and once it succeeds the OTP step names that
  same address.\<close>

lemma send_otp_names_requested_address:
  assumes "\<not> lv_cooldown_active v" "lv_email v \<noteq> []"
  shows "or_email (fst (auth_login (lv_email v) None)) = lv_email v
       \<and> login_description (fst (handle_send_otp v (snd (auth_login (lv_email v) None)))) =
           ''Kami telah mengirim kode OTP ke '' @ or_email (fst (auth_login (lv_email v) None))"
  using assms by (simp add: auth_login_def handle_send_otp_def login_description_def split: unit.split)

text \<open>C34: Every state the login page can reach is well formed: the cooldown
  is active exactly while its counter is positive, the counter stays within
  0 to 60, the OTP field holds at most six characters, and the OTP step is
  only ever shown with a non-empty e-mail address.\<close>

theorem login_reachable_wf: "login_reachable v \<Longrightarrow> login_wf v"
proof (induction rule: login_reachable.induct)
  case init
  then show ?case by (simp add: login_wf_def login_view_init_def cooldown_duration_def)
next
  case (step v e)
  from step.IH show ?case by (rule login_transition_wf)
qed

theorem cooldown_ends_witness:
  "lv_cooldown_active ((cooldown_tick ^^ 59) (fst (handle_send_otp (login_view_init\<lparr>lv_email := ''a@b.c''\<rparr>)
      (Inl \<lparr>ae_message = ''email rate limit exceeded'', ae_status = Some 429, ae_code = None\<rparr>))))
   \<and> \<not> lv_cooldown_active ((cooldown_tick ^^ 60) (fst (handle_send_otp (login_view_init\<lparr>lv_email := ''a@b.c''\<rparr>)
      (Inl \<lparr>ae_message = ''email rate limit exceeded'', ae_status = Some 429, ae_code = None\<rparr>))))"
proof -
  let ?v = "fst (handle_send_otp (login_view_init\<lparr>lv_email := ''a@b.c''\<rparr>)
      (Inl \<lparr>ae_message = ''email rate limit exceeded'', ae_status = Some 429, ae_code = None\<rparr>))"
  have h: "lv_cooldown_active ?v" "lv_cooldown_time ?v = int 60" "1 \<le> (60::nat)"
    by (simp_all add: handle_send_otp_def login_view_init_def is_rate_limit_def cooldown_duration_def)
  from cooldown_ends [OF h] show ?thesis by simp
qed

theorem login_reachable_wf_witness:
  "login_reachable (login_transition (login_transition login_view_init (EvEmail ''a@b.c'')) (EvSendOtp (Inr ())))
   \<and> login_wf (login_transition (login_transition login_view_init (EvEmail ''a@b.c'')) (EvSendOtp (Inr ())))"
proof -
  have r: "login_reachable (login_transition (login_transition login_view_init (EvEmail ''a@b.c'')) (EvSendOtp (Inr ())))"
    by (rule login_reachable.step [OF login_reachable.step [OF login_reachable.init]])
  from r login_reachable_wf [OF r] show ?thesis by simp
qed

end
