(* ===== verification/Spec2Isabelle.thy ===== *)
theory Spec2Isabelle
  imports Dashboard_View Chatbot_View Config Balance_View Login
begin

text \<open>
  \<^bold>\<open>A verification model of the tanambot.ai dashboard.\<close>

  The program is a Next.js client (\<open>src/\<close>) for a WhatsApp chatbot service.
  Users sign in by e-mail OTP or Google, top up a prepaid balance, create
  bots on a plan, pair them by QR code and renew them.  All state lives in a
  remote store (tables \<open>balances\<close>, \<open>transactions\<close>, \<open>payments\<close>,
  \<open>chatbot\<close>, \<open>plans\<close>, typed in \<open>src/lib/supabase.ts\<close>); business
  actions are webhooks whose answers the client sniffs.  The pages read and
  write the store directly, so the client code is where balance consistency
  is kept or lost.  This development models that code as executable HOL
  functions and proves what it guarantees and where it falls short.

  \<^bold>\<open>Theories and what they model.\<close>
  \<^item> \<open>Prelude\<close>: JSON values with JavaScript's property reads (a read on
    \<open>null\<close> is a \<open>TypeError\<close>), truthiness, \<open>||\<close>, \<open>String()\<close>,
    \<open>includes\<close>/\<open>startsWith\<close>, decimal rendering; storage results
    \<open>DbOk\<close>/\<open>DbErr\<close>.
  \<^item> \<open>Ledger\<close>: transaction rows and the \<open>reduce\<close> that derives a balance
    (\<open>fetchUserData\<close> of \<open>src/app/dashboard/balance/page.tsx\<close> and
    \<open>handleCreateBot\<close> of \<open>src/app/dashboard/page.tsx\<close>); proved equal to
    the signed sum of the log (spec 4.2), hence order independent.
  \<^item> \<open>Tables\<close>: the rows and a \<open>store\<close> record; insert, upsert keyed on
    \<open>user_id\<close>, update filtered by id and user.  The storage service is not in
    the repository: these follow the specification (section 4.2).
  \<^item> \<open>Balance_Page\<close>: \<open>fetchUserData\<close> as the list of writes and state
    updates it issues for each answer of its three reads, run on a store and
    the page state.  Lemmas: the cycle with and without a balance row, the
    balance is applied once and last (spec 8.8), idempotence, consistency
    with the ledger, other users untouched, and the read-failure path that
    writes 0 (a finding).
  \<^item> \<open>Gateway\<close>: \<open>handleTopup\<close> of the balance page: guards, request body
    with \<open>parseInt\<close>, non-2xx and unparseable answers, the four-way shape
    test, catch/finally.  Refinement of the spec's normalised result (4.3)
    through \<open>topup_shape_of\<close>; the spec's 8.5 examples; a \<open>parseInt\<close>
    round trip.
  \<^item> \<open>Renewal\<close>: \<open>handleRenew\<close> of \<open>src/app/dashboard/chatbots/[id]/page.tsx\<close>:
    the five-read poll loop (a \<open>function\<close> with a measure), confirmation or
    the fallback patch, error messages; the spec's Idle/Requested/Polling/
    Confirmed/TimedOut machine as an inductive step relation that the loop
    refines, with its invariant by rule induction.
  \<^item> \<open>Dashboard\<close>: the dashboard's reads (\<open>fetchChatbots\<close>,
    \<open>fetchPlans\<close>, \<open>fetchBalance\<close>), the create-button guard,
    \<open>handleCreateBot\<close> with the post-create compensation (a usage row and a
    balance upsert, deduplicated by a Postgres \<open>ILIKE\<close> query whose pattern
    language is modelled), \<open>handleDeleteBot\<close>, \<open>resetForm\<close>, the search
    filter and the schedule of reads.  Which storage
    calls fail is an input; the remote action is any function on the store.
  \<^item> \<open>Dashboard_QR\<close>: \<open>fetchQRCode\<close> with its abort timer, the refresh
    countdown, the \<open>WORKING\<close> watcher and the status badge.
  \<^item> \<open>Dashboard_View\<close>: what the dashboard shows: a table row with its
    fallbacks (\<open>Bot Tanpa Nama\<close>, \<open>Tanpa Paket\<close>, \<open>Gratis\<close>), the
    joined plan, the loading/empty/filled table and footer count, the
    create dialog's summary (with no balance row its shortfall is
    \<open>NaN\<close>, a finding), its open/close handler, and the QR dialog.
  \<^item> \<open>Auth\<close>: \<open>src/contexts/AuthContext.tsx\<close> (session and cookie,
    \<open>verifyOTP\<close> creating a zero balance row, \<open>logout\<close>) and the
    guard, sidebar and mobile bar (which link is highlighted, proved for every path) of \<open>src/app/dashboard/layout.tsx\<close>.
  \<^item> \<open>Login\<close>: \<open>src/app/login/page.tsx\<close>: \<open>handleSendOTP\<close> with
    the rate-limit cooldown and its interval, \<open>handleVerifyOTP\<close>,
    \<open>handleGoogleLogin\<close>, the card's title, description and send button.
    The page is a transition function \<open>login_transition\<close> over its form
    events (typing, the three submissions with the client's answer, a tick,
    back to e-mail), each guarded by the step that renders its control and
    the control's \<open>disabled\<close> condition; \<open>login_reachable\<close> is the
    inductive set of its states and \<open>login_wf\<close> their well-formedness
    (cooldown counter, OTP length, an e-mail in the OTP step), proved by
    rule induction.
  \<^item> \<open>Plans\<close>: \<open>src/app/dashboard/plans/page.tsx\<close>: the mount effect and
    its three reads (which commute), purchase dialog and its figures,
    balance guard, \<open>handlePurchase\<close>, the plan cards and the loading view
    (without a \<open>chatbotId\<close> the page never leaves it, a finding);
    \<open>daysRemaining\<close> (the same code as \<open>getDaysLeft\<close> elsewhere) with
    its bounds.
  \<^item> \<open>Chatbot_Page\<close>: the chatbot page apart from renewal: reads, usage
    refresh, prompt save and update, toggle, usage percentage (proved equal
    to the dashboard's) and the simulated chat as a step function over
    send, reply-timer and restart events.
  \<^item> \<open>Chatbot_View\<close>: what the chatbot page shows: header and switch,
    the prompt button, the usage and plan tabs with their fallbacks, and the
    renewal dialog's figures, notice and confirm button (a bot with no
    joined plan can never be renewed there, a finding).
  \<^item> \<open>Balance_View\<close>: the balance page's pagination (the pages partition
    the list), its tab and page-number state as a step function over the
    click events, the rows and pager each tab shows (for every click
    sequence the pager's label counts exactly the rows shown), the payment
    status badge and \<open>Bayar\<close> button, the top-up dialog's controls.
  \<^item> \<open>Config\<close>: the storage client's placeholder fallback
    (\<open>src/lib/supabase.ts\<close>), the \<open>/api/qr\<close> rewrite of
    \<open>src/next.config.js\<close>, the navigation bar's links, account area and logout.

  \<^bold>\<open>How the parts interact.\<close>  Every writer of the \<open>balances\<close> row works on
  the one \<open>store\<close>: the balance page cycle (insert 0, then upsert),
  \<open>verifyOTP\<close> (insert 0), the post-create compensation (upsert) and the
  renewal patch.  The theorem below composes the compensation with the
  balance page: after a compensation that wrote, the next refresh of the
  balance page shows the ledger's value and writes nothing.  The login page
  calls the provider's \<open>login\<close> (\<open>auth_login\<close>) and \<open>verifyOTP\<close>, whose
  answers drive its handlers; the layout and the navigation bar read the
  provider's user.

  \<^bold>\<open>Bounds and fuel.\<close>  The renewal loop makes at most five reads
  (\<open>max_attempts\<close>, from the source); termination is by the measure
  \<open>max_attempts - attempt\<close>, so no fuel is needed.  The QR fetch aborts at
  10000 ms (\<open>qr_timeout_ms\<close>), modelled by the latency of the answer.  The
  QR countdown runs from 10 to 1 and the login cooldown for 60 ticks; both
  are step functions iterated a given number of times.  Days remaining are
  bounded by the started days to expiry, and the usage percentage lies in
  0 to 100 while usage stays within quota.  The balance tables' page
  numbers stay within 1 to \<open>getTotalPages\<close> under any clicks, for lists
  of fixed length (a refresh that shrinks a list is the finding
  \<open>page_not_reset_after_refresh\<close>).

  \<^bold>\<open>Not modelled.\<close>  Styling, icons and static markup of the JSX (what a
  page shows is modelled as view functions returning records of the texts,
  figures and enabled controls it renders), toasts and console output (they
  are outcome values where a handler's result depends on them); the reads
  started by the dashboard's 5 s and 2 s intervals are scheduled, not
  interleaved with the handlers; \<open>formatCurrency\<close>, \<open>formatDate\<close> and message time stamps
  (locale formatting of \<open>Intl\<close>); the landing, settings and agency pages
  (static markup) and \<open>cn\<close> of \<open>src/lib/utils.ts\<close> (a call into class-name
  libraries); the storage and authentication services, whose behaviour is
  taken from the specification or is an input, and the Postgres pattern
  language of \<open>ILIKE\<close>, modelled from its documentation.  Case folding is
  modelled on ASCII letters only, and \<open>Math.round(u / q * 100)\<close> in exact
  arithmetic, not in floating point.  Concurrency between overlapping
  refresh cycles is not modelled: each handler runs to completion on the
  store it is given.
\<close>

text \<open>C14: Composition of the dashboard and the balance page: after a
  post-create compensation that wrote and whose upsert succeeded, the next
  refresh of the balance page leaves the store unchanged and shows the
  balance that the transaction log gives.\<close>

theorem compensation_then_balance_page:
  assumes "post_create_reconcile fails i n u plan name prev st \<noteq> st" "\<not> fails BalUpsert"
  shows "fst (fetch_cycle (post_create_reconcile fails i n u plan name prev st) v u) =
           post_create_reconcile fails i n u plan name prev st
       \<and> bv_balance (snd (fetch_cycle (post_create_reconcile fails i n u plan name prev st) v u)) =
           reconcile (user_txs u (transactions (post_create_reconcile fails i n u plan name prev st)))"
  using post_create_reconcile_balance [OF assms] by (simp add: fetch_cycle_def fetch_blocks)

theorem compensation_then_balance_page_witness:
  "bv_balance (snd (fetch_cycle
      (post_create_reconcile (\<lambda>_. False) ''t1'' ''n'' ''u1'' (Some example_plan) ''bot'' (Some 0) example_dash_store)
      balance_view_init ''u1'')) = 0"
proof -
  have h: "post_create_reconcile (\<lambda>_. False) ''t1'' ''n'' ''u1'' (Some example_plan) ''bot'' (Some 0) example_dash_store
     \<noteq> example_dash_store" "\<not> (\<lambda>_. False) BalUpsert"
    by (simp_all add: compensation_eval)
  from compensation_then_balance_page [OF h, of balance_view_init] show ?thesis
    by (simp add: compensation_eval usage_row_def)
qed

end
